theory Spec2Isabelle
  imports Main "HOL-Library.Word" "HOL-Library.AList"
begin

section \<open>Values of the host language\<close>

text \<open>
  A JavaScript string is a sequence of UTF-16 code units, a \<open>Buffer\<close> a sequence of
  bytes. A row field typed \<open>any\<close> is one of the values below. A thrown exception is a
  value of \<open>js_error\<close>; a computation that may throw returns \<open>js_error + 'a\<close>.
\<close>

type_synonym byte = "8 word"
type_synonym jsstring = "16 word list"

datatype jsval = JUndefined | JNull | JStr jsstring | JBuf "byte list" | JNum int

datatype js_error = Thrown

text \<open>\<open>!raw\<close>: undefined, null, the empty string and the number 0 are falsy.\<close>

fun falsy :: "jsval \<Rightarrow> bool" where
  "falsy JUndefined = True"
| "falsy JNull = True"
| "falsy (JStr s) = (s = [])"
| "falsy (JBuf b) = False"
| "falsy (JNum n) = (n = 0)"

text \<open>\<open>try { body } catch { handler }\<close>.\<close>

definition try_catch :: "js_error + 'a \<Rightarrow> js_error + 'a \<Rightarrow> js_error + 'a" where
  "try_catch body handler = (case body of Inl e \<Rightarrow> handler | Inr v \<Rightarrow> Inr v)"

text \<open>
  The library calls the report services make, taken as parameters:
  \<open>Buffer.toString('utf-8')\<close>, \<open>Buffer.from(s, 'base64')\<close> (both total on their
  inputs: invalid input is replaced or skipped, never thrown),
  \<open>fzstd.decompress\<close>, which throws on a malformed frame, and
  \<open>String.prototype.toLowerCase\<close>.
\<close>

record runtime =
  utf8_toString :: "byte list \<Rightarrow> jsstring"
  base64_from :: "jsstring \<Rightarrow> byte list"
  fzstd_decompress :: "byte list \<Rightarrow> js_error + byte list"
  toLowerCase :: "jsstring \<Rightarrow> jsstring"

section \<open>Content decoder\<close>

definition is_digit :: "16 word \<Rightarrow> bool" where
  "is_digit c = (0x30 \<le> c \<and> c \<le> 0x39)"

definition is_upper :: "16 word \<Rightarrow> bool" where
  "is_upper c = (0x41 \<le> c \<and> c \<le> 0x5A)"

definition is_lower :: "16 word \<Rightarrow> bool" where
  "is_lower c = (0x61 \<le> c \<and> c \<le> 0x7A)"

text \<open>The character class \<open>[0-9a-fA-F]\<close>.\<close>

definition is_hex_char :: "16 word \<Rightarrow> bool" where
  "is_hex_char c = (is_digit c \<or> (0x61 \<le> c \<and> c \<le> 0x66) \<or> (0x41 \<le> c \<and> c \<le> 0x46))"

text \<open>The character class \<open>[A-Za-z0-9+/=]\<close>.\<close>

definition is_base64_char :: "16 word \<Rightarrow> bool" where
  "is_base64_char c = (is_upper c \<or> is_lower c \<or> is_digit c \<or> c = 0x2B \<or> c = 0x2F \<or> c = 0x3D)"

text \<open>A regular expression \<open>/^[class]+$/\<close>: at least one character, all in the class.\<close>

definition looksLikeHex :: "jsstring \<Rightarrow> bool" where
  "looksLikeHex s = (if length s mod 2 \<noteq> 0 then False else s \<noteq> [] \<and> list_all is_hex_char s)"

definition looksLikeBase64 :: "jsstring \<Rightarrow> bool" where
  "looksLikeBase64 s = (if length s mod 4 \<noteq> 0 then False else s \<noteq> [] \<and> list_all is_base64_char s)"

definition hex_value :: "16 word \<Rightarrow> byte option" where
  "hex_value c =
     (if is_digit c then Some (ucast (c - 0x30))
      else if 0x61 \<le> c \<and> c \<le> 0x66 then Some (ucast (c - 0x61 + 10))
      else if 0x41 \<le> c \<and> c \<le> 0x46 then Some (ucast (c - 0x41 + 10))
      else None)"

text \<open>\<open>Buffer.from(s, 'hex')\<close>: one byte for each pair of hex digits, stopping at the
  first pair that is not one.\<close>

fun hex_from :: "jsstring \<Rightarrow> byte list" where
  "hex_from (a # b # rest) =
     (case (hex_value a, hex_value b) of
        (Some x, Some y) \<Rightarrow> (x * 16 + y) # hex_from rest
      | _ \<Rightarrow> [])"
| "hex_from _ = []"

text \<open>\<open>Buffer.toString('latin1')\<close>: every byte is one code unit.\<close>

definition latin1_toString :: "byte list \<Rightarrow> jsstring" where
  "latin1_toString data = map ucast data"

text \<open>\<open>data.readUInt32LE(0)\<close>, for a buffer of at least four bytes.\<close>

fun readUInt32LE :: "byte list \<Rightarrow> int" where
  "readUInt32LE (b0 # b1 # b2 # b3 # rest) =
     uint b0 + 256 * uint b1 + 65536 * uint b2 + 16777216 * uint b3"
| "readUInt32LE _ = 0"

definition REPLACEMENT :: "16 word" where
  "REPLACEMENT = 0xFFFD"

text \<open>
  The body of the \<open>try\<close> block of \<open>decodeBinaryContent\<close>. The test
  \<open>replacementCount < decoded.length * 0.2\<close> is written over the integers as
  \<open>5 * replacementCount < decoded.length\<close>: the two agree for every string length.
\<close>

definition decodeBinaryContent_try :: "runtime \<Rightarrow> byte list \<Rightarrow> js_error + jsstring" where
  "decodeBinaryContent_try rt data =
     (if length data \<ge> 4 \<and> readUInt32LE data = 0xFD2FB528 then
        (case fzstd_decompress rt data of
           Inl e \<Rightarrow> Inl e
         | Inr decompressed \<Rightarrow> Inr (utf8_toString rt decompressed))
      else
        (let decoded = utf8_toString rt data;
             replacementCount = count_list decoded REPLACEMENT
         in if 5 * replacementCount < length decoded
            then Inr (filter (\<lambda>c. c \<noteq> REPLACEMENT) decoded)
            else Inr (latin1_toString data)))"

definition decodeBinaryContent :: "runtime \<Rightarrow> byte list \<Rightarrow> js_error + jsstring" where
  "decodeBinaryContent rt data =
     (if length data = 0 then Inr []
      else try_catch (decodeBinaryContent_try rt data) (Inr []))"

definition decodeMaybeCompressed :: "runtime \<Rightarrow> jsval \<Rightarrow> js_error + jsstring" where
  "decodeMaybeCompressed rt raw =
     (if falsy raw then Inr []
      else case raw of
        JStr s \<Rightarrow>
          if length s = 0 then Inr []
          else if looksLikeHex s \<and> length (hex_from s) > 0
            then decodeBinaryContent rt (hex_from s)
          else if looksLikeBase64 s
            then try_catch (decodeBinaryContent rt (base64_from rt s)) (Inr s)
          else Inr s
      | _ \<Rightarrow> Inr [])"

definition decodeMessageContent :: "runtime \<Rightarrow> jsval \<Rightarrow> jsval \<Rightarrow> js_error + jsstring" where
  "decodeMessageContent rt messageContent compressContent =
     (case decodeMaybeCompressed rt compressContent of
        Inl e \<Rightarrow> Inl e
      | Inr content \<Rightarrow>
          if content = [] then decodeMaybeCompressed rt messageContent
          else Inr content)"

section \<open>Strings\<close>

text \<open>An ASCII literal as a string of the host language.\<close>

definition str :: "string \<Rightarrow> jsstring" where
  "str cs = map (\<lambda>c. of_nat (of_char c)) cs"

text \<open>White space as \<open>String.prototype.trim\<close> and the class \<open>\s\<close> read it.\<close>

definition is_space :: "16 word \<Rightarrow> bool" where
  "is_space c =
     ((0x09 \<le> c \<and> c \<le> 0x0D) \<or> c = 0x20 \<or> c = 0xA0 \<or> c = 0x1680
      \<or> (0x2000 \<le> c \<and> c \<le> 0x200A) \<or> c = 0x2028 \<or> c = 0x2029 \<or> c = 0x202F
      \<or> c = 0x205F \<or> c = 0x3000 \<or> c = 0xFEFF)"

definition trim :: "jsstring \<Rightarrow> jsstring" where
  "trim s = rev (dropWhile is_space (rev (dropWhile is_space s)))"

definition startsWith :: "jsstring \<Rightarrow> jsstring \<Rightarrow> bool" where
  "startsWith p s = (take (length p) s = p)"

fun str_includes :: "jsstring \<Rightarrow> jsstring \<Rightarrow> bool" where
  "str_includes p [] = (p = [])"
| "str_includes p (c # cs) = (startsWith p (c # cs) \<or> str_includes p cs)"

section \<open>Local time\<close>

text \<open>
  A valid \<open>Date\<close> is its time value in seconds since the epoch; the local zone is a
  fixed offset \<open>tz\<close> in seconds east of UTC (no daylight saving change), and every
  timestamp is taken to lie in the range a \<open>Date\<close> can hold. Days are counted from
  1970-01-01, a Thursday. Calendar fields follow the proleptic Gregorian calendar.
\<close>

datatype jsdate = Date int | InvalidDate

type_synonym ymd = "int \<times> int \<times> int"

definition localDay :: "int \<Rightarrow> int \<Rightarrow> int" where
  "localDay tz t = (t + tz) div 86400"

definition getHours :: "int \<Rightarrow> int \<Rightarrow> nat" where
  "getHours tz t = nat (((t + tz) mod 86400) div 3600)"

text \<open>\<open>getDay\<close>: Sunday is 0, Saturday is 6.\<close>

definition getDay :: "int \<Rightarrow> int \<Rightarrow> nat" where
  "getDay tz t = nat ((localDay tz t + 4) mod 7)"

text \<open>Year, month (1 to 12) and day of the month of a day number.\<close>

definition civil_from_days :: "int \<Rightarrow> ymd" where
  "civil_from_days z0 =
     (let z = z0 + 719468;
          era = z div 146097;
          doe = z mod 146097;
          yoe = (doe - doe div 1460 + doe div 36524 - doe div 146096) div 365;
          doy = doe - (365 * yoe + yoe div 4 - yoe div 100);
          mp = (5 * doy + 2) div 153;
          d = doy - (153 * mp + 2) div 5 + 1;
          m = (if mp < 10 then mp + 3 else mp - 9);
          y = yoe + era * 400 + (if m \<le> 2 then 1 else 0)
      in (y, m, d))"

text \<open>The day number of a calendar date: the inverse of \<open>civil_from_days\<close>.\<close>

definition days_from_civil :: "ymd \<Rightarrow> int" where
  "days_from_civil c =
     (case c of (y0, m, d) \<Rightarrow>
        let y = (if m \<le> 2 then y0 - 1 else y0);
            era = y div 400;
            yoe = y mod 400;
            doy = (153 * (if m > 2 then m - 3 else m + 9) + 2) div 5 + d - 1;
            doe = yoe * 365 + yoe div 4 - yoe div 100 + doy
        in era * 146097 + doe - 719468)"

text \<open>\<open>(getFullYear, getMonth + 1, getDate)\<close> of a time value.\<close>

definition localYmd :: "int \<Rightarrow> int \<Rightarrow> ymd" where
  "localYmd tz t = civil_from_days (localDay tz t)"

text \<open>\<open>new Date(dt.getFullYear(), dt.getMonth(), dt.getDate())\<close>: local midnight of
  the day of \<open>t\<close>.\<close>

definition localMidnight :: "int \<Rightarrow> int \<Rightarrow> int" where
  "localMidnight tz t = localDay tz t * 86400 - tz"

text \<open>\<open>new Date(y, m, d, hh, mm, ss).getTime() / 1000\<close> for local calendar fields.\<close>

definition localTime :: "int \<Rightarrow> ymd \<Rightarrow> int \<Rightarrow> int" where
  "localTime tz c secs = days_from_civil c * 86400 + secs - tz"

text \<open>\<open>formatDateYmd\<close>; the fields stand for the text \<open>y-mm-dd\<close>. An invalid date
  has no fields.\<close>

fun formatDateYmd :: "int \<Rightarrow> jsdate \<Rightarrow> ymd option" where
  "formatDateYmd tz (Date t) = Some (localYmd tz t)"
| "formatDateYmd tz InvalidDate = None"

section \<open>Rows, cursors and the store\<close>

text \<open>
  A message row as the scan reads it: \<open>create_time\<close> is
  \<open>parseInt(row.create_time || '0', 10)\<close> (0 also stands for a field that does not
  parse: both are skipped by \<open>!createTime\<close>), \<open>is_send\<close> is
  \<open>parseInt(row.computed_is_send ?? row.is_send ?? '0', 10) === 1\<close> and
  \<open>local_type\<close> is \<open>parseInt(row.local_type || row.type || '1', 10)\<close>.
\<close>

record row =
  create_time :: int
  is_send :: bool
  local_type :: int
  message_content :: jsval
  compress_content :: jsval

text \<open>
  One answer of \<open>fetchMessageBatch\<close>: a failure, or rows and the \<open>hasMore\<close> flag.
  A cursor is the finite sequence of answers it gives; past its end a fetch fails.
\<close>

datatype fetch = FetchFailed | Batch "row list" bool

type_synonym cursor = "fetch list"

section \<open>Accumulators\<close>

record conv_stats =
  initiated :: nat
  received :: nat

record last_msg =
  msg_time :: int
  msg_isSent :: bool

record response_stat =
  resp_avg :: int
  resp_count :: nat

text \<open>
  The variables of one report generation. Every \<open>Map\<close> is an association list in
  insertion order (\<open>Map.set\<close> keeps the place of a key it already has, and appends a
  new one). \<open>cursorsOpened\<close> is not a variable of the source: it records each call of
  \<open>openMessageCursorLite\<close>.
\<close>

record accum =
  conversationStarts :: "(jsstring \<times> conv_stats) list"
  responseTimeStats :: "(jsstring \<times> int list) list"
  lastMessageTime :: "(jsstring \<times> last_msg) list"
  phraseCount :: "(jsstring \<times> nat) list"
  heatmapData :: "nat list list"
  midnightStats :: "(jsstring \<times> nat) list"
  dailyContactStats :: "(ymd \<times> (jsstring \<times> nat) list) list"
  processedMessages :: nat
  longestStreakSessionId :: jsstring
  longestStreakDays :: nat
  longestStreakStart :: "jsdate option"
  longestStreakEnd :: "jsdate option"
  useSqlExtras :: bool
  responseStatsFromSql :: "(jsstring \<times> response_stat) list option"
  topPhrasesFromSql :: "(jsstring \<times> nat) list option"
  streakComputedInLoop :: bool
  cursorsOpened :: "jsstring list"

text \<open>The locals of one session's streak computation.\<close>

record streak =
  lastDayIndex :: "int option"
  currentStreak :: nat
  currentStart :: "jsdate option"
  maxStreak :: nat
  maxStart :: "jsdate option"
  maxEnd :: "jsdate option"

definition streak0 :: streak where
  "streak0 = \<lparr>lastDayIndex = None, currentStreak = 0, currentStart = None,
              maxStreak = 0, maxStart = None, maxEnd = None\<rparr>"

text \<open>\<open>map.get(k) || 0\<close>.\<close>

definition get_or0 :: "('k \<times> nat) list \<Rightarrow> 'k \<Rightarrow> nat" where
  "get_or0 m k = (case map_of m k of None \<Rightarrow> 0 | Some n \<Rightarrow> n)"

definition CONVERSATION_GAP :: int where
  "CONVERSATION_GAP = 3600"

subsection \<open>Conversation starts and response times\<close>

definition conversation_start :: "jsstring \<Rightarrow> bool \<Rightarrow> accum \<Rightarrow> accum" where
  "conversation_start sessionId isSent a =
     (let convStats = (case map_of (conversationStarts a) sessionId of
                         None \<Rightarrow> \<lparr>initiated = 0, received = 0\<rparr>
                       | Some c \<Rightarrow> c)
      in a\<lparr>conversationStarts :=
             AList.update sessionId
               (if isSent then convStats\<lparr>initiated := initiated convStats + 1\<rparr>
                else convStats\<lparr>received := received convStats + 1\<rparr>)
               (conversationStarts a)\<rparr>)"

definition push_response :: "jsstring \<Rightarrow> int \<Rightarrow> accum \<Rightarrow> accum" where
  "push_response sessionId responseTime a =
     a\<lparr>responseTimeStats :=
         AList.update sessionId
           ((case map_of (responseTimeStats a) sessionId of None \<Rightarrow> [] | Some ts \<Rightarrow> ts)
              @ [responseTime])
           (responseTimeStats a)\<rparr>"

definition observe_conversation :: "jsstring \<Rightarrow> int \<Rightarrow> bool \<Rightarrow> accum \<Rightarrow> accum" where
  "observe_conversation sessionId createTime isSent a =
     (let a0 = (if map_of (conversationStarts a) sessionId = None
                then a\<lparr>conversationStarts :=
                        AList.update sessionId \<lparr>initiated = 0, received = 0\<rparr> (conversationStarts a)\<rparr>
                else a);
          a1 = (case map_of (lastMessageTime a0) sessionId of
                  None \<Rightarrow> conversation_start sessionId isSent a0
                | Some lastMsg \<Rightarrow>
                    if createTime - msg_time lastMsg > CONVERSATION_GAP
                      then conversation_start sessionId isSent a0
                    else if msg_isSent lastMsg \<noteq> isSent then
                      (if isSent \<and> \<not> msg_isSent lastMsg then
                         (let responseTime = createTime - msg_time lastMsg
                          in if responseTime > 0 \<and> responseTime < 86400
                             then push_response sessionId responseTime a0
                             else a0)
                       else a0)
                    else a0)
      in a1\<lparr>lastMessageTime :=
              AList.update sessionId \<lparr>msg_time = createTime, msg_isSent = isSent\<rparr>
                (lastMessageTime a1)\<rparr>)"

subsection \<open>Phrases\<close>

text \<open>The eligibility test of a phrase, with the upper bound on its length.\<close>

definition phrase_ok :: "nat \<Rightarrow> jsstring \<Rightarrow> bool" where
  "phrase_ok maxLen text =
     (length text \<ge> 2 \<and> length text \<le> maxLen \<and>
      \<not> str_includes (str ''http'') text \<and> \<not> str_includes (str ''<'') text \<and>
      \<not> startsWith (str ''['') text \<and> \<not> startsWith (str ''<?xml'') text)"

definition count_phrase :: "jsstring \<Rightarrow> (jsstring \<times> nat) list \<Rightarrow> (jsstring \<times> nat) list" where
  "count_phrase text m = AList.update text (get_or0 m text + 1) m"

text \<open>The annual report counts text messages sent by the user. The decoder never
  throws, so its \<open>Inl\<close> case is not reached.\<close>

definition observe_phrase :: "runtime \<Rightarrow> row \<Rightarrow> accum \<Rightarrow> accum" where
  "observe_phrase rt r a =
     (if (local_type r = 1 \<or> local_type r = 244813135921) \<and> is_send r then
        (case decodeMessageContent rt (message_content r) (compress_content r) of
           Inl e \<Rightarrow> a
         | Inr content \<Rightarrow>
             (let text = trim content
              in if phrase_ok 20 text
                 then a\<lparr>phraseCount := count_phrase text (phraseCount a)\<rparr>
                 else a))
      else a)"

subsection \<open>Heatmap, midnight and peak day\<close>

definition weekdayIndex :: "int \<Rightarrow> int \<Rightarrow> nat" where
  "weekdayIndex tz t = (if getDay tz t = 0 then 6 else getDay tz t - 1)"

text \<open>\<open>heatmapData[w][h]++\<close>. The grid is 7 by 24 and the indices are in range; outside
  the grid nothing is written.\<close>

definition heatmap_inc :: "nat \<Rightarrow> nat \<Rightarrow> nat list list \<Rightarrow> nat list list" where
  "heatmap_inc w h hm =
     (if w < length hm \<and> h < length (hm ! w)
      then hm[w := (hm ! w)[h := hm ! w ! h + 1]]
      else hm)"

definition observe_heatmap :: "int \<Rightarrow> int \<Rightarrow> accum \<Rightarrow> accum" where
  "observe_heatmap tz createTime a =
     a\<lparr>heatmapData := heatmap_inc (weekdayIndex tz createTime) (getHours tz createTime) (heatmapData a)\<rparr>"

definition observe_midnight :: "int \<Rightarrow> jsstring \<Rightarrow> int \<Rightarrow> accum \<Rightarrow> accum" where
  "observe_midnight tz sessionId createTime a =
     (if getHours tz createTime \<ge> 0 \<and> getHours tz createTime < 6
      then a\<lparr>midnightStats :=
               AList.update sessionId (get_or0 (midnightStats a) sessionId + 1) (midnightStats a)\<rparr>
      else a)"

text \<open>\<open>peakDayKey\<close> is \<open>None\<close> for the empty key.\<close>

definition observe_peakDay :: "int \<Rightarrow> ymd option \<Rightarrow> jsstring \<Rightarrow> int \<Rightarrow> accum \<Rightarrow> accum" where
  "observe_peakDay tz peakDayKey sessionId createTime a =
     (case peakDayKey of
        None \<Rightarrow> a
      | Some pk \<Rightarrow>
          (let dayKey = localYmd tz createTime
           in if dayKey = pk then
                (let dayContactMap = (case map_of (dailyContactStats a) dayKey of
                                        None \<Rightarrow> [] | Some m \<Rightarrow> m)
                 in a\<lparr>dailyContactStats :=
                        AList.update dayKey
                          (AList.update sessionId (get_or0 dayContactMap sessionId + 1) dayContactMap)
                          (dailyContactStats a)\<rparr>)
              else a))"

subsection \<open>Streak\<close>

definition dayIndexOf :: "int \<Rightarrow> int \<Rightarrow> int" where
  "dayIndexOf tz createTime = localMidnight tz createTime div 86400"

text \<open>The streak step of the full scan.\<close>

definition observe_streak :: "int \<Rightarrow> int \<Rightarrow> streak \<Rightarrow> streak" where
  "observe_streak tz createTime s =
     (let dayDate = Date (localMidnight tz createTime);
          dayIndex = dayIndexOf tz createTime
      in if lastDayIndex s = None \<or> lastDayIndex s \<noteq> Some dayIndex then
           (let s1 = (if lastDayIndex s \<noteq> None \<and> lastDayIndex s = Some (dayIndex - 1)
                      then s\<lparr>currentStreak := currentStreak s + 1\<rparr>
                      else s\<lparr>currentStreak := 1, currentStart := Some dayDate\<rparr>);
                s2 = (if currentStreak s1 > maxStreak s1
                      then s1\<lparr>maxStreak := currentStreak s1, maxStart := currentStart s1,
                              maxEnd := Some dayDate\<rparr>
                      else s1)
            in s2\<lparr>lastDayIndex := Some dayIndex\<rparr>)
         else s)"

text \<open>The streak step of \<open>computeLongestStreak\<close>, which skips a repeated day first.\<close>

definition streak_step :: "int \<Rightarrow> int \<Rightarrow> streak \<Rightarrow> streak" where
  "streak_step tz createTime s =
     (let dayDate = Date (localMidnight tz createTime);
          dayIndex = dayIndexOf tz createTime
      in if lastDayIndex s \<noteq> None \<and> lastDayIndex s = Some dayIndex then s
         else
           (let s1 = (if lastDayIndex s \<noteq> None \<and> lastDayIndex s = Some (dayIndex - 1)
                      then s\<lparr>currentStreak := currentStreak s + 1\<rparr>
                      else s\<lparr>currentStreak := 1, currentStart := Some dayDate\<rparr>);
                s2 = (if currentStreak s1 > maxStreak s1
                      then s1\<lparr>maxStreak := currentStreak s1, maxStart := currentStart s1,
                              maxEnd := Some dayDate\<rparr>
                      else s1)
            in s2\<lparr>lastDayIndex := Some dayIndex\<rparr>))"

section \<open>The full scan\<close>

text \<open>
  One row of the scan loop of \<open>generateReportWithConfig\<close>. \<open>peakDayKey\<close> and
  \<open>totalMessagesForProgress\<close> are fixed before the loop. Progress messages and the
  yield after each batch change none of the variables and are left out.
\<close>

definition scan_row ::
  "runtime \<Rightarrow> int \<Rightarrow> ymd option \<Rightarrow> nat \<Rightarrow> jsstring \<Rightarrow> accum \<times> streak \<Rightarrow> row \<Rightarrow> accum \<times> streak" where
  "scan_row rt tz peakDayKey totalMessagesForProgress sessionId st r =
     (case st of (a, s) \<Rightarrow>
        if create_time r = 0 then (a, s)
        else
          (let createTime = create_time r;
               a1 = observe_conversation sessionId createTime (is_send r) a;
               a2 = observe_phrase rt r a1;
               a3 = observe_heatmap tz createTime a2;
               s' = observe_streak tz createTime s;
               a4 = observe_midnight tz sessionId createTime a3;
               a5 = observe_peakDay tz peakDayKey sessionId createTime a4;
               a6 = (if totalMessagesForProgress > 0
                     then a5\<lparr>processedMessages := processedMessages a5 + 1\<rparr> else a5)
           in (a6, s')))"

text \<open>The loop \<open>while (hasMore)\<close> over the answers of \<open>fetchMessageBatch\<close>.\<close>

fun scan_batches ::
  "runtime \<Rightarrow> int \<Rightarrow> ymd option \<Rightarrow> nat \<Rightarrow> jsstring \<Rightarrow> cursor \<Rightarrow> accum \<times> streak \<Rightarrow> accum \<times> streak" where
  "scan_batches rt tz pk tot sessionId [] st = st"
| "scan_batches rt tz pk tot sessionId (FetchFailed # rest) st = st"
| "scan_batches rt tz pk tot sessionId (Batch rows hasMore # rest) st =
     (let st' = foldl (scan_row rt tz pk tot sessionId) st rows
      in if hasMore then scan_batches rt tz pk tot sessionId rest st' else st')"

text \<open>
  The store, through the calls the annual report makes. A cursor that does not open is
  \<open>None\<close>. \<open>st_sessions\<close> are the keys of \<open>d.sessions\<close>, the contacts whose
  names the report looks up. A call of the store either answers, as the fields of the
  store say, or rejects, which throws at the \<open>await\<close>; \<open>rejects\<close> says which calls
  do. A call on a cursor is named by the session, the batch size of the cursor and, for a
  fetch, its number.
\<close>

datatype store_call =
    CallOpen jsstring jsstring jsstring
  | CallGetSessions
  | CallStats "jsstring list" int int
  | CallExtras "jsstring list" int int int int
  | CallOpenCursor jsstring nat int int
  | CallFetch jsstring nat nat
  | CallCloseCursor jsstring nat
  | CallDisplayNames "jsstring list"
  | CallAvatarUrls "jsstring list"

record base_stats =
  st_total :: nat
  st_sessions :: "jsstring list"
  st_daily :: "(ymd \<times> nat) list"

record stats_result =
  sr_success :: bool
  sr_data :: "base_stats option"
  sr_error :: "jsstring option"

record streak_payload =
  sp_sessionId :: jsstring
  sp_days :: nat
  sp_startDate :: "jsdate option"
  sp_endDate :: "jsdate option"

record extras_payload =
  x_heatmap :: "nat list list option"
  x_midnight :: "(jsstring \<times> nat) list option"
  x_conversation :: "(jsstring \<times> conv_stats) list option"
  x_response :: "(jsstring \<times> response_stat) list option"
  x_peakDay :: "(jsstring \<times> nat) list option"
  x_topPhrases :: "(jsstring \<times> nat) list option"
  x_streak :: "streak_payload option"

record extras_result =
  er_success :: bool
  er_data :: "extras_payload option"
  er_error :: "jsstring option"

record sessions_result =
  gs_success :: bool
  gs_sessions :: "jsstring list option"

record store =
  wcdb_open :: "jsstring \<Rightarrow> jsstring \<Rightarrow> jsstring \<Rightarrow> bool"
  getSessions :: sessions_result
  openMessageCursorLite :: "jsstring \<Rightarrow> nat \<Rightarrow> int \<Rightarrow> int \<Rightarrow> cursor option"
  getAnnualReportStats :: "jsstring list \<Rightarrow> int \<Rightarrow> int \<Rightarrow> stats_result"
  getAnnualReportExtras :: "jsstring list \<Rightarrow> int \<Rightarrow> int \<Rightarrow> int \<Rightarrow> int \<Rightarrow> extras_result"
  rejects :: "store_call \<Rightarrow> bool"

text \<open>One session of the scan loop: open the cursor, scan it, then compare the
  session's longest streak with the best so far.\<close>

definition scan_session ::
  "runtime \<Rightarrow> int \<Rightarrow> store \<Rightarrow> ymd option \<Rightarrow> nat \<Rightarrow> int \<Rightarrow> int \<Rightarrow> accum \<Rightarrow> jsstring \<Rightarrow> accum" where
  "scan_session rt tz db pk tot startTime endTime a sessionId =
     (let a0 = a\<lparr>cursorsOpened := cursorsOpened a @ [sessionId]\<rparr>
      in case openMessageCursorLite db sessionId 1000 startTime endTime of
           None \<Rightarrow> a0
         | Some cur \<Rightarrow>
             (case scan_batches rt tz pk tot sessionId cur (a0, streak0) of
                (a1, s) \<Rightarrow>
                  if maxStreak s > longestStreakDays a1
                  then a1\<lparr>longestStreakDays := maxStreak s,
                          longestStreakSessionId := sessionId,
                          longestStreakStart := maxStart s,
                          longestStreakEnd := maxEnd s\<rparr>
                  else a1))"

definition full_scan ::
  "runtime \<Rightarrow> int \<Rightarrow> store \<Rightarrow> ymd option \<Rightarrow> nat \<Rightarrow> int \<Rightarrow> int \<Rightarrow> jsstring list \<Rightarrow> accum \<Rightarrow> accum" where
  "full_scan rt tz db pk tot startTime endTime sessionIds a =
     foldl (scan_session rt tz db pk tot startTime endTime) a sessionIds"

section \<open>The streak-only scan\<close>

record streak_result =
  res_sessionId :: jsstring
  res_days :: nat
  res_start :: "jsdate option"
  res_end :: "jsdate option"

definition streak_row :: "int \<Rightarrow> streak \<Rightarrow> row \<Rightarrow> streak" where
  "streak_row tz s r = (if create_time r = 0 then s else streak_step tz (create_time r) s)"

fun streak_batches :: "int \<Rightarrow> cursor \<Rightarrow> streak \<Rightarrow> streak" where
  "streak_batches tz [] s = s"
| "streak_batches tz (FetchFailed # rest) s = s"
| "streak_batches tz (Batch rows hasMore # rest) s =
     (let s' = foldl (streak_row tz) s rows
      in if hasMore then streak_batches tz rest s' else s')"

text \<open>One session of \<open>computeLongestStreak\<close>; the second component lists the cursors
  opened.\<close>

definition streak_session ::
  "int \<Rightarrow> store \<Rightarrow> int \<Rightarrow> int \<Rightarrow> streak_result \<times> jsstring list \<Rightarrow> jsstring \<Rightarrow> streak_result \<times> jsstring list" where
  "streak_session tz db beginTimestamp endTimestamp st sessionId =
     (case st of (best, opened) \<Rightarrow>
        (case openMessageCursorLite db sessionId 2000 beginTimestamp endTimestamp of
           None \<Rightarrow> (best, opened @ [sessionId])
         | Some cur \<Rightarrow>
             (let s = streak_batches tz cur streak0
              in if maxStreak s > res_days best
                 then (\<lparr>res_sessionId = sessionId, res_days = maxStreak s,
                        res_start = maxStart s, res_end = maxEnd s\<rparr>, opened @ [sessionId])
                 else (best, opened @ [sessionId]))))"

definition computeLongestStreak ::
  "int \<Rightarrow> store \<Rightarrow> jsstring list \<Rightarrow> int \<Rightarrow> int \<Rightarrow> streak_result \<times> jsstring list" where
  "computeLongestStreak tz db sessionIds beginTimestamp endTimestamp =
     foldl (streak_session tz db beginTimestamp endTimestamp)
       (\<lparr>res_sessionId = [], res_days = 0, res_start = None, res_end = None\<rparr>, [])
       sessionIds"

section \<open>The fast path\<close>

text \<open>\<open>for (const [k, v] of Object.entries(o)) m.set(k, v)\<close>.\<close>

definition set_all :: "('k \<times> 'v) list \<Rightarrow> ('k \<times> 'v) list \<Rightarrow> ('k \<times> 'v) list" where
  "set_all entries m = foldl (\<lambda>acc kv. AList.update (fst kv) (snd kv) acc) m entries"

text \<open>\<open>heatmap[w][h] || 0\<close>: a cell the payload does not have reads as 0.\<close>

definition cell_or0 :: "nat list \<Rightarrow> nat \<Rightarrow> nat" where
  "cell_or0 xs h = (if h < length xs then xs ! h else 0)"

definition initial_heatmap :: "nat list list" where
  "initial_heatmap = replicate 7 (replicate 24 0)"

text \<open>
  The branch \<open>extras.success && extras.data\<close>, one function for each block of it.
  The two loops over a payload heatmap of seven rows assign every cell of the 7 by 24
  grid. A date of the streak is \<open>None\<close>
  when the payload has no text for it, and \<open>Some InvalidDate\<close> when the text does not
  parse.
\<close>

fun is_valid_date :: "jsdate option \<Rightarrow> bool" where
  "is_valid_date (Some (Date t)) = True"
| "is_valid_date _ = False"

definition extras_heatmap :: "extras_payload \<Rightarrow> accum \<Rightarrow> accum" where
  "extras_heatmap extrasData a =
     (case x_heatmap extrasData of
        Some heatmap \<Rightarrow>
          if length heatmap = 7
          then a\<lparr>heatmapData := map (\<lambda>w. map (\<lambda>h. cell_or0 (heatmap ! w) h) [0..<24]) [0..<7]\<rparr>
          else a
      | None \<Rightarrow> a)"

definition extras_midnight :: "extras_payload \<Rightarrow> accum \<Rightarrow> accum" where
  "extras_midnight extrasData a =
     (case x_midnight extrasData of
        Some midnight \<Rightarrow> a\<lparr>midnightStats := set_all midnight (midnightStats a)\<rparr>
      | None \<Rightarrow> a)"

definition extras_conversation :: "extras_payload \<Rightarrow> accum \<Rightarrow> accum" where
  "extras_conversation extrasData a =
     (case x_conversation extrasData of
        Some conversation \<Rightarrow>
          a\<lparr>conversationStarts := set_all conversation (conversationStarts a)\<rparr>
      | None \<Rightarrow> a)"

definition extras_response :: "extras_payload \<Rightarrow> accum \<Rightarrow> accum" where
  "extras_response extrasData a = a\<lparr>responseStatsFromSql := x_response extrasData\<rparr>"

definition extras_peakDay :: "ymd option \<Rightarrow> extras_payload \<Rightarrow> accum \<Rightarrow> accum" where
  "extras_peakDay peakDayKey extrasData a =
     (case (peakDayKey, x_peakDay extrasData) of
        (Some pk, Some peakDayCounts) \<Rightarrow>
          (let dayMap = set_all peakDayCounts []
           in if length dayMap > 0
              then a\<lparr>dailyContactStats := AList.update pk dayMap (dailyContactStats a)\<rparr>
              else a)
      | _ \<Rightarrow> a)"

definition extras_topPhrases :: "extras_payload \<Rightarrow> accum \<Rightarrow> accum" where
  "extras_topPhrases extrasData a =
     (case x_topPhrases extrasData of
        Some sqlPhrases \<Rightarrow>
          if length sqlPhrases > 0 then a\<lparr>topPhrasesFromSql := Some sqlPhrases\<rparr> else a
      | None \<Rightarrow> a)"

definition extras_streak :: "extras_payload \<Rightarrow> accum \<Rightarrow> accum" where
  "extras_streak extrasData a =
     (case x_streak extrasData of
        Some streak \<Rightarrow>
          if sp_sessionId streak \<noteq> [] \<and> sp_days streak > 0 then
            (let b = a\<lparr>longestStreakSessionId := sp_sessionId streak,
                        longestStreakDays := sp_days streak,
                        longestStreakStart := sp_startDate streak,
                        longestStreakEnd := sp_endDate streak\<rparr>
             in if is_valid_date (sp_startDate streak) \<and> is_valid_date (sp_endDate streak)
                then b\<lparr>streakComputedInLoop := True\<rparr>
                else b)
          else a
      | None \<Rightarrow> a)"

definition apply_extras :: "ymd option \<Rightarrow> extras_payload \<Rightarrow> accum \<Rightarrow> accum" where
  "apply_extras peakDayKey extrasData a =
     (let a1 = extras_heatmap extrasData a;
          a2 = extras_midnight extrasData a1;
          a3 = extras_conversation extrasData a2;
          a4 = extras_response extrasData a3;
          a5 = extras_peakDay peakDayKey extrasData a4;
          a6 = extras_topPhrases extrasData a5;
          a7 = extras_streak extrasData a6
      in a7\<lparr>useSqlExtras := True\<rparr>)"

definition initial_accum :: accum where
  "initial_accum =
     \<lparr>conversationStarts = [], responseTimeStats = [], lastMessageTime = [],
      phraseCount = [], heatmapData = initial_heatmap, midnightStats = [],
      dailyContactStats = [], processedMessages = 0,
      longestStreakSessionId = [], longestStreakDays = 0,
      longestStreakStart = None, longestStreakEnd = None,
      useSqlExtras = False, responseStatsFromSql = None, topPhrasesFromSql = None,
      streakComputedInLoop = False, cursorsOpened = []\<rparr>"

text \<open>The first day of \<open>d.daily\<close> with the largest positive count.\<close>

definition find_peakDay :: "(ymd \<times> nat) list \<Rightarrow> ymd option \<times> nat" where
  "find_peakDay daily =
     foldl (\<lambda>pc dc. if snd dc > snd pc then (Some (fst dc), snd dc) else pc) (None, 0) daily"

text \<open>
  The block \<open>if (!streakComputedInLoop)\<close>: the streak-only scan, whose result
  replaces the best streak when it is longer.
\<close>

definition merge_streak ::
  "int \<Rightarrow> store \<Rightarrow> jsstring list \<Rightarrow> int \<Rightarrow> int \<Rightarrow> accum \<Rightarrow> accum" where
  "merge_streak tz db sessionIds startTime endTime a =
     (case computeLongestStreak tz db sessionIds startTime endTime of
        (streakResult, opened) \<Rightarrow>
          (let a3 = a\<lparr>cursorsOpened := cursorsOpened a @ opened\<rparr>
           in if res_days streakResult > longestStreakDays a3
              then a3\<lparr>longestStreakDays := res_days streakResult,
                      longestStreakSessionId := res_sessionId streakResult,
                      longestStreakStart := res_start streakResult,
                      longestStreakEnd := res_end streakResult\<rparr>
              else a3))"

text \<open>
  From the call of \<open>getAnnualReportExtras\<close> to the end of the streak computation:
  the fast path, else the full scan, then the streak-only scan when no streak is
  complete yet.
\<close>

definition analyse ::
  "runtime \<Rightarrow> int \<Rightarrow> store \<Rightarrow> jsstring list \<Rightarrow> int \<Rightarrow> int \<Rightarrow> ymd option \<Rightarrow> nat \<Rightarrow> accum \<Rightarrow> accum" where
  "analyse rt tz db sessionIds startTime endTime peakDayKey tot a =
     (let peakDayBegin = (case peakDayKey of None \<Rightarrow> 0 | Some pk \<Rightarrow> localTime tz pk 0);
          peakDayEnd = (case peakDayKey of None \<Rightarrow> 0 | Some pk \<Rightarrow> peakDayBegin + 24 * 3600 - 1);
          extras = getAnnualReportExtras db sessionIds startTime endTime peakDayBegin peakDayEnd;
          a1 = (if er_success extras then
                  (case er_data extras of
                     Some extrasData \<Rightarrow> apply_extras peakDayKey extrasData a
                   | None \<Rightarrow> a)
                else a);
          a2 = (if \<not> useSqlExtras a1
                then (full_scan rt tz db peakDayKey tot startTime endTime sessionIds a1)
                       \<lparr>streakComputedInLoop := True\<rparr>
                else a1)
      in if \<not> streakComputedInLoop a2
         then merge_streak tz db sessionIds startTime endTime a2
         else a2)"

section \<open>Observations on the accumulators\<close>

text \<open>The conversation counters of a session, zero when it has none yet.\<close>

definition conv_of :: "accum \<Rightarrow> jsstring \<Rightarrow> conv_stats" where
  "conv_of a sessionId =
     (case map_of (conversationStarts a) sessionId of
        None \<Rightarrow> \<lparr>initiated = 0, received = 0\<rparr>
      | Some c \<Rightarrow> c)"

text \<open>The response samples of a session, and those of all sessions.\<close>

definition samples_of :: "accum \<Rightarrow> jsstring \<Rightarrow> int list" where
  "samples_of a sessionId =
     (case map_of (responseTimeStats a) sessionId of None \<Rightarrow> [] | Some ts \<Rightarrow> ts)"

definition all_samples :: "accum \<Rightarrow> int list" where
  "all_samples a = concat (map snd (responseTimeStats a))"

definition samples_in_range :: "accum \<Rightarrow> bool" where
  "samples_in_range a = list_all (\<lambda>x. 0 < x \<and> x < 86400) (all_samples a)"

text \<open>The rows a cursor delivers before a fetch fails or reports no more rows.\<close>

fun delivered :: "cursor \<Rightarrow> row list" where
  "delivered [] = []"
| "delivered (FetchFailed # rest) = []"
| "delivered (Batch rows hasMore # rest) = rows @ (if hasMore then delivered rest else [])"

text \<open>The rows the full scan processes, session after session, and those of them
  with a timestamp.\<close>

definition scanned_rows :: "store \<Rightarrow> int \<Rightarrow> int \<Rightarrow> jsstring list \<Rightarrow> row list" where
  "scanned_rows db startTime endTime sessionIds =
     concat (map (\<lambda>sessionId.
        case openMessageCursorLite db sessionId 1000 startTime endTime of
          None \<Rightarrow> []
        | Some cur \<Rightarrow> delivered cur) sessionIds)"

definition timed :: "row list \<Rightarrow> row list" where
  "timed rows = filter (\<lambda>r. create_time r \<noteq> 0) rows"

definition heatmap_total :: "nat list list \<Rightarrow> nat" where
  "heatmap_total hm = sum_list (map sum_list hm)"

definition is_grid :: "nat list list \<Rightarrow> bool" where
  "is_grid hm = (length hm = 7 \<and> list_all (\<lambda>row. length row = 24) hm)"

text \<open>The streak locals after the rows of a prefix of a session, and after all rows a
  cursor delivers.\<close>

definition streak_after :: "int \<Rightarrow> row list \<Rightarrow> streak" where
  "streak_after tz rows = foldl (streak_row tz) streak0 rows"

definition session_streak :: "int \<Rightarrow> cursor \<Rightarrow> streak" where
  "session_streak tz cur = streak_after tz (delivered cur)"

text \<open>The longest streak of one session in the full scan, 0 when its cursor does not
  open.\<close>

definition session_max :: "int \<Rightarrow> store \<Rightarrow> int \<Rightarrow> int \<Rightarrow> jsstring \<Rightarrow> nat" where
  "session_max tz db startTime endTime sessionId =
     (case openMessageCursorLite db sessionId 1000 startTime endTime of
        None \<Rightarrow> 0
      | Some cur \<Rightarrow> maxStreak (session_streak tz cur))"

text \<open>The same for the streak-only scan, whose cursors deliver batches of 2000.\<close>

definition streak_scan_max :: "int \<Rightarrow> store \<Rightarrow> int \<Rightarrow> int \<Rightarrow> jsstring \<Rightarrow> nat" where
  "streak_scan_max tz db beginTimestamp endTimestamp sessionId =
     (case openMessageCursorLite db sessionId 2000 beginTimestamp endTimestamp of
        None \<Rightarrow> 0
      | Some cur \<Rightarrow> maxStreak (session_streak tz cur))"

text \<open>The result of a session of the streak-only scan.\<close>

definition result_of :: "jsstring \<Rightarrow> streak \<Rightarrow> streak_result" where
  "result_of sessionId s =
     \<lparr>res_sessionId = sessionId, res_days = maxStreak s, res_start = maxStart s,
      res_end = maxEnd s\<rparr>"

definition no_result :: streak_result where
  "no_result = \<lparr>res_sessionId = [], res_days = 0, res_start = None, res_end = None\<rparr>"

text \<open>The best streak so far: session, days, start and end.\<close>

definition best_of :: "accum \<Rightarrow> jsstring \<times> nat \<times> jsdate option \<times> jsdate option" where
  "best_of a =
     (longestStreakSessionId a, longestStreakDays a, longestStreakStart a, longestStreakEnd a)"

definition cur_le_max :: "streak \<Rightarrow> bool" where
  "cur_le_max s = (currentStreak s \<le> maxStreak s)"

text \<open>The phrases with a count of at least 2, in the order of the ranking.\<close>

definition ranked :: "(jsstring \<times> nat) list \<Rightarrow> (jsstring \<times> nat) list" where
  "ranked m = sort_key (\<lambda>pc. - int (snd pc)) (filter (\<lambda>pc. snd pc \<ge> 2) m)"

text \<open>The answer of \<open>getAnnualReportExtras\<close> that \<open>analyse\<close> receives.\<close>

definition extras_of ::
  "int \<Rightarrow> store \<Rightarrow> jsstring list \<Rightarrow> int \<Rightarrow> int \<Rightarrow> ymd option \<Rightarrow> extras_result" where
  "extras_of tz db sessionIds startTime endTime peakDayKey =
     (let peakDayBegin = (case peakDayKey of None \<Rightarrow> 0 | Some pk \<Rightarrow> localTime tz pk 0);
          peakDayEnd = (case peakDayKey of None \<Rightarrow> 0 | Some pk \<Rightarrow> peakDayBegin + 24 * 3600 - 1)
      in getAnnualReportExtras db sessionIds startTime endTime peakDayBegin peakDayEnd)"

text \<open>A streak of the payload that the fast path accepts as complete.\<close>

definition complete_streak :: "extras_payload \<Rightarrow> bool" where
  "complete_streak p =
     (case x_streak p of
        None \<Rightarrow> False
      | Some sp \<Rightarrow> sp_sessionId sp \<noteq> [] \<and> sp_days sp > 0 \<and>
                  is_valid_date (sp_startDate sp) \<and> is_valid_date (sp_endDate sp))"

text \<open>The best streak after the fast path: the streak of the payload when it has a
  session id and a positive number of days, whatever its dates, else none.\<close>

definition payload_best :: "extras_payload \<Rightarrow> jsstring \<times> nat \<times> jsdate option \<times> jsdate option" where
  "payload_best p =
     (case x_streak p of
        None \<Rightarrow> ([], 0, None, None)
      | Some sp \<Rightarrow>
          if sp_sessionId sp \<noteq> [] \<and> sp_days sp > 0
          then (sp_sessionId sp, sp_days sp, sp_startDate sp, sp_endDate sp)
          else ([], 0, None, None))"

text \<open>The time window of a report year; year 0 or less is all time.\<close>

definition startTime_of :: "int \<Rightarrow> int \<Rightarrow> int" where
  "startTime_of tz year = (if year \<le> 0 then 0 else localTime tz (year, 1, 1) 0)"

definition endTime_of :: "int \<Rightarrow> int \<Rightarrow> int" where
  "endTime_of tz year =
     (if year \<le> 0 then 0 else localTime tz (year, 12, 31) (23 * 3600 + 59 * 60 + 59))"

section \<open>Exceptions\<close>

text \<open>
  The body of \<open>generateReportWithConfig\<close> is one \<open>try\<close> block. What throws in it is
  a store call that rejects, and the increment of a heatmap cell for a timestamp that a
  \<open>Date\<close> cannot hold (its weekday is not a number, so the row of the grid is
  undefined). The functions above say what the scans compute when nothing throws; the
  functions here say whether something throws. The answers of the store are taken to
  have the types the code casts them to: the base statistics have their sessions and
  their daily counts, and the entries of the maps of the payload are objects. An answer
  of another type would throw as well, and be caught as the exceptions here are. The
  progress callback is left out.
\<close>

definition raised :: "store \<Rightarrow> store_call list \<Rightarrow> bool" where
  "raised db calls = list_ex (rejects db) calls"

text \<open>The number of fetches a scan makes on a cursor.\<close>

fun fetches :: "cursor \<Rightarrow> nat" where
  "fetches [] = 1"
| "fetches (FetchFailed # rest) = 1"
| "fetches (Batch rows hasMore # rest) = (if hasMore then 1 + fetches rest else 1)"

text \<open>The calls of one session of a scan: open, the fetches, and the close of the
  \<open>finally\<close> block.\<close>

definition cursor_calls :: "store \<Rightarrow> nat \<Rightarrow> int \<Rightarrow> int \<Rightarrow> jsstring \<Rightarrow> store_call list" where
  "cursor_calls db batchSize startTime endTime sessionId =
     CallOpenCursor sessionId batchSize startTime endTime #
       (case openMessageCursorLite db sessionId batchSize startTime endTime of
          None \<Rightarrow> []
        | Some cur \<Rightarrow>
            map (CallFetch sessionId batchSize) [0..<fetches cur] @
            [CallCloseCursor sessionId batchSize])"

text \<open>\<open>new Date(createTime * 1000)\<close> is a valid date.\<close>

definition date_in_range :: "int \<Rightarrow> bool" where
  "date_in_range t = (- 8640000000000 \<le> t \<and> t \<le> 8640000000000)"

text \<open>
  The calls of the analysis: the extras call; the cursors of the full scan, which runs
  when \<open>useSqlExtras\<close> stays false; the cursors of the streak-only scan, which runs
  when \<open>streakComputedInLoop\<close> stays false.
\<close>

definition analysis_calls ::
  "runtime \<Rightarrow> int \<Rightarrow> store \<Rightarrow> jsstring list \<Rightarrow> int \<Rightarrow> int \<Rightarrow> ymd option \<Rightarrow> nat \<Rightarrow> store_call list" where
  "analysis_calls rt tz db sessionIds startTime endTime peakDayKey tot =
     (let peakDayBegin = (case peakDayKey of None \<Rightarrow> 0 | Some pk \<Rightarrow> localTime tz pk 0);
          peakDayEnd = (case peakDayKey of None \<Rightarrow> 0 | Some pk \<Rightarrow> peakDayBegin + 24 * 3600 - 1);
          a = analyse rt tz db sessionIds startTime endTime peakDayKey tot initial_accum
      in CallExtras sessionIds startTime endTime peakDayBegin peakDayEnd #
         (if \<not> useSqlExtras a
          then concat (map (cursor_calls db 1000 startTime endTime) sessionIds) else []) @
         (if \<not> streakComputedInLoop a
          then concat (map (cursor_calls db 2000 startTime endTime) sessionIds) else []))"

definition analyse_try ::
  "runtime \<Rightarrow> int \<Rightarrow> store \<Rightarrow> jsstring list \<Rightarrow> int \<Rightarrow> int \<Rightarrow> ymd option \<Rightarrow> nat \<Rightarrow> js_error + accum" where
  "analyse_try rt tz db sessionIds startTime endTime peakDayKey tot =
     (let a = analyse rt tz db sessionIds startTime endTime peakDayKey tot initial_accum
      in if raised db (analysis_calls rt tz db sessionIds startTime endTime peakDayKey tot) then Inl Thrown
         else if \<not> useSqlExtras a \<and>
                 list_ex (\<lambda>r. \<not> date_in_range (create_time r))
                   (timed (scanned_rows db startTime endTime sessionIds))
           then Inl Thrown
         else Inr a)"

section \<open>Connection and sessions\<close>

definition is_alnum :: "16 word \<Rightarrow> bool" where
  "is_alnum c = (is_lower c \<or> is_upper c \<or> is_digit c)"

text \<open>A line terminator, which \<open>.\<close> does not match.\<close>

definition is_line_terminator :: "16 word \<Rightarrow> bool" where
  "is_line_terminator c = (c = 0x0A \<or> c = 0x0D \<or> c = 0x2028 \<or> c = 0x2029)"

text \<open>
  \<open>cleanAccountDirName\<close>. After the test on the lower-cased text, the match of
  \<open>/^(wxid_[^_]+)/i\<close> is the first five code units followed by the longest run
  without an underscore, when that run is not empty. The match of
  \<open>/^(.+)_([a-zA-Z0-9]{4})$/\<close> is the text without its last five code units.
\<close>

definition cleanAccountDirName :: "runtime \<Rightarrow> jsstring \<Rightarrow> jsstring" where
  "cleanAccountDirName h dirName =
     (let trimmed = trim dirName
      in if trimmed = [] then trimmed
         else if startsWith (str ''wxid_'') (toLowerCase h trimmed) then
           (let run = takeWhile (\<lambda>c. c \<noteq> 0x5F) (drop 5 trimmed)
            in if run \<noteq> [] then take 5 trimmed @ run else trimmed)
         else
           (let n = length trimmed
            in if n \<ge> 6 \<and> trimmed ! (n - 5) = 0x5F \<and> list_all is_alnum (drop (n - 4) trimmed)
                  \<and> \<not> list_ex is_line_terminator (take (n - 5) trimmed)
               then take (n - 5) trimmed
               else trimmed))"

datatype report_error =
    NoWxid | NoDbPath | NoDecryptKey | OpenFailed | NoMessage
  | NoSessionsFound | BaseStatsFailed "jsstring option" | Caught js_error

record connection =
  cleanedWxid :: jsstring
  rawWxid :: jsstring

text \<open>The connection: an exception of the open call, else a failure or the account
  ids.\<close>

definition ensureConnectedWithConfig ::
  "runtime \<Rightarrow> store \<Rightarrow> jsstring \<Rightarrow> jsstring \<Rightarrow> jsstring \<Rightarrow> js_error + (report_error + connection)" where
  "ensureConnectedWithConfig h db dbPath decryptKey wxid =
     (if wxid = [] then Inr (Inl NoWxid)
      else if dbPath = [] then Inr (Inl NoDbPath)
      else if decryptKey = [] then Inr (Inl NoDecryptKey)
      else
        (let cleaned = cleanAccountDirName h wxid
         in if rejects db (CallOpen dbPath decryptKey cleaned) then Inl Thrown
            else if \<not> wcdb_open db dbPath decryptKey cleaned then Inr (Inl OpenFailed)
            else Inr (Inr \<lparr>cleanedWxid = cleaned, rawWxid = wxid\<rparr>)))"

definition excludeList :: "jsstring list" where
  "excludeList = map str
     [''weixin'', ''qqmail'', ''fmessage'', ''medianote'', ''floatbottle'',
      ''newsapp'', ''brandsessionholder'', ''brandservicesessionholder'',
      ''notifymessage'', ''opencustomerservicemsg'', ''notification_messages'',
      ''userexperience_alarm'', ''helper_folders'', ''placeholder_foldgroup'',
      ''@helper_folders'', ''@placeholder_foldgroup'']"

text \<open>A session of \<open>getSessions\<close> is its user name, empty when the row has none.\<close>

definition keep_session :: "runtime \<Rightarrow> jsstring \<Rightarrow> jsstring \<Rightarrow> bool" where
  "keep_session h cleaned username =
     (if username = [] then False
      else if str_includes (str ''@chatroom'') username then False
      else if username = str ''filehelper'' then False
      else if startsWith (str ''gh_'') username then False
      else if toLowerCase h username = toLowerCase h cleaned then False
      else if list_ex (\<lambda>prefix. startsWith prefix username \<or> username = prefix) excludeList then False
      else if str_includes (str ''@kefu.openim'') username \<or> str_includes (str ''@openim'') username
        then False
      else if str_includes (str ''service_'') username then False
      else True)"

definition getPrivateSessions :: "runtime \<Rightarrow> store \<Rightarrow> jsstring \<Rightarrow> js_error + jsstring list" where
  "getPrivateSessions h db cleaned =
     (if rejects db CallGetSessions then Inl Thrown
      else if \<not> gs_success (getSessions db) then Inr []
      else case gs_sessions (getSessions db) of
        None \<Rightarrow> Inr []
      | Some rows \<Rightarrow> Inr (filter (keep_session h cleaned) rows))"

section \<open>Ranking of phrases\<close>

text \<open>
  \<open>entries.filter(count >= 2).sort((a, b) => b[1] - a[1]).slice(0, n)\<close>. The sort is
  stable, so equal counts keep their insertion order.
\<close>

definition rank_phrases :: "nat \<Rightarrow> (jsstring \<times> nat) list \<Rightarrow> (jsstring \<times> nat) list" where
  "rank_phrases n m = take n (sort_key (\<lambda>pc. - int (snd pc)) (filter (\<lambda>pc. snd pc \<ge> 2) m))"

definition topPhrases :: "accum \<Rightarrow> (jsstring \<times> nat) list" where
  "topPhrases a =
     (case topPhrasesFromSql a of
        Some sqlPhrases \<Rightarrow>
          if length sqlPhrases > 0 then sqlPhrases else rank_phrases 32 (phraseCount a)
      | None \<Rightarrow> rank_phrases 32 (phraseCount a))"

section \<open>The annual report\<close>

text \<open>
  The longest streak of the report. The report shows the display name of the session,
  looked up outside; here the session id stands for it.
\<close>

record longest_streak =
  ls_session :: jsstring
  ls_days :: nat
  ls_startDate :: "ymd option"
  ls_endDate :: "ymd option"

definition longestStreak :: "int \<Rightarrow> accum \<Rightarrow> longest_streak option" where
  "longestStreak tz a =
     (case (longestStreakStart a, longestStreakEnd a) of
        (Some st, Some en) \<Rightarrow>
          if longestStreakSessionId a \<noteq> [] \<and> longestStreakDays a > 0
          then Some \<lparr>ls_session = longestStreakSessionId a, ls_days = longestStreakDays a,
                      ls_startDate = formatDateYmd tz st, ls_endDate = formatDateYmd tz en\<rparr>
          else None
      | _ \<Rightarrow> None)"

text \<open>
  The report, as far as the scan decides it. The fields computed from the base
  statistics and the contact names alone (core friends, monthly champions, mutual
  friend, avatars) are left out, and \<open>r_accum\<close> holds the variables from which the
  remaining fields (peak day, midnight champion, initiative, response speed) are
  derived.
\<close>

record report =
  r_year :: int
  r_totalMessages :: nat
  r_longestStreak :: "longest_streak option"
  r_activityHeatmap :: "nat list list"
  r_topPhrases :: "(jsstring \<times> nat) list"
  r_accum :: accum

record params =
  p_year :: int
  p_wxid :: jsstring
  p_dbPath :: jsstring
  p_decryptKey :: jsstring

text \<open>
  The body of the \<open>try\<close> block: an exception, else the result it returns. After the
  analysis the names and avatars of the contacts and of the user are looked up.
\<close>

definition generateReport_try ::
  "runtime \<Rightarrow> int \<Rightarrow> store \<Rightarrow> params \<Rightarrow> js_error + (report_error + report)" where
  "generateReport_try rt tz db p =
     (case ensureConnectedWithConfig rt db (p_dbPath p) (p_decryptKey p) (p_wxid p) of
        Inl x \<Rightarrow> Inl x
      | Inr (Inl e) \<Rightarrow> Inr (Inl e)
      | Inr (Inr conn) \<Rightarrow>
          if cleanedWxid conn = [] \<or> rawWxid conn = [] then Inr (Inl NoMessage)
          else
            (case getPrivateSessions rt db (cleanedWxid conn) of
               Inl x \<Rightarrow> Inl x
             | Inr sessionIds \<Rightarrow>
                 if length sessionIds = 0 then Inr (Inl NoSessionsFound)
                 else
                   (let year = p_year p;
                        isAllTime = (year \<le> 0);
                        reportYear = (if isAllTime then 0 else year);
                        startTime = startTime_of tz year;
                        endTime = endTime_of tz year
                    in if rejects db (CallStats sessionIds startTime endTime) then Inl Thrown
                       else
                         (let result = getAnnualReportStats db sessionIds startTime endTime
                          in if \<not> sr_success result
                             then Inr (Inl (BaseStatsFailed (sr_error result)))
                             else case sr_data result of
                               None \<Rightarrow> Inr (Inl (BaseStatsFailed (sr_error result)))
                             | Some d \<Rightarrow>
                                 (let totalMessages = st_total d;
                                      totalMessagesForProgress =
                                        (if totalMessages > 0 then totalMessages
                                         else length sessionIds);
                                      peakDayKey = fst (find_peakDay (st_daily d))
                                  in case analyse_try rt tz db sessionIds startTime endTime
                                            peakDayKey totalMessagesForProgress of
                                       Inl x \<Rightarrow> Inl x
                                     | Inr a \<Rightarrow>
                                         if raised db
                                              [CallDisplayNames (st_sessions d),
                                               CallAvatarUrls (st_sessions d),
                                               CallAvatarUrls [rawWxid conn, cleanedWxid conn]]
                                         then Inl Thrown
                                         else Inr (Inr
                                           \<lparr>r_year = reportYear,
                                            r_totalMessages = totalMessages,
                                            r_longestStreak = longestStreak tz a,
                                            r_activityHeatmap = heatmapData a,
                                            r_topPhrases = topPhrases a,
                                            r_accum = a\<rparr>))))))"

text \<open>\<open>catch (e) { return { success: false, error: String(e) } }\<close>.\<close>

definition generateReportWithConfig ::
  "runtime \<Rightarrow> int \<Rightarrow> store \<Rightarrow> params \<Rightarrow> report_error + report" where
  "generateReportWithConfig rt tz db p =
     (case generateReport_try rt tz db p of
        Inl x \<Rightarrow> Inl (Caught x)
      | Inr res \<Rightarrow> res)"

section \<open>The phrases of the dual report\<close>

text \<open>\<open>text.replace(/\s+/g, ' ')\<close>: every run of white space becomes one space.\<close>

function collapse_ws :: "jsstring \<Rightarrow> jsstring" where
  "collapse_ws [] = []"
| "collapse_ws (c # cs) =
     (if is_space c then 0x20 # collapse_ws (dropWhile is_space cs)
      else c # collapse_ws cs)"
  by pat_completeness auto
termination
  by (relation "measure length") (auto simp: less_Suc_eq_le length_dropWhile_le)

text \<open>The dual report counts the text messages of both sides. Only the word-count
  map is followed here.\<close>

definition dual_observe_phrase :: "runtime \<Rightarrow> row \<Rightarrow> (jsstring \<times> nat) list \<Rightarrow> (jsstring \<times> nat) list" where
  "dual_observe_phrase rt r wordCountMap =
     (if local_type r = 1 \<or> local_type r = 244813135921 then
        (case decodeMessageContent rt (message_content r) (compress_content r) of
           Inl e \<Rightarrow> wordCountMap
         | Inr content \<Rightarrow>
             (let text = trim content
              in if length text > 0 then
                   (let normalized = trim (collapse_ws text)
                    in if phrase_ok 50 normalized
                       then count_phrase normalized wordCountMap
                       else wordCountMap)
                 else wordCountMap))
      else wordCountMap)"

fun dual_batches :: "runtime \<Rightarrow> cursor \<Rightarrow> (jsstring \<times> nat) list \<Rightarrow> (jsstring \<times> nat) list" where
  "dual_batches rt [] m = m"
| "dual_batches rt (FetchFailed # rest) m = m"
| "dual_batches rt (Batch rows hasMore # rest) m =
     (let m' = foldl (\<lambda>acc r. dual_observe_phrase rt r acc) m rows
      in if hasMore then dual_batches rt rest m' else m')"

definition dual_topPhrases :: "(jsstring \<times> nat) list \<Rightarrow> (jsstring \<times> nat) list" where
  "dual_topPhrases wordCountMap = rank_phrases 50 wordCountMap"

section \<open>Sample inputs\<close>

text \<open>
  A host for the samples. Its UTF-8 decoder is exact on ASCII bytes and reads every
  other byte as one replacement character, as the real decoder does for a byte that
  starts no valid sequence; its decompressor rejects every frame; its base64 decoder is
  not used by any sample and returns the empty buffer; its \<open>toLowerCase\<close> is exact
  on ASCII.
\<close>

definition sample_runtime :: runtime where
  "sample_runtime =
     \<lparr>utf8_toString = map (\<lambda>b. if b < 0x80 then ucast b else REPLACEMENT),
      base64_from = (\<lambda>s. []),
      fzstd_decompress = (\<lambda>d. Inl Thrown),
      toLowerCase = map (\<lambda>c. if is_upper c then c + 0x20 else c)\<rparr>"

text \<open>A session in which the user wrote at second 500 and the peer at second 1000.\<close>

definition sample_session :: jsstring where
  "sample_session = str ''A''"

definition after_peer_message :: accum where
  "after_peer_message =
     observe_conversation sample_session 1000 False
       (observe_conversation sample_session 500 True initial_accum)"

text \<open>
  A store with one session \<open>A\<close>, in the zone UTC+8. The user wrote at noon of
  2023-01-01, 01-02, 01-03 and 01-10; one more row has no timestamp. The fast path of
  this store fails, so the report is made by the full scan. No call rejects.
\<close>

definition sample_tz :: int where
  "sample_tz = 28800"

definition text_row :: "int \<Rightarrow> bool \<Rightarrow> jsstring \<Rightarrow> row" where
  "text_row t sent content =
     \<lparr>create_time = t, is_send = sent, local_type = 1,
      message_content = JStr content, compress_content = JNull\<rparr>"

definition sample_cursor :: cursor where
  "sample_cursor =
     [Batch [text_row 1672545600 True (str ''hello world''),
             text_row 1672632000 True (str ''a>b'')] True,
      Batch [text_row 0 True (str ''lost''),
             text_row 1672718400 True (str ''hello world''),
             text_row 1673323200 True (str ''a>b'')] False]"

definition sample_stats :: stats_result where
  "sample_stats =
     \<lparr>sr_success = True,
      sr_data = Some \<lparr>st_total = 5, st_sessions = [sample_session],
                      st_daily = [((2023, 1, 1), 1), ((2023, 1, 2), 2), ((2023, 1, 3), 1),
                                  ((2023, 1, 10), 1)]\<rparr>,
      sr_error = None\<rparr>"

definition sample_store :: store where
  "sample_store =
     \<lparr>wcdb_open = (\<lambda>dbPath key wxid. True),
      getSessions = \<lparr>gs_success = True, gs_sessions = Some [sample_session]\<rparr>,
      openMessageCursorLite =
        (\<lambda>sessionId batchSize b e. if sessionId = sample_session then Some sample_cursor else None),
      getAnnualReportStats = (\<lambda>sessionIds b e. sample_stats),
      getAnnualReportExtras =
        (\<lambda>sessionIds b e pb pe. \<lparr>er_success = False, er_data = None, er_error = None\<rparr>),
      rejects = (\<lambda>call. False)\<rparr>"

definition sample_params :: params where
  "sample_params =
     \<lparr>p_year = 2023, p_wxid = str ''wxid_me'', p_dbPath = str ''/db'', p_decryptKey = str ''key''\<rparr>"

text \<open>The same store when no session is listed, when the base statistics fail, and
  when the fast path answers with a payload that has a heatmap and no streak.\<close>

definition empty_store :: store where
  "empty_store = sample_store\<lparr>getSessions := \<lparr>gs_success = True, gs_sessions = Some []\<rparr>\<rparr>"

definition failing_stats_store :: store where
  "failing_stats_store =
     sample_store\<lparr>getAnnualReportStats :=
       (\<lambda>sessionIds b e. \<lparr>sr_success = False, sr_data = None, sr_error = None\<rparr>)\<rparr>"

definition sample_payload :: extras_payload where
  "sample_payload =
     \<lparr>x_heatmap = Some (initial_heatmap[0 := (replicate 24 0)[12 := 4]]),
      x_midnight = None, x_conversation = None, x_response = None, x_peakDay = None,
      x_topPhrases = None, x_streak = None\<rparr>"

definition fast_store :: store where
  "fast_store =
     sample_store\<lparr>getAnnualReportExtras :=
       (\<lambda>sessionIds b e pb pe.
          \<lparr>er_success = True, er_data = Some sample_payload, er_error = None\<rparr>)\<rparr>"

text \<open>The same store when the payload of the fast path also has a complete streak.\<close>

definition complete_payload :: extras_payload where
  "complete_payload =
     sample_payload\<lparr>x_streak :=
       Some \<lparr>sp_sessionId = sample_session, sp_days = 3,
              sp_startDate = Some (Date 1672502400), sp_endDate = Some (Date 1672675200)\<rparr>\<rparr>"

definition complete_store :: store where
  "complete_store =
     sample_store\<lparr>getAnnualReportExtras :=
       (\<lambda>sessionIds b e pb pe.
          \<lparr>er_success = True, er_data = Some complete_payload, er_error = None\<rparr>)\<rparr>"

text \<open>The same store when the payload has a streak of 5 days without a start date, and
  when the session enumeration rejects.\<close>

definition partial_payload :: extras_payload where
  "partial_payload =
     sample_payload\<lparr>x_streak :=
       Some \<lparr>sp_sessionId = sample_session, sp_days = 5,
              sp_startDate = None, sp_endDate = Some (Date 1672675200)\<rparr>\<rparr>"

definition partial_store :: store where
  "partial_store =
     sample_store\<lparr>getAnnualReportExtras :=
       (\<lambda>sessionIds b e pb pe.
          \<lparr>er_success = True, er_data = Some partial_payload, er_error = None\<rparr>)\<rparr>"

definition rejecting_store :: store where
  "rejecting_store = sample_store\<lparr>rejects := (\<lambda>call. call = CallGetSessions)\<rparr>"

section \<open>The conversation and response accumulator\<close>

lemma responseTimeStats_observe_conversation:
  "responseTimeStats (observe_conversation sid t b a) =
     (case map_of (lastMessageTime a) sid of
        None \<Rightarrow> responseTimeStats a
      | Some l \<Rightarrow>
          if \<not> t - msg_time l > 3600 \<and> b \<and> \<not> msg_isSent l \<and>
             0 < t - msg_time l \<and> t - msg_time l < 86400
          then AList.update sid (samples_of a sid @ [t - msg_time l]) (responseTimeStats a)
          else responseTimeStats a)"
  by (auto simp: observe_conversation_def Let_def push_response_def samples_of_def
      conversation_start_def CONVERSATION_GAP_def split: option.splits)

lemma observe_conversation_over_gap:
  assumes "map_of (lastMessageTime a) sid = Some l" and "t - msg_time l > 3600"
  shows "responseTimeStats (observe_conversation sid t b a) = responseTimeStats a"
    and "initiated (conv_of (observe_conversation sid t b a) sid)
           = initiated (conv_of a sid) + (if b then 1 else 0)"
    and "received (conv_of (observe_conversation sid t b a) sid)
           = received (conv_of a sid) + (if b then 0 else 1)"
  using assms
  by (auto simp add: observe_conversation_def Let_def CONVERSATION_GAP_def conv_of_def
      conversation_start_def update_conv' split: option.splits)

lemma observe_conversation_within_gap:
  assumes "map_of (lastMessageTime a) sid = Some l" and "t - msg_time l \<le> 3600"
  shows "conv_of (observe_conversation sid t b a) sid = conv_of a sid"
  using assms
  by (auto simp add: observe_conversation_def Let_def CONVERSATION_GAP_def conv_of_def
      push_response_def update_conv' split: option.splits)

text \<open>
  Claim C3, as the code has it. A message that follows the previous message of its
  session by strictly more than 3600 seconds is counted as a conversation start on its
  sender's side and records no response sample. A message that follows by 3600 seconds
  or less is not counted as a start.
\<close>

theorem gap_over_3600_starts_conversation:
  assumes "map_of (lastMessageTime a) sid = Some l"
  shows "(t - msg_time l > 3600 \<longrightarrow>
            responseTimeStats (observe_conversation sid t b a) = responseTimeStats a \<and>
            initiated (conv_of (observe_conversation sid t b a) sid)
              = initiated (conv_of a sid) + (if b then 1 else 0) \<and>
            received (conv_of (observe_conversation sid t b a) sid)
              = received (conv_of a sid) + (if b then 0 else 1))
       \<and> (t - msg_time l \<le> 3600 \<longrightarrow>
            conv_of (observe_conversation sid t b a) sid = conv_of a sid)"
  using observe_conversation_over_gap [OF assms] observe_conversation_within_gap [OF assms]
  by blast

lemma last_of_after_peer_message:
  "map_of (lastMessageTime after_peer_message) sample_session
     = Some \<lparr>msg_time = 1000, msg_isSent = False\<rparr>"
  by code_simp

lemma conv_of_after_peer_message:
  "conv_of after_peer_message sample_session = \<lparr>initiated = 1, received = 0\<rparr>"
  by code_simp

theorem gap_over_3600_starts_conversation_witness:
  "map_of (lastMessageTime after_peer_message) sample_session
     = Some \<lparr>msg_time = 1000, msg_isSent = False\<rparr>
   \<and> responseTimeStats (observe_conversation sample_session 4601 True after_peer_message)
       = responseTimeStats after_peer_message
   \<and> initiated (conv_of (observe_conversation sample_session 4601 True after_peer_message)
        sample_session) = 2
   \<and> conv_of (observe_conversation sample_session 4600 True after_peer_message) sample_session
       = \<lparr>initiated = 1, received = 0\<rparr>"
  using gap_over_3600_starts_conversation [OF last_of_after_peer_message, of 4601 True]
    gap_over_3600_starts_conversation [OF last_of_after_peer_message, of 4600 True]
    last_of_after_peer_message conv_of_after_peer_message
  by simp

text \<open>
  The claim as stated fails at a gap of exactly 3600 seconds: the peer wrote at second
  1000, the user answers at second 4600; no conversation start is counted and the
  sample 3600 is recorded.
\<close>

theorem gap_of_3600_counterexample:
  "map_of (lastMessageTime after_peer_message) sample_session
     = Some \<lparr>msg_time = 1000, msg_isSent = False\<rparr>
   \<and> conv_of (observe_conversation sample_session 4600 True after_peer_message) sample_session
       = conv_of after_peer_message sample_session
   \<and> samples_of (observe_conversation sample_session 4600 True after_peer_message) sample_session
       = [3600]"
  by code_simp

lemma set_concat_snd_update:
  "set (concat (map snd (AList.update k v m))) \<subseteq> set v \<union> set (concat (map snd m))"
  by (induction m) auto

lemma samples_of_subset: "set (samples_of a sid) \<subseteq> set (all_samples a)"
proof (cases "map_of (responseTimeStats a) sid")
  case None
  then show ?thesis by (simp add: samples_of_def)
next
  case (Some ts)
  then have "(sid, ts) \<in> set (responseTimeStats a)" by (rule map_of_SomeD)
  then have "set ts \<subseteq> set (all_samples a)"
    by (force simp: all_samples_def)
  with Some show ?thesis by (simp add: samples_of_def)
qed

lemma samples_in_range_cong:
  "responseTimeStats a = responseTimeStats b \<Longrightarrow> samples_in_range a = samples_in_range b"
  by (simp add: samples_in_range_def all_samples_def)

lemma samples_in_range_observe_conversation:
  assumes "samples_in_range a"
  shows "samples_in_range (observe_conversation sid t b a)"
proof (cases "responseTimeStats (observe_conversation sid t b a) = responseTimeStats a")
  case True
  with assms show ?thesis using samples_in_range_cong by blast
next
  case False
  then obtain l where l: "map_of (lastMessageTime a) sid = Some l"
    and rng: "0 < t - msg_time l" "t - msg_time l < 86400"
    and upd: "responseTimeStats (observe_conversation sid t b a)
       = AList.update sid (samples_of a sid @ [t - msg_time l]) (responseTimeStats a)"
    by (auto simp: responseTimeStats_observe_conversation split: option.splits if_splits)
  have "set (all_samples (observe_conversation sid t b a))
      \<subseteq> set (samples_of a sid @ [t - msg_time l]) \<union> set (all_samples a)"
    unfolding all_samples_def upd by (rule set_concat_snd_update)
  also have "\<dots> \<subseteq> insert (t - msg_time l) (set (all_samples a))"
    using samples_of_subset [of a sid] by auto
  finally show ?thesis using assms rng by (auto simp: samples_in_range_def list_all_iff)
qed

lemma responseTimeStats_observe_phrase [simp]:
  "responseTimeStats (observe_phrase rt r a) = responseTimeStats a"
  by (simp add: observe_phrase_def Let_def split: sum.splits)

lemma responseTimeStats_observe_heatmap [simp]:
  "responseTimeStats (observe_heatmap tz t a) = responseTimeStats a"
  by (simp add: observe_heatmap_def)

lemma responseTimeStats_observe_midnight [simp]:
  "responseTimeStats (observe_midnight tz sid t a) = responseTimeStats a"
  by (simp add: observe_midnight_def)

lemma responseTimeStats_observe_peakDay [simp]:
  "responseTimeStats (observe_peakDay tz pk sid t a) = responseTimeStats a"
  by (simp add: observe_peakDay_def Let_def split: option.splits)

lemma responseTimeStats_scan_row:
  "responseTimeStats (fst (scan_row rt tz pk tot sid (a, s) r)) =
     (if create_time r = 0 then responseTimeStats a
      else responseTimeStats (observe_conversation sid (create_time r) (is_send r) a))"
  by (simp add: scan_row_def Let_def)

lemma samples_in_range_scan_row:
  "samples_in_range (fst st) \<Longrightarrow> samples_in_range (fst (scan_row rt tz pk tot sid st r))"
proof (cases st)
  case (Pair a s)
  assume "samples_in_range (fst st)"
  then have a: "samples_in_range a" using Pair by simp
  show ?thesis
  proof (cases "create_time r = 0")
    case True
    then show ?thesis using a Pair by (simp add: scan_row_def)
  next
    case False
    have "samples_in_range (observe_conversation sid (create_time r) (is_send r) a)"
      using a by (rule samples_in_range_observe_conversation)
    moreover have "responseTimeStats (fst (scan_row rt tz pk tot sid st r))
        = responseTimeStats (observe_conversation sid (create_time r) (is_send r) a)"
      using False Pair by (simp add: responseTimeStats_scan_row)
    ultimately show ?thesis using samples_in_range_cong by blast
  qed
qed

lemma samples_in_range_rows:
  "samples_in_range (fst st) \<Longrightarrow>
   samples_in_range (fst (foldl (scan_row rt tz pk tot sid) st rows))"
proof (induction rows arbitrary: st)
  case Nil
  then show ?case by simp
next
  case (Cons r rows)
  have "samples_in_range (fst (scan_row rt tz pk tot sid st r))"
    using Cons.prems by (rule samples_in_range_scan_row)
  then show ?case using Cons.IH by simp
qed

lemma samples_in_range_scan_batches:
  "samples_in_range (fst st) \<Longrightarrow> samples_in_range (fst (scan_batches rt tz pk tot sid cur st))"
  by (induction rt tz pk tot sid cur st rule: scan_batches.induct)
     (auto simp: Let_def intro: samples_in_range_rows)

lemma samples_in_range_scan_session:
  assumes a: "samples_in_range a"
  shows "samples_in_range (scan_session rt tz db pk tot st en a sid)"
proof -
  let ?a0 = "a\<lparr>cursorsOpened := cursorsOpened a @ [sid]\<rparr>"
  have a0: "samples_in_range ?a0" using a samples_in_range_cong [of ?a0 a] by simp
  show ?thesis
  proof (cases "openMessageCursorLite db sid 1000 st en")
    case None
    then show ?thesis using a0 by (simp add: scan_session_def)
  next
    case (Some cur)
    obtain a1 s where r: "scan_batches rt tz pk tot sid cur (?a0, streak0) = (a1, s)"
      by (cases "scan_batches rt tz pk tot sid cur (?a0, streak0)")
    have "samples_in_range a1"
      using samples_in_range_scan_batches [of "(?a0, streak0)" rt tz pk tot sid cur] a0 r by simp
    moreover have "responseTimeStats (scan_session rt tz db pk tot st en a sid)
        = responseTimeStats a1"
      using Some r by (simp add: scan_session_def)
    ultimately show ?thesis using samples_in_range_cong by blast
  qed
qed

lemma samples_in_range_full_scan:
  "samples_in_range a \<Longrightarrow> samples_in_range (full_scan rt tz db pk tot st en sids a)"
  unfolding full_scan_def by (induction sids arbitrary: a) (auto intro: samples_in_range_scan_session)

lemma responseTimeStats_extras [simp]:
  "responseTimeStats (extras_heatmap p a) = responseTimeStats a"
  "responseTimeStats (extras_midnight p a) = responseTimeStats a"
  "responseTimeStats (extras_conversation p a) = responseTimeStats a"
  "responseTimeStats (extras_response p a) = responseTimeStats a"
  "responseTimeStats (extras_peakDay pk p a) = responseTimeStats a"
  "responseTimeStats (extras_topPhrases p a) = responseTimeStats a"
  "responseTimeStats (extras_streak p a) = responseTimeStats a"
  by (simp_all add: extras_heatmap_def extras_midnight_def extras_conversation_def
      extras_response_def extras_peakDay_def extras_topPhrases_def extras_streak_def Let_def
      split: option.splits)

lemma responseTimeStats_apply_extras [simp]:
  "responseTimeStats (apply_extras pk p a) = responseTimeStats a"
  by (simp add: apply_extras_def Let_def)

lemma samples_in_range_analyse:
  assumes a: "samples_in_range a"
  shows "samples_in_range (analyse rt tz db sids st en pk tot a)"
proof -
  define pb where "pb = (case pk of None \<Rightarrow> 0 | Some k \<Rightarrow> localTime tz k 0)"
  define pe where "pe = (case pk of None \<Rightarrow> 0 | Some k \<Rightarrow> pb + 24 * 3600 - 1)"
  define ex where "ex = getAnnualReportExtras db sids st en pb pe"
  define a1 where "a1 = (if er_success ex
      then (case er_data ex of Some extrasData \<Rightarrow> apply_extras pk extrasData a | None \<Rightarrow> a)
      else a)"
  have "responseTimeStats a1 = responseTimeStats a"
    by (simp add: a1_def split: option.splits)
  then have i1: "samples_in_range a1" using a samples_in_range_cong by blast
  define a2 where "a2 = (if \<not> useSqlExtras a1
                then (full_scan rt tz db pk tot st en sids a1)\<lparr>streakComputedInLoop := True\<rparr>
                else a1)"
  have i2: "samples_in_range a2"
  proof (cases "useSqlExtras a1")
    case True then show ?thesis using i1 by (simp add: a2_def)
  next
    case False
    have "samples_in_range (full_scan rt tz db pk tot st en sids a1)"
      using i1 by (rule samples_in_range_full_scan)
    then show ?thesis
      using False samples_in_range_cong [of a2 "full_scan rt tz db pk tot st en sids a1"]
      by (simp add: a2_def)
  qed
  have "responseTimeStats (analyse rt tz db sids st en pk tot a) = responseTimeStats a2"
    unfolding analyse_def Let_def a2_def a1_def ex_def pe_def pb_def
    by (simp add: merge_streak_def Let_def split: prod.splits)
  then show ?thesis using i2 samples_in_range_cong by blast
qed

lemma samples_in_range_initial: "samples_in_range initial_accum"
  by (simp add: samples_in_range_def all_samples_def initial_accum_def)

text \<open>
  Claim C4. Every response sample a report generation records is strictly between 0
  and 86400 seconds; a step of the accumulator keeps that; and a step records a sample
  only when the previous message of the session was the peer's and the current one is
  the user's, the sample being the gap between the two.
\<close>

theorem response_samples_in_range:
  "samples_in_range (analyse rt tz db sids st en pk tot initial_accum)
   \<and> (samples_in_range a \<longrightarrow> samples_in_range (observe_conversation sid t b a))
   \<and> (responseTimeStats (observe_conversation sid t b a) \<noteq> responseTimeStats a \<longrightarrow>
        (\<exists>l. map_of (lastMessageTime a) sid = Some l \<and> \<not> msg_isSent l \<and> b \<and>
             0 < t - msg_time l \<and> t - msg_time l < 86400 \<and>
             responseTimeStats (observe_conversation sid t b a)
               = AList.update sid (samples_of a sid @ [t - msg_time l]) (responseTimeStats a)))"
proof (intro conjI impI)
  show "samples_in_range (analyse rt tz db sids st en pk tot initial_accum)"
    using samples_in_range_initial by (rule samples_in_range_analyse)
next
  assume "samples_in_range a"
  then show "samples_in_range (observe_conversation sid t b a)"
    by (rule samples_in_range_observe_conversation)
next
  assume "responseTimeStats (observe_conversation sid t b a) \<noteq> responseTimeStats a"
  then show "\<exists>l. map_of (lastMessageTime a) sid = Some l \<and> \<not> msg_isSent l \<and> b \<and>
             0 < t - msg_time l \<and> t - msg_time l < 86400 \<and>
             responseTimeStats (observe_conversation sid t b a)
               = AList.update sid (samples_of a sid @ [t - msg_time l]) (responseTimeStats a)"
    by (auto simp: responseTimeStats_observe_conversation split: option.splits if_splits)
qed

lemma after_peer_message_in_range: "samples_in_range after_peer_message"
  by code_simp

lemma reply_records_sample:
  "responseTimeStats (observe_conversation sample_session 1500 True after_peer_message)
     \<noteq> responseTimeStats after_peer_message"
  by code_simp

theorem response_samples_in_range_witness:
  "samples_in_range after_peer_message
   \<and> samples_in_range (observe_conversation sample_session 1500 True after_peer_message)
   \<and> responseTimeStats (observe_conversation sample_session 1500 True after_peer_message)
       \<noteq> responseTimeStats after_peer_message
   \<and> (\<exists>l. map_of (lastMessageTime after_peer_message) sample_session = Some l \<and>
           \<not> msg_isSent l \<and> 0 < 1500 - msg_time l \<and> 1500 - msg_time l < 86400)"
  using response_samples_in_range [of _ _ _ _ _ _ _ _ after_peer_message sample_session 1500 True]
    after_peer_message_in_range reply_records_sample
  by blast

section \<open>The content decoder\<close>

lemma decodeBinaryContent_returns: "\<exists>s. decodeBinaryContent rt data = Inr s"
  by (cases "decodeBinaryContent_try rt data") (auto simp: decodeBinaryContent_def try_catch_def)

lemma decodeBinaryContent_failure:
  "decodeBinaryContent_try rt data = Inl e \<Longrightarrow> decodeBinaryContent rt data = Inr []"
  by (simp add: decodeBinaryContent_def try_catch_def)

lemma decodeMaybeCompressed_returns: "\<exists>s. decodeMaybeCompressed rt raw = Inr s"
proof (cases raw)
  case (JStr s)
  obtain s1 where s1: "decodeBinaryContent rt (hex_from s) = Inr s1"
    using decodeBinaryContent_returns by blast
  obtain s2 where s2: "decodeBinaryContent rt (base64_from rt s) = Inr s2"
    using decodeBinaryContent_returns by blast
  show ?thesis using JStr s1 s2 by (simp add: decodeMaybeCompressed_def try_catch_def)
qed (simp_all add: decodeMaybeCompressed_def)

lemma decodeMessageContent_returns: "\<exists>s. decodeMessageContent rt m c = Inr s"
proof -
  obtain s1 where s1: "decodeMaybeCompressed rt c = Inr s1"
    using decodeMaybeCompressed_returns by blast
  obtain s2 where s2: "decodeMaybeCompressed rt m = Inr s2"
    using decodeMaybeCompressed_returns by blast
  show ?thesis using s1 s2 by (simp add: decodeMessageContent_def)
qed

lemma hex_value_Some: "is_hex_char c \<Longrightarrow> \<exists>v. hex_value c = Some v"
  by (auto simp: is_hex_char_def hex_value_def)

lemma length_hex_from:
  "list_all is_hex_char s \<Longrightarrow> length (hex_from s) = length s div 2"
proof (induction s rule: hex_from.induct)
  case (1 a b rest)
  from "1.prems" have ab: "is_hex_char a" "is_hex_char b" and r: "list_all is_hex_char rest"
    by simp_all
  obtain x y where xy: "hex_value a = Some x" "hex_value b = Some y"
    using ab hex_value_Some by blast
  show ?case using "1.IH" [OF refl] r xy by simp
qed simp_all

text \<open>A string that looks like hex always gives a buffer that is not empty, so the
  hex branch never falls through to the base64 test.\<close>

lemma looksLikeHex_bytes: "looksLikeHex s \<Longrightarrow> length (hex_from s) > 0"
proof -
  assume h: "looksLikeHex s"
  then have e: "length s mod 2 = 0" and n: "s \<noteq> []" and a: "list_all is_hex_char s"
    by (auto simp: looksLikeHex_def split: if_splits)
  from n have "length s > 0" by simp
  with e have "length s div 2 > 0" by presburger
  then show ?thesis using length_hex_from [OF a] by simp
qed

lemma decode_not_a_string:
  "(\<forall>s. raw \<noteq> JStr s) \<Longrightarrow> decodeMaybeCompressed rt raw = Inr []"
  by (cases raw) (simp_all add: decodeMaybeCompressed_def)

lemma decode_hex_failure:
  "looksLikeHex s \<Longrightarrow> decodeBinaryContent_try rt (hex_from s) = Inl e \<Longrightarrow>
   decodeMaybeCompressed rt (JStr s) = Inr []"
  using looksLikeHex_bytes [of s]
  by (auto simp: decodeMaybeCompressed_def decodeBinaryContent_failure)

lemma decode_base64_failure:
  "\<not> looksLikeHex s \<Longrightarrow> looksLikeBase64 s \<Longrightarrow>
   decodeBinaryContent_try rt (base64_from rt s) = Inl e \<Longrightarrow>
   decodeMaybeCompressed rt (JStr s) = Inr []"
  by (auto simp: decodeMaybeCompressed_def decodeBinaryContent_failure try_catch_def)

text \<open>
  Claim C5. For every input value the decoder returns a string and throws nothing,
  and so does \<open>decodeMessageContent\<close>. A value that is not a string decodes to the
  empty string. Whenever a step of the binary decoding throws (the decompression of a
  buffer that starts with the zstd magic number), the result is the empty string, for a
  hex-shaped and for a base64-shaped input alike.
\<close>

theorem decoder_never_raises:
  "(\<exists>s. decodeMaybeCompressed rt raw = Inr s)
   \<and> (\<exists>s. decodeMessageContent rt m c = Inr s)
   \<and> ((\<forall>s. raw \<noteq> JStr s) \<longrightarrow> decodeMaybeCompressed rt raw = Inr [])
   \<and> (decodeBinaryContent_try rt data = Inl e \<longrightarrow> decodeBinaryContent rt data = Inr [])
   \<and> (looksLikeHex s \<and> decodeBinaryContent_try rt (hex_from s) = Inl e \<longrightarrow>
        decodeMaybeCompressed rt (JStr s) = Inr [])
   \<and> (\<not> looksLikeHex s \<and> looksLikeBase64 s \<and>
        decodeBinaryContent_try rt (base64_from rt s) = Inl e \<longrightarrow>
        decodeMaybeCompressed rt (JStr s) = Inr [])"
  using decodeMaybeCompressed_returns [of rt raw] decodeMessageContent_returns [of rt m c]
    decode_not_a_string [of raw rt] decodeBinaryContent_failure [of rt data e]
    decode_hex_failure [of s rt e] decode_base64_failure [of s rt e]
  by blast

lemma zstd_magic_looks_like_hex: "looksLikeHex (str ''28b52ffd'')"
  by code_simp

lemma zstd_magic_fails:
  "decodeBinaryContent_try sample_runtime (hex_from (str ''28b52ffd'')) = Inl Thrown"
  by code_simp

theorem decoder_never_raises_witness:
  "looksLikeHex (str ''28b52ffd'')
   \<and> decodeBinaryContent_try sample_runtime (hex_from (str ''28b52ffd'')) = Inl Thrown
   \<and> decodeMaybeCompressed sample_runtime (JStr (str ''28b52ffd'')) = Inr []
   \<and> decodeMaybeCompressed sample_runtime (JNum 7) = Inr []"
  using decoder_never_raises [of sample_runtime "JNum 7" _ _ _ Thrown "str ''28b52ffd''"]
    zstd_magic_looks_like_hex zstd_magic_fails
  by blast

text \<open>The bytes of a hex-shaped string are half as many as its characters, and
  neither decoding of them is longer than the bytes.\<close>

lemma hex_output_shrinks:
  assumes h: "looksLikeHex s"
    and u: "\<forall>d. length (utf8_toString rt d) \<le> length d"
    and z: "readUInt32LE (hex_from s) \<noteq> 0xFD2FB528"
    and d: "decodeMaybeCompressed rt (JStr s) = Inr out"
  shows "length out < length s"
proof -
  from h have e: "length s mod 2 = 0" and n: "s \<noteq> []" and a: "list_all is_hex_char s"
    by (auto simp: looksLikeHex_def split: if_splits)
  have l: "length (hex_from s) = length s div 2" by (rule length_hex_from [OF a])
  have p: "length (hex_from s) > 0" by (rule looksLikeHex_bytes [OF h])
  have b: "decodeBinaryContent rt (hex_from s) = Inr out"
    using d h p n by (simp add: decodeMaybeCompressed_def)
  have f: "length (filter (\<lambda>c. c \<noteq> REPLACEMENT) (utf8_toString rt (hex_from s)))
            \<le> length (hex_from s)"
    using u length_filter_le [of _ "utf8_toString rt (hex_from s)"] le_trans by blast
  have "length out \<le> length (hex_from s)"
    using b p z f
    by (auto simp: decodeBinaryContent_def decodeBinaryContent_try_def try_catch_def
          latin1_toString_def Let_def split: if_splits)
  moreover from n e l have "length (hex_from s) < length s" by (cases s) auto
  ultimately show ?thesis by simp
qed

text \<open>
  Claim C6. Decoding is idempotent on an output that looks neither like hex nor like
  base64: decoding such an output again, alone or as the message content of a row with
  no compressed content, returns it unchanged. An output that looks like hex is taken for
  hex again and decoded from its bytes, one that looks like base64 only from its base64
  bytes; where decoding UTF-8 never gives more code units than bytes and the bytes of a
  hex-shaped output do not start with the zstd magic, the second decoding is shorter than
  the output, so never the same text.
\<close>

theorem decoder_fixes_unshaped_output:
  assumes "decodeMaybeCompressed rt raw = Inr out"
  shows "(\<not> looksLikeHex out \<and> \<not> looksLikeBase64 out \<longrightarrow>
            decodeMaybeCompressed rt (JStr out) = Inr out
          \<and> decodeMessageContent rt (JStr out) JNull = Inr out)
       \<and> (looksLikeHex out \<longrightarrow>
            decodeMaybeCompressed rt (JStr out) = decodeBinaryContent rt (hex_from out))
       \<and> (\<not> looksLikeHex out \<and> looksLikeBase64 out \<longrightarrow>
            decodeMaybeCompressed rt (JStr out)
              = try_catch (decodeBinaryContent rt (base64_from rt out)) (Inr out))
       \<and> (looksLikeHex out \<and> (\<forall>d. length (utf8_toString rt d) \<le> length d)
            \<and> readUInt32LE (hex_from out) \<noteq> 0xFD2FB528 \<longrightarrow>
            decodeMaybeCompressed rt (JStr out) \<noteq> Inr out)"
proof (intro conjI impI)
  assume "\<not> looksLikeHex out \<and> \<not> looksLikeBase64 out"
  then show "decodeMaybeCompressed rt (JStr out) = Inr out"
    by (simp add: decodeMaybeCompressed_def)
next
  assume "\<not> looksLikeHex out \<and> \<not> looksLikeBase64 out"
  then show "decodeMessageContent rt (JStr out) JNull = Inr out"
    by (simp add: decodeMessageContent_def decodeMaybeCompressed_def)
next
  assume h: "looksLikeHex out"
  then have "out \<noteq> []" by (auto simp: looksLikeHex_def split: if_splits)
  then show "decodeMaybeCompressed rt (JStr out) = decodeBinaryContent rt (hex_from out)"
    using h looksLikeHex_bytes [OF h] by (simp add: decodeMaybeCompressed_def)
next
  assume h: "\<not> looksLikeHex out \<and> looksLikeBase64 out"
  then have "out \<noteq> []" by (auto simp: looksLikeBase64_def split: if_splits)
  then show "decodeMaybeCompressed rt (JStr out)
              = try_catch (decodeBinaryContent rt (base64_from rt out)) (Inr out)"
    using h by (simp add: decodeMaybeCompressed_def)
next
  assume h: "looksLikeHex out \<and> (\<forall>d. length (utf8_toString rt d) \<le> length d)
            \<and> readUInt32LE (hex_from out) \<noteq> 0xFD2FB528"
  obtain r where r: "decodeMaybeCompressed rt (JStr out) = Inr r"
    using decodeMaybeCompressed_returns by blast
  from h r have "length r < length out" using hex_output_shrinks by blast
  with r show "decodeMaybeCompressed rt (JStr out) \<noteq> Inr out" by auto
qed

lemma hello_world_is_plain:
  "\<not> looksLikeHex (str ''hello world'') \<and> \<not> looksLikeBase64 (str ''hello world'')"
  by code_simp

lemma hello_world_decoded:
  "decodeMaybeCompressed sample_runtime (JStr (str ''hello world'')) = Inr (str ''hello world'')"
  by code_simp

lemma abcd_decoded:
  "decodeMaybeCompressed sample_runtime (JStr (str ''61626364'')) = Inr (str ''abcd'')"
  by code_simp

lemma abcd_is_hex:
  "looksLikeHex (str ''abcd'') \<and> readUInt32LE (hex_from (str ''abcd'')) \<noteq> 0xFD2FB528"
  by code_simp

lemma abcd_bytes: "decodeBinaryContent sample_runtime (hex_from (str ''abcd'')) = Inr [0xAB, 0xCD]"
  by code_simp

lemma sample_utf8_length: "\<forall>d. length (utf8_toString sample_runtime d) \<le> length d"
  by (simp add: sample_runtime_def)

theorem decoder_fixes_unshaped_output_witness:
  "decodeMaybeCompressed sample_runtime (JStr (str ''hello world'')) = Inr (str ''hello world'')
   \<and> \<not> looksLikeHex (str ''hello world'') \<and> \<not> looksLikeBase64 (str ''hello world'')
   \<and> decodeMessageContent sample_runtime (JStr (str ''hello world'')) JNull
       = Inr (str ''hello world'')
   \<and> decodeMaybeCompressed sample_runtime (JStr (str ''61626364'')) = Inr (str ''abcd'')
   \<and> looksLikeHex (str ''abcd'')
   \<and> decodeMaybeCompressed sample_runtime (JStr (str ''abcd'')) = Inr [0xAB, 0xCD]
   \<and> decodeMaybeCompressed sample_runtime (JStr (str ''abcd'')) \<noteq> Inr (str ''abcd'')"
proof -
  note plain = decoder_fixes_unshaped_output
    [of sample_runtime "JStr (str ''hello world'')" "str ''hello world''", OF hello_world_decoded]
  note hex = decoder_fixes_unshaped_output
    [of sample_runtime "JStr (str ''61626364'')" "str ''abcd''", OF abcd_decoded]
  from plain hello_world_is_plain
  have 1: "decodeMessageContent sample_runtime (JStr (str ''hello world'')) JNull
       = Inr (str ''hello world'')" by blast
  from hex abcd_is_hex
  have 2: "decodeMaybeCompressed sample_runtime (JStr (str ''abcd''))
             = decodeBinaryContent sample_runtime (hex_from (str ''abcd''))" by blast
  from hex abcd_is_hex sample_utf8_length
  have 3: "decodeMaybeCompressed sample_runtime (JStr (str ''abcd'')) \<noteq> Inr (str ''abcd'')"
    by blast
  show ?thesis
    using 1 2 3 hello_world_decoded hello_world_is_plain abcd_decoded abcd_is_hex abcd_bytes
    by simp
qed

text \<open>
  Decoding is not idempotent on every output. The hex-shaped input \<open>61626364\<close>
  decodes to the text \<open>abcd\<close>, which is hex-shaped itself: decoded again it gives the
  two Latin-1 characters of the bytes AB and CD.
\<close>

theorem decoder_not_idempotent_counterexample:
  "decodeMaybeCompressed sample_runtime (JStr (str ''61626364'')) = Inr (str ''abcd'')
   \<and> decodeMaybeCompressed sample_runtime (JStr (str ''abcd'')) = Inr [0xAB, 0xCD]
   \<and> decodeMaybeCompressed sample_runtime (JStr (str ''abcd'')) \<noteq> Inr (str ''abcd'')"
  by code_simp

lemma latin1_has_no_replacement: "REPLACEMENT \<notin> set (latin1_toString data)"
proof
  assume "REPLACEMENT \<in> set (latin1_toString data)"
  then obtain b :: byte where b: "REPLACEMENT = (ucast b :: 16 word)"
    by (auto simp: latin1_toString_def)
  have "uint (ucast b :: 16 word) = uint b" by (simp add: uint_up_ucast is_up)
  moreover have "uint b < 256" using uint_lt2p [of b] by simp
  moreover have "uint REPLACEMENT = 65533" by (simp add: REPLACEMENT_def)
  ultimately show False using b by simp
qed

text \<open>
  Claim C10. For a buffer that is not empty and does not start with the zstd magic
  number: when fewer than 20 percent of the code units of its UTF-8 decoding are
  U+FFFD, the decoder returns that decoding with every U+FFFD removed, so the result
  holds no U+FFFD; when 20 percent or more are, and only then, it returns the Latin-1
  decoding of the whole buffer.
\<close>

theorem direct_path_strips_replacement:
  assumes "data \<noteq> []" and "\<not> (length data \<ge> 4 \<and> readUInt32LE data = 0xFD2FB528)"
  shows "(5 * count_list (utf8_toString rt data) REPLACEMENT < length (utf8_toString rt data) \<longrightarrow>
           decodeBinaryContent rt data
             = Inr (filter (\<lambda>c. c \<noteq> REPLACEMENT) (utf8_toString rt data)) \<and>
           (\<forall>out. decodeBinaryContent rt data = Inr out \<longrightarrow> REPLACEMENT \<notin> set out))
       \<and> (\<not> 5 * count_list (utf8_toString rt data) REPLACEMENT < length (utf8_toString rt data) \<longrightarrow>
           decodeBinaryContent rt data = Inr (latin1_toString data))"
  using assms
  by (auto simp: decodeBinaryContent_def decodeBinaryContent_try_def try_catch_def Let_def)

lemma one_bad_byte: "hex_from (str ''6162ff636465'') = [0x61, 0x62, 0xFF, 0x63, 0x64, 0x65]"
  by code_simp

lemma one_bad_byte_decoded:
  "utf8_toString sample_runtime [0x61, 0x62, 0xFF, 0x63, 0x64, 0x65]
     = [0x61, 0x62, REPLACEMENT, 0x63, 0x64, 0x65]"
  by (simp add: sample_runtime_def)

lemma two_bad_bytes_decoded:
  "utf8_toString sample_runtime [0xAB, 0xCD] = [REPLACEMENT, REPLACEMENT]"
  by (simp add: sample_runtime_def)

theorem direct_path_strips_replacement_witness:
  "decodeBinaryContent sample_runtime [0x61, 0x62, 0xFF, 0x63, 0x64, 0x65]
     = Inr [0x61, 0x62, 0x63, 0x64, 0x65]
   \<and> decodeBinaryContent sample_runtime [0xAB, 0xCD] = Inr [0xAB, 0xCD]"
  using direct_path_strips_replacement [of "[0x61, 0x62, 0xFF, 0x63, 0x64, 0x65]" sample_runtime]
    direct_path_strips_replacement [of "[0xAB, 0xCD]" sample_runtime]
    one_bad_byte_decoded two_bad_bytes_decoded
  by (simp add: REPLACEMENT_def latin1_toString_def)

section \<open>The heatmap\<close>

lemma weekdayIndex_less: "weekdayIndex tz t < 7"
  by (auto simp: weekdayIndex_def getDay_def)

lemma weekdayIndex_getDay: "weekdayIndex tz t = (getDay tz t + 6) mod 7"
proof -
  have "getDay tz t < 7" by (auto simp: getDay_def)
  then show ?thesis unfolding weekdayIndex_def by presburger
qed

lemma getHours_less: "getHours tz t < 24"
proof -
  have "(t + tz) mod 86400 < 86400" "0 \<le> (t + tz) mod 86400" by simp_all
  then have "((t + tz) mod 86400) div 3600 < 24" by linarith
  then show ?thesis by (simp add: getHours_def)
qed

lemma heatmap_total_inc:
  assumes "w < length hm" and "h < length (hm ! w)"
  shows "heatmap_total (heatmap_inc w h hm) = heatmap_total hm + 1"
proof -
  have row: "sum_list ((hm ! w)[h := hm ! w ! h + 1]) = sum_list (hm ! w) + 1"
    using assms(2) by (simp add: sum_list_update)
  have "map sum_list (hm[w := (hm ! w)[h := hm ! w ! h + 1]])
      = (map sum_list hm)[w := sum_list (hm ! w) + 1]"
    using row by (simp add: map_update)
  moreover have "sum_list ((map sum_list hm)[w := sum_list (hm ! w) + 1])
      = sum_list (map sum_list hm) + 1"
    using assms(1) by (simp add: sum_list_update)
  ultimately show ?thesis using assms by (simp add: heatmap_total_def heatmap_inc_def)
qed

lemma is_grid_inc: "is_grid hm \<Longrightarrow> is_grid (heatmap_inc w h hm)"
  by (auto simp: is_grid_def heatmap_inc_def list_all_length nth_list_update)

lemma grid_cell_inc:
  assumes "is_grid hm" "w < 7" "h < 24" "w' < 7" "h' < 24"
  shows "heatmap_inc w h hm ! w' ! h' = hm ! w' ! h' + (if w' = w \<and> h' = h then 1 else 0)"
  using assms by (auto simp: is_grid_def heatmap_inc_def list_all_length nth_list_update)

lemma heatmapData_observe_conversation [simp]:
  "heatmapData (observe_conversation sid t b a) = heatmapData a"
  by (simp add: observe_conversation_def Let_def conversation_start_def push_response_def
      split: option.splits)

lemma heatmapData_observe_phrase [simp]: "heatmapData (observe_phrase rt r a) = heatmapData a"
  by (simp add: observe_phrase_def Let_def split: sum.splits)

lemma heatmapData_observe_midnight [simp]: "heatmapData (observe_midnight tz sid t a) = heatmapData a"
  by (simp add: observe_midnight_def)

lemma heatmapData_observe_peakDay [simp]: "heatmapData (observe_peakDay tz pk sid t a) = heatmapData a"
  by (simp add: observe_peakDay_def Let_def split: option.splits)

lemma heatmapData_scan_row:
  "heatmapData (fst (scan_row rt tz pk tot sid (a, s) r)) =
     (if create_time r = 0 then heatmapData a
      else heatmap_inc (weekdayIndex tz (create_time r)) (getHours tz (create_time r)) (heatmapData a))"
  by (simp add: scan_row_def Let_def observe_heatmap_def)

lemma scan_batches_delivered:
  "scan_batches rt tz pk tot sid cur st = foldl (scan_row rt tz pk tot sid) st (delivered cur)"
  by (induction rt tz pk tot sid cur st rule: scan_batches.induct) (simp_all add: Let_def)

lemma heatmap_rows:
  "is_grid (heatmapData (fst st)) \<Longrightarrow>
   is_grid (heatmapData (fst (foldl (scan_row rt tz pk tot sid) st rows))) \<and>
   heatmap_total (heatmapData (fst (foldl (scan_row rt tz pk tot sid) st rows)))
     = heatmap_total (heatmapData (fst st)) + length (timed rows)"
proof (induction rows arbitrary: st)
  case Nil
  then show ?case by (simp add: timed_def)
next
  case (Cons r rows)
  obtain a s where st: "st = (a, s)" by (cases st)
  let ?st' = "scan_row rt tz pk tot sid st r"
  have g: "is_grid (heatmapData a)" using Cons.prems st by simp
  have g': "is_grid (heatmapData (fst ?st'))"
    using g st by (simp add: heatmapData_scan_row is_grid_inc)
  have w: "weekdayIndex tz (create_time r) < length (heatmapData a)"
    using g weekdayIndex_less [of tz "create_time r"] by (simp add: is_grid_def)
  have h: "getHours tz (create_time r) < length (heatmapData a ! weekdayIndex tz (create_time r))"
    using g w getHours_less [of tz "create_time r"] by (simp add: is_grid_def list_all_length)
  have t': "heatmap_total (heatmapData (fst ?st'))
      = heatmap_total (heatmapData a) + (if create_time r = 0 then 0 else 1)"
    using st heatmap_total_inc [OF w h] by (simp add: heatmapData_scan_row)
  show ?case using Cons.IH [OF g'] t' st by (simp add: timed_def)
qed

lemma heatmap_scan_session:
  assumes "is_grid (heatmapData a)"
  shows "is_grid (heatmapData (scan_session rt tz db pk tot st en a sid)) \<and>
   heatmap_total (heatmapData (scan_session rt tz db pk tot st en a sid))
     = heatmap_total (heatmapData a)
       + length (timed (case openMessageCursorLite db sid 1000 st en of
                          None \<Rightarrow> [] | Some cur \<Rightarrow> delivered cur))"
proof (cases "openMessageCursorLite db sid 1000 st en")
  case None
  then show ?thesis using assms by (simp add: scan_session_def timed_def)
next
  case (Some cur)
  let ?a0 = "a\<lparr>cursorsOpened := cursorsOpened a @ [sid]\<rparr>"
  obtain a1 s where r: "scan_batches rt tz pk tot sid cur (?a0, streak0) = (a1, s)"
    by (cases "scan_batches rt tz pk tot sid cur (?a0, streak0)")
  have "is_grid (heatmapData (fst (?a0, streak0)))" using assms by simp
  from heatmap_rows [OF this, of rt tz pk tot sid "delivered cur"] r
  have "is_grid (heatmapData a1)"
    and "heatmap_total (heatmapData a1) = heatmap_total (heatmapData a) + length (timed (delivered cur))"
    by (simp_all add: scan_batches_delivered)
  moreover have "heatmapData (scan_session rt tz db pk tot st en a sid) = heatmapData a1"
    using Some r by (simp add: scan_session_def)
  ultimately show ?thesis using Some by simp
qed

lemma timed_append: "timed (xs @ ys) = timed xs @ timed ys"
  by (simp add: timed_def)

lemma heatmap_full_scan:
  "is_grid (heatmapData a) \<Longrightarrow>
   is_grid (heatmapData (full_scan rt tz db pk tot st en sids a)) \<and>
   heatmap_total (heatmapData (full_scan rt tz db pk tot st en sids a))
     = heatmap_total (heatmapData a) + length (timed (scanned_rows db st en sids))"
proof (induction sids arbitrary: a)
  case Nil
  then show ?case by (simp add: full_scan_def scanned_rows_def timed_def)
next
  case (Cons sid sids)
  from heatmap_scan_session [OF Cons.prems, of rt tz db pk tot st en sid]
  have g: "is_grid (heatmapData (scan_session rt tz db pk tot st en a sid))"
    and t: "heatmap_total (heatmapData (scan_session rt tz db pk tot st en a sid))
     = heatmap_total (heatmapData a)
       + length (timed (case openMessageCursorLite db sid 1000 st en of
                          None \<Rightarrow> [] | Some cur \<Rightarrow> delivered cur))"
    by simp_all
  from Cons.IH [OF g] t show ?case
    by (simp add: full_scan_def scanned_rows_def timed_append)
qed

lemma initial_grid: "is_grid (heatmapData initial_accum)" "heatmap_total (heatmapData initial_accum) = 0"
  by (simp_all add: initial_accum_def initial_heatmap_def is_grid_def heatmap_total_def list_all_length)


text \<open>
  Claim C8. In the full scan a row with a timestamp increments the cell of its weekday
  (Monday 0 to Sunday 6, that is \<open>getDay\<close> shifted by one) and its hour, and a row
  without a timestamp changes nothing; on the 7 by 24 grid the increment adds 1 to that
  cell and leaves every other cell as it was. After the scan the grid is still 7 by 24
  and the sum of its cells is the number of rows with a timestamp that the scan
  processed.
\<close>

theorem heatmap_counts_timed_rows:
  "heatmap_total (heatmapData (full_scan rt tz db pk tot st en sids initial_accum))
     = length (timed (scanned_rows db st en sids))
   \<and> is_grid (heatmapData (full_scan rt tz db pk tot st en sids initial_accum))
   \<and> heatmapData (fst (scan_row rt tz pk tot sid (a, s) r)) =
       (if create_time r = 0 then heatmapData a
        else heatmap_inc (weekdayIndex tz (create_time r)) (getHours tz (create_time r))
               (heatmapData a))
   \<and> weekdayIndex tz t = (getDay tz t + 6) mod 7 \<and> weekdayIndex tz t < 7 \<and> getHours tz t < 24
   \<and> (is_grid hm \<and> w < 7 \<and> h < 24 \<and> w' < 7 \<and> h' < 24 \<longrightarrow>
        heatmap_inc w h hm ! w' ! h' = hm ! w' ! h' + (if w' = w \<and> h' = h then 1 else 0))"
  using heatmap_full_scan [of initial_accum rt tz db pk tot st en sids] initial_grid
    heatmapData_scan_row [of rt tz pk tot sid a s r]
    weekdayIndex_getDay [of tz t] weekdayIndex_less [of tz t] getHours_less [of tz t]
    grid_cell_inc [of hm w h w' h']
  by (intro conjI impI) simp_all

lemma initial_heatmap_is_grid: "is_grid initial_heatmap"
  by code_simp

lemma sample_scanned_count:
  "length (timed (scanned_rows sample_store 0 0 [sample_session])) = 4"
  by code_simp

lemma sample_monday: "weekdayIndex sample_tz 1672632000 = 0 \<and> getHours sample_tz 1672632000 = 12"
  by code_simp

theorem heatmap_counts_timed_rows_witness:
  "heatmap_total (heatmapData
      (full_scan sample_runtime sample_tz sample_store None 5 0 0 [sample_session] initial_accum)) = 4
   \<and> is_grid initial_heatmap
   \<and> heatmap_inc 0 12 initial_heatmap ! 0 ! 12 = initial_heatmap ! 0 ! 12 + 1
   \<and> heatmap_inc 0 12 initial_heatmap ! 6 ! 12 = initial_heatmap ! 6 ! 12
   \<and> weekdayIndex sample_tz 1672632000 = 0"
  using heatmap_counts_timed_rows [of sample_runtime sample_tz sample_store None 5 0 0
      "[sample_session]" _ _ _ _ _ initial_heatmap 0 12 0 12]
    heatmap_counts_timed_rows [of _ _ _ _ _ _ _ _ _ _ _ _ _ initial_heatmap 0 12 6 12]
    initial_heatmap_is_grid sample_scanned_count sample_monday
  by simp

section \<open>The streak accumulator\<close>

lemma observe_streak_eq_step: "observe_streak tz t s = streak_step tz t s"
  by (auto simp: observe_streak_def streak_step_def Let_def)

lemma step_same_day:
  "lastDayIndex s = Some (dayIndexOf tz t) \<Longrightarrow> observe_streak tz t s = s"
  by (simp add: observe_streak_def Let_def)

lemma step_next_day:
  "lastDayIndex s = Some (dayIndexOf tz t - 1) \<Longrightarrow>
     currentStreak (observe_streak tz t s) = currentStreak s + 1 \<and>
     currentStart (observe_streak tz t s) = currentStart s \<and>
     lastDayIndex (observe_streak tz t s) = Some (dayIndexOf tz t)"
  by (simp add: observe_streak_def Let_def)

lemma step_other_day:
  "lastDayIndex s \<noteq> Some (dayIndexOf tz t) \<Longrightarrow> lastDayIndex s \<noteq> Some (dayIndexOf tz t - 1) \<Longrightarrow>
     currentStreak (observe_streak tz t s) = 1 \<and>
     currentStart (observe_streak tz t s) = Some (Date (localMidnight tz t)) \<and>
     lastDayIndex (observe_streak tz t s) = Some (dayIndexOf tz t)"
  by (simp add: observe_streak_def Let_def)

lemma step_max:
  "maxStreak (observe_streak tz t s) = max (maxStreak s) (currentStreak (observe_streak tz t s))
     \<or> lastDayIndex s = Some (dayIndexOf tz t)"
  by (auto simp: observe_streak_def Let_def)

lemma step_max_fields:
  "maxStreak (observe_streak tz t s) > maxStreak s \<Longrightarrow>
     maxStreak (observe_streak tz t s) = currentStreak (observe_streak tz t s) \<and>
     maxStart (observe_streak tz t s) = currentStart (observe_streak tz t s) \<and>
     maxEnd (observe_streak tz t s) = Some (Date (localMidnight tz t))"
  by (auto simp: observe_streak_def Let_def split: if_splits)

lemma step_max_keep:
  "\<not> maxStreak (observe_streak tz t s) > maxStreak s \<Longrightarrow>
     maxStreak (observe_streak tz t s) = maxStreak s \<and>
     maxStart (observe_streak tz t s) = maxStart s \<and>
     maxEnd (observe_streak tz t s) = maxEnd s"
  by (auto simp: observe_streak_def Let_def split: if_splits)


lemma cur_le_max_step: "cur_le_max s \<Longrightarrow> cur_le_max (streak_step tz t s)"
  by (auto simp: streak_step_def cur_le_max_def Let_def)

lemma max_mono_step: "maxStreak s \<le> maxStreak (streak_step tz t s)"
  by (auto simp: streak_step_def Let_def)


lemma streak_row_timed:
  "create_time r \<noteq> 0 \<Longrightarrow> streak_row tz s r = observe_streak tz (create_time r) s"
  by (simp add: streak_row_def observe_streak_eq_step)

lemma cur_le_max_row: "cur_le_max s \<Longrightarrow> cur_le_max (streak_row tz s r)"
  by (simp add: streak_row_def cur_le_max_step)

lemma max_mono_row: "maxStreak s \<le> maxStreak (streak_row tz s r)"
  by (simp add: streak_row_def max_mono_step)

lemma cur_le_max_rows: "cur_le_max s \<Longrightarrow> cur_le_max (foldl (streak_row tz) s rows)"
  by (induction rows arbitrary: s) (simp_all add: cur_le_max_row)

lemma max_mono_rows: "maxStreak s \<le> maxStreak (foldl (streak_row tz) s rows)"
proof (induction rows arbitrary: s)
  case Nil
  then show ?case by simp
next
  case (Cons r rows)
  have "maxStreak s \<le> maxStreak (streak_row tz s r)" by (rule max_mono_row)
  also have "\<dots> \<le> maxStreak (foldl (streak_row tz) (streak_row tz s r) rows)" by (rule Cons.IH)
  finally show ?case by simp
qed

lemma streak_after_split:
  "streak_after tz rows = foldl (streak_row tz) (streak_after tz (take n rows)) (drop n rows)"
proof -
  have "streak_after tz (take n rows @ drop n rows)
      = foldl (streak_row tz) (streak_after tz (take n rows)) (drop n rows)"
    unfolding streak_after_def by (rule foldl_append)
  then show ?thesis by simp
qed

lemma prefix_run_le_max:
  "currentStreak (streak_after tz (take n rows)) \<le> maxStreak (streak_after tz rows)"
proof -
  have "cur_le_max (streak_after tz (take n rows))"
    unfolding streak_after_def
    by (rule cur_le_max_rows) (simp add: cur_le_max_def streak0_def)
  then have "currentStreak (streak_after tz (take n rows)) \<le> maxStreak (streak_after tz (take n rows))"
    by (simp add: cur_le_max_def)
  also have "\<dots> \<le> maxStreak (streak_after tz rows)"
    using max_mono_rows [of "streak_after tz (take n rows)" tz "drop n rows"]
      streak_after_split [of tz rows n] by simp
  finally show ?thesis .
qed

lemma streak_after_snoc:
  "streak_after tz (rows @ [r]) = streak_row tz (streak_after tz rows) r"
  by (simp add: streak_after_def)

lemma max_run_attained:
  "maxStreak (streak_after tz rows) > 0 \<Longrightarrow>
   \<exists>n. 0 < n \<and> n \<le> length rows \<and>
       currentStreak (streak_after tz (take n rows)) = maxStreak (streak_after tz rows) \<and>
       currentStart (streak_after tz (take n rows)) = maxStart (streak_after tz rows) \<and>
       maxEnd (streak_after tz rows) = Some (Date (localMidnight tz (create_time (rows ! (n - 1)))))"
proof (induction rows rule: rev_induct)
  case Nil
  then show ?case by (simp add: streak_after_def streak0_def)
next
  case (snoc r rows)
  let ?s = "streak_after tz rows"
  let ?s' = "streak_after tz (rows @ [r])"
  have s': "?s' = streak_row tz ?s r" by (rule streak_after_snoc)
  show ?case
  proof (cases "maxStreak ?s' > maxStreak ?s")
    case True
    then have timed: "create_time r \<noteq> 0" using s' by (auto simp: streak_row_def)
    then have o: "?s' = observe_streak tz (create_time r) ?s" using s' by (simp add: streak_row_timed)
    from True o have "maxStreak ?s' = currentStreak ?s' \<and> maxStart ?s' = currentStart ?s' \<and>
        maxEnd ?s' = Some (Date (localMidnight tz (create_time r)))"
      using step_max_fields [of ?s tz "create_time r"] by simp
    then show ?thesis
      by (intro exI [of _ "length (rows @ [r])"]) simp
  next
    case False
    then have keep: "maxStreak ?s' = maxStreak ?s \<and> maxStart ?s' = maxStart ?s \<and> maxEnd ?s' = maxEnd ?s"
    proof (cases "create_time r = 0")
      case True
      then show ?thesis using s' by (simp add: streak_row_def)
    next
      case f: False
      then have "?s' = observe_streak tz (create_time r) ?s" using s' by (simp add: streak_row_timed)
      with False show ?thesis using step_max_keep [of ?s tz "create_time r"] by simp
    qed
    with snoc.prems have "maxStreak ?s > 0" by simp
    from snoc.IH [OF this] obtain n where n: "0 < n" "n \<le> length rows"
      "currentStreak (streak_after tz (take n rows)) = maxStreak ?s"
      "currentStart (streak_after tz (take n rows)) = maxStart ?s"
      "maxEnd ?s = Some (Date (localMidnight tz (create_time (rows ! (n - 1)))))"
      by blast
    have "(rows @ [r]) ! (n - 1) = rows ! (n - 1)" using n(1,2) by (simp add: nth_append)
    with n keep show ?thesis
      by (intro exI [of _ n]) simp
  qed
qed



lemma best_of_observe_conversation [simp]: "best_of (observe_conversation sid t b a) = best_of a"
  by (simp add: best_of_def observe_conversation_def Let_def conversation_start_def push_response_def
      split: option.splits)

lemma best_of_observe_phrase [simp]: "best_of (observe_phrase rt r a) = best_of a"
  by (simp add: best_of_def observe_phrase_def Let_def split: sum.splits)

lemma best_of_observe_heatmap [simp]: "best_of (observe_heatmap tz t a) = best_of a"
  by (simp add: best_of_def observe_heatmap_def)

lemma best_of_observe_midnight [simp]: "best_of (observe_midnight tz sid t a) = best_of a"
  by (simp add: best_of_def observe_midnight_def)

lemma best_of_observe_peakDay [simp]: "best_of (observe_peakDay tz pk sid t a) = best_of a"
  by (simp add: best_of_def observe_peakDay_def Let_def split: option.splits)

lemma best_of_processed [simp]: "best_of (a\<lparr>processedMessages := n\<rparr>) = best_of a"
  by (simp add: best_of_def)

lemma scan_row_streak:
  "scan_row rt tz pk tot sid st r = (a', s') \<Longrightarrow>
     s' = streak_row tz (snd st) r \<and> best_of a' = best_of (fst st)"
  by (cases st) (auto simp: scan_row_def Let_def streak_row_def observe_streak_eq_step split: if_splits)

lemma scan_rows_streak:
  "snd (foldl (scan_row rt tz pk tot sid) st rows) = foldl (streak_row tz) (snd st) rows \<and>
   best_of (fst (foldl (scan_row rt tz pk tot sid) st rows)) = best_of (fst st)"
proof (induction rows arbitrary: st)
  case Nil
  then show ?case by simp
next
  case (Cons r rows)
  obtain a' s' where r: "scan_row rt tz pk tot sid st r = (a', s')"
    by (cases "scan_row rt tz pk tot sid st r")
  from scan_row_streak [OF r] Cons.IH [of "(a', s')"] r show ?case by simp
qed

lemma streak_batches_delivered:
  "streak_batches tz cur s = foldl (streak_row tz) s (delivered cur)"
  by (induction tz cur s rule: streak_batches.induct) (simp_all add: Let_def)

lemma best_of_scan_session:
  "best_of (scan_session rt tz db pk tot st en a sid) =
     (case openMessageCursorLite db sid 1000 st en of
        None \<Rightarrow> best_of a
      | Some cur \<Rightarrow>
          if maxStreak (session_streak tz cur) > longestStreakDays a
          then (sid, maxStreak (session_streak tz cur), maxStart (session_streak tz cur),
                maxEnd (session_streak tz cur))
          else best_of a)"
proof (cases "openMessageCursorLite db sid 1000 st en")
  case None
  then show ?thesis by (simp add: scan_session_def best_of_def)
next
  case (Some cur)
  let ?a0 = "a\<lparr>cursorsOpened := cursorsOpened a @ [sid]\<rparr>"
  obtain a1 s where r: "scan_batches rt tz pk tot sid cur (?a0, streak0) = (a1, s)"
    by (cases "scan_batches rt tz pk tot sid cur (?a0, streak0)")
  from scan_rows_streak [of rt tz pk tot sid "(?a0, streak0)" "delivered cur"] r
  have s: "s = session_streak tz cur" and b: "best_of a1 = best_of a"
    by (simp_all add: scan_batches_delivered session_streak_def streak_after_def best_of_def)
  from b have d: "longestStreakDays a1 = longestStreakDays a" by (simp add: best_of_def)
  show ?thesis using Some r s b d by (simp add: scan_session_def best_of_def)
qed

lemma full_scan_Cons:
  "full_scan rt tz db pk tot st en (sid # sids) a
     = full_scan rt tz db pk tot st en sids (scan_session rt tz db pk tot st en a sid)"
  by (simp add: full_scan_def)

lemma full_scan_snoc:
  "full_scan rt tz db pk tot st en (sids @ [sid]) a
     = scan_session rt tz db pk tot st en (full_scan rt tz db pk tot st en sids a) sid"
  by (simp add: full_scan_def)

lemma days_scan_session:
  "longestStreakDays (scan_session rt tz db pk tot st en a sid)
     = max (longestStreakDays a) (session_max tz db st en sid)"
  using best_of_scan_session [of rt tz db pk tot st en a sid]
  by (auto simp: best_of_def session_max_def split: option.splits if_splits)

lemma days_full_scan:
  "longestStreakDays (full_scan rt tz db pk tot st en sids a)
     = Max (insert (longestStreakDays a) (session_max tz db st en ` set sids))"
proof (induction sids rule: rev_induct)
  case Nil
  then show ?case by (simp add: full_scan_def)
next
  case (snoc sid sids)
  let ?A = "insert (longestStreakDays a) (session_max tz db st en ` set sids)"
  have "insert (longestStreakDays a) (session_max tz db st en ` set (sids @ [sid]))
      = insert (session_max tz db st en sid) ?A"
    by auto
  moreover have "Max (insert (session_max tz db st en sid) ?A)
      = max (session_max tz db st en sid) (Max ?A)"
    by (rule Max_insert) simp_all
  ultimately have "Max (insert (longestStreakDays a) (session_max tz db st en ` set (sids @ [sid])))
      = max (session_max tz db st en sid) (Max ?A)"
    by simp
  then show ?case using snoc.IH by (simp add: full_scan_snoc days_scan_session max.commute)
qed

lemma best_full_scan:
  "best_of (full_scan rt tz db pk tot st en sids a) = best_of a \<or>
   (\<exists>sid cur. sid \<in> set sids \<and> openMessageCursorLite db sid 1000 st en = Some cur \<and>
      best_of (full_scan rt tz db pk tot st en sids a)
        = (sid, maxStreak (session_streak tz cur), maxStart (session_streak tz cur),
           maxEnd (session_streak tz cur)))"
proof (induction sids rule: rev_induct)
  case Nil
  then show ?case by (simp add: full_scan_def)
next
  case (snoc sid sids)
  let ?a = "full_scan rt tz db pk tot st en sids a"
  show ?case
  proof (cases "best_of (scan_session rt tz db pk tot st en ?a sid) = best_of ?a")
    case True
    with snoc.IH show ?thesis by (auto simp: full_scan_snoc)
  next
    case False
    then obtain cur where "openMessageCursorLite db sid 1000 st en = Some cur"
      and "best_of (scan_session rt tz db pk tot st en ?a sid)
        = (sid, maxStreak (session_streak tz cur), maxStart (session_streak tz cur),
           maxEnd (session_streak tz cur))"
      using best_of_scan_session [of rt tz db pk tot st en ?a sid]
      by (auto split: option.splits if_splits)
    then show ?thesis by (auto simp: full_scan_snoc)
  qed
qed

lemma dayIndexOf_localDay: "dayIndexOf tz t = localDay tz t + (- tz) div 86400"
proof -
  have "(localDay tz t * 86400 - tz) div 86400 = localDay tz t + (- tz) div 86400"
    using div_mult_self3 [of 86400 "- tz" "localDay tz t"] by simp
  then show ?thesis by (simp add: dayIndexOf_def localMidnight_def)
qed

lemma localDay_localMidnight: "localDay tz (localMidnight tz t) = localDay tz t"
  by (simp add: localDay_def localMidnight_def)

lemma civil_2023_01_01: "civil_from_days 19358 = (2023, 1, 1)" by code_simp
lemma civil_2023_01_03: "civil_from_days 19360 = (2023, 1, 3)" by code_simp

lemma streak_after_timed: "foldl (streak_row tz) s rows = foldl (streak_row tz) s (timed rows)"
  by (induction rows arbitrary: s) (simp_all add: timed_def streak_row_def)

lemma scenario_streak:
  assumes "timed (delivered cur) = [r1, r2, r3, r4]"
    and "localDay tz (create_time r1) = 19358" "localDay tz (create_time r2) = 19359"
      "localDay tz (create_time r3) = 19360" "localDay tz (create_time r4) = 19367"
  shows "maxStreak (session_streak tz cur) = 3 \<and>
         maxStart (session_streak tz cur) = Some (Date (localMidnight tz (create_time r1))) \<and>
         maxEnd (session_streak tz cur) = Some (Date (localMidnight tz (create_time r3)))"
proof -
  have "set (timed (delivered cur)) \<subseteq> {r. create_time r \<noteq> 0}" by (auto simp: timed_def)
  then have t: "create_time r1 \<noteq> 0" "create_time r2 \<noteq> 0" "create_time r3 \<noteq> 0" "create_time r4 \<noteq> 0"
    using assms(1) by auto
  have "session_streak tz cur = foldl (streak_row tz) streak0 [r1, r2, r3, r4]"
    using streak_after_timed [of tz streak0 "delivered cur"] assms(1)
    by (simp add: session_streak_def streak_after_def)
  then show ?thesis using t assms(2-)
    by (simp add: streak_row_def streak_step_def Let_def streak0_def dayIndexOf_localDay)
qed

lemma scenario_report:
  assumes o: "openMessageCursorLite db sid 1000 st en = Some cur"
    and sid: "sid \<noteq> []"
    and t: "timed (delivered cur) = [r1, r2, r3, r4]"
    and d: "localDay tz (create_time r1) = 19358" "localDay tz (create_time r2) = 19359"
      "localDay tz (create_time r3) = 19360" "localDay tz (create_time r4) = 19367"
  shows "longestStreak tz (full_scan rt tz db pk tot st en [sid] initial_accum)
     = Some \<lparr>ls_session = sid, ls_days = 3, ls_startDate = Some (2023, 1, 1),
             ls_endDate = Some (2023, 1, 3)\<rparr>"
proof -
  let ?a = "full_scan rt tz db pk tot st en [sid] initial_accum"
  have "best_of ?a = (sid, 3, Some (Date (localMidnight tz (create_time r1))),
      Some (Date (localMidnight tz (create_time r3))))"
    using best_of_scan_session [of rt tz db pk tot st en initial_accum sid] o
      scenario_streak [OF t d]
    by (simp add: full_scan_def initial_accum_def)
  then show ?thesis using sid d
    by (simp add: longestStreak_def best_of_def localYmd_def localDay_localMidnight
        civil_2023_01_01 civil_2023_01_03)
qed

text \<open>The streak-only scan: one session, the maximum over the sessions, and the
  session that the result names.\<close>

lemma fst_streak_session:
  "fst (streak_session tz db b e acc sid) =
     (case openMessageCursorLite db sid 2000 b e of
        None \<Rightarrow> fst acc
      | Some cur \<Rightarrow>
          if maxStreak (session_streak tz cur) > res_days (fst acc)
          then result_of sid (session_streak tz cur)
          else fst acc)"
  by (cases acc)
    (simp add: streak_session_def streak_batches_delivered session_streak_def streak_after_def
      result_of_def Let_def split: option.splits)

lemma streak_sessions_snoc:
  "foldl (streak_session tz db b e) acc (sids @ [sid])
     = streak_session tz db b e (foldl (streak_session tz db b e) acc sids) sid"
  by simp

lemma days_streak_session:
  "res_days (fst (streak_session tz db b e acc sid))
     = max (res_days (fst acc)) (streak_scan_max tz db b e sid)"
  by (auto simp: fst_streak_session streak_scan_max_def result_of_def split: option.splits)

lemma days_streak_sessions:
  "res_days (fst (foldl (streak_session tz db b e) acc sids))
     = Max (insert (res_days (fst acc)) (streak_scan_max tz db b e ` set sids))"
proof (induction sids rule: rev_induct)
  case Nil
  then show ?case by simp
next
  case (snoc sid sids)
  let ?A = "insert (res_days (fst acc)) (streak_scan_max tz db b e ` set sids)"
  have "insert (res_days (fst acc)) (streak_scan_max tz db b e ` set (sids @ [sid]))
      = insert (streak_scan_max tz db b e sid) ?A"
    by auto
  moreover have "Max (insert (streak_scan_max tz db b e sid) ?A)
      = max (streak_scan_max tz db b e sid) (Max ?A)"
    by (rule Max_insert) simp_all
  ultimately have "Max (insert (res_days (fst acc)) (streak_scan_max tz db b e ` set (sids @ [sid])))
      = max (streak_scan_max tz db b e sid) (Max ?A)"
    by simp
  then show ?case using snoc.IH
    by (simp only: streak_sessions_snoc days_streak_session max.commute)
qed

lemma days_streak_sessions_mono:
  "res_days (fst acc) \<le> res_days (fst (foldl (streak_session tz db b e) acc sids))"
  by (simp add: days_streak_sessions)

lemma best_streak_sessions:
  "fst (foldl (streak_session tz db b e) acc sids) = fst acc \<or>
   (\<exists>sid cur. sid \<in> set sids \<and> openMessageCursorLite db sid 2000 b e = Some cur \<and>
      res_days (fst acc) < maxStreak (session_streak tz cur) \<and>
      fst (foldl (streak_session tz db b e) acc sids) = result_of sid (session_streak tz cur))"
proof (induction sids rule: rev_induct)
  case Nil
  then show ?case by simp
next
  case (snoc sid sids)
  let ?a = "foldl (streak_session tz db b e) acc sids"
  show ?case
  proof (cases "fst (streak_session tz db b e ?a sid) = fst ?a")
    case True
    with snoc.IH show ?thesis by (auto simp: streak_sessions_snoc)
  next
    case False
    then obtain cur where "openMessageCursorLite db sid 2000 b e = Some cur"
      and "res_days (fst ?a) < maxStreak (session_streak tz cur)"
      and "fst (streak_session tz db b e ?a sid) = result_of sid (session_streak tz cur)"
      using fst_streak_session [of tz db b e ?a sid]
      by (auto split: option.splits if_splits)
    then show ?thesis
      using days_streak_sessions_mono [of acc tz db b e sids]
      by (auto simp: streak_sessions_snoc)
  qed
qed

lemma days_computeLongestStreak:
  "res_days (fst (computeLongestStreak tz db sids b e))
     = Max (insert 0 (streak_scan_max tz db b e ` set sids))"
  using days_streak_sessions [of tz db b e "(no_result, [])" sids]
  by (simp add: computeLongestStreak_def no_result_def)

lemma best_computeLongestStreak:
  "fst (computeLongestStreak tz db sids b e) = no_result \<or>
   (\<exists>sid cur. sid \<in> set sids \<and> openMessageCursorLite db sid 2000 b e = Some cur \<and>
      0 < maxStreak (session_streak tz cur) \<and>
      fst (computeLongestStreak tz db sids b e) = result_of sid (session_streak tz cur))"
  using best_streak_sessions [of tz db b e "(no_result, [])" sids]
  by (simp add: computeLongestStreak_def no_result_def)

lemma best_of_merge_streak:
  "best_of (merge_streak tz db sids st en a) =
     (let r = fst (computeLongestStreak tz db sids st en)
      in if res_days r > longestStreakDays a
         then (res_sessionId r, res_days r, res_start r, res_end r)
         else best_of a)"
  by (simp add: merge_streak_def best_of_def Let_def split: prod.splits)

lemma scenario_streak_only:
  assumes o: "openMessageCursorLite db sid 2000 st en = Some cur"
    and t: "timed (delivered cur) = [r1, r2, r3, r4]"
    and d: "localDay tz (create_time r1) = 19358" "localDay tz (create_time r2) = 19359"
      "localDay tz (create_time r3) = 19360" "localDay tz (create_time r4) = 19367"
  shows "fst (computeLongestStreak tz db [sid] st en)
     = \<lparr>res_sessionId = sid, res_days = 3,
        res_start = Some (Date (localMidnight tz (create_time r1))),
        res_end = Some (Date (localMidnight tz (create_time r3)))\<rparr>"
  using fst_streak_session [of tz db st en "(no_result, [])" sid] o scenario_streak [OF t d]
  by (simp add: computeLongestStreak_def no_result_def result_of_def)

lemma scenario_streak_only_report:
  assumes o: "openMessageCursorLite db sid 2000 st en = Some cur"
    and sid: "sid \<noteq> []"
    and t: "timed (delivered cur) = [r1, r2, r3, r4]"
    and d: "localDay tz (create_time r1) = 19358" "localDay tz (create_time r2) = 19359"
      "localDay tz (create_time r3) = 19360" "localDay tz (create_time r4) = 19367"
  shows "longestStreak tz (merge_streak tz db [sid] st en initial_accum)
     = Some \<lparr>ls_session = sid, ls_days = 3, ls_startDate = Some (2023, 1, 1),
             ls_endDate = Some (2023, 1, 3)\<rparr>"
proof -
  have "best_of (merge_streak tz db [sid] st en initial_accum)
      = (sid, 3, Some (Date (localMidnight tz (create_time r1))),
         Some (Date (localMidnight tz (create_time r3))))"
    using scenario_streak_only [OF o t d]
    by (simp add: best_of_merge_streak initial_accum_def)
  then show ?thesis using sid d
    by (simp add: longestStreak_def best_of_def localYmd_def localDay_localMidnight
        civil_2023_01_01 civil_2023_01_03)
qed

lemma scan_batches_streak:
  "snd (scan_batches rt tz pk tot sid cur (a, streak0)) = session_streak tz cur"
  using scan_rows_streak [of rt tz pk tot sid "(a, streak0)" "delivered cur"]
  by (simp add: scan_batches_delivered session_streak_def streak_after_def)

text \<open>
  Claim C1. A message on the last seen day leaves the streak locals unchanged; a message
  on the day after extends the current run by one and keeps its start; any other
  message starts a run of length 1 at its day. The full scan and the streak-only scan
  (\<open>computeLongestStreak\<close>) use the same step and leave the same locals after the
  rows a cursor delivers. The longest streak of a session is at least every run of a
  prefix of its rows and, when positive, is the run after some prefix, with that run's
  start and the day of the prefix's last row as its end. After the full scan the best
  streak is the maximum of the sessions' longest streaks, and when positive it carries
  the session id, start and end of a session that has it; the result of
  \<open>computeLongestStreak\<close> is the same maximum over its own cursors with the session
  id, start and end of a session that has it, and the empty result when the maximum is
  0; the report takes that result when it has more days than the best streak so far. A
  session whose rows with a timestamp fall on 2023-01-01, 01-02, 01-03 and 01-10 gives
  the streak of 3 days from 2023-01-01 to 2023-01-03, in either scan. All of this holds
  for rows in any order, so for rows in ascending order.
\<close>

theorem longest_streak_of_both_scans:
  "(lastDayIndex s = Some (dayIndexOf tz t) \<longrightarrow> observe_streak tz t s = s)
   \<and> (lastDayIndex s = Some (dayIndexOf tz t - 1) \<longrightarrow>
        currentStreak (observe_streak tz t s) = currentStreak s + 1 \<and>
        currentStart (observe_streak tz t s) = currentStart s \<and>
        lastDayIndex (observe_streak tz t s) = Some (dayIndexOf tz t))
   \<and> (lastDayIndex s \<noteq> Some (dayIndexOf tz t) \<and> lastDayIndex s \<noteq> Some (dayIndexOf tz t - 1) \<longrightarrow>
        currentStreak (observe_streak tz t s) = 1 \<and>
        currentStart (observe_streak tz t s) = Some (Date (localMidnight tz t)) \<and>
        lastDayIndex (observe_streak tz t s) = Some (dayIndexOf tz t))
   \<and> streak_step tz t s = observe_streak tz t s
   \<and> streak_batches tz c streak0 = session_streak tz c
   \<and> snd (scan_batches rt tz pk tot sid0 c (a, streak0)) = session_streak tz c
   \<and> session_streak tz c = streak_after tz (delivered c)
   \<and> currentStreak (streak_after tz (take n rows)) \<le> maxStreak (streak_after tz rows)
   \<and> (maxStreak (streak_after tz rows) > 0 \<longrightarrow>
        (\<exists>k. 0 < k \<and> k \<le> length rows \<and>
           currentStreak (streak_after tz (take k rows)) = maxStreak (streak_after tz rows) \<and>
           currentStart (streak_after tz (take k rows)) = maxStart (streak_after tz rows) \<and>
           maxEnd (streak_after tz rows)
             = Some (Date (localMidnight tz (create_time (rows ! (k - 1)))))))
   \<and> longestStreakDays (full_scan rt tz db pk tot st en sids initial_accum)
       = Max (insert 0 (session_max tz db st en ` set sids))
   \<and> (longestStreakDays (full_scan rt tz db pk tot st en sids initial_accum) > 0 \<longrightarrow>
        (\<exists>sid cur. sid \<in> set sids \<and> openMessageCursorLite db sid 1000 st en = Some cur \<and>
           best_of (full_scan rt tz db pk tot st en sids initial_accum)
             = (sid, maxStreak (session_streak tz cur), maxStart (session_streak tz cur),
                maxEnd (session_streak tz cur))))
   \<and> res_days (fst (computeLongestStreak tz db sids st en))
       = Max (insert 0 (streak_scan_max tz db st en ` set sids))
   \<and> (res_days (fst (computeLongestStreak tz db sids st en)) > 0 \<longrightarrow>
        (\<exists>sid cur. sid \<in> set sids \<and> openMessageCursorLite db sid 2000 st en = Some cur \<and>
           fst (computeLongestStreak tz db sids st en)
             = \<lparr>res_sessionId = sid, res_days = maxStreak (session_streak tz cur),
                res_start = maxStart (session_streak tz cur),
                res_end = maxEnd (session_streak tz cur)\<rparr>))
   \<and> (res_days (fst (computeLongestStreak tz db sids st en)) = 0 \<longrightarrow>
        fst (computeLongestStreak tz db sids st en)
          = \<lparr>res_sessionId = [], res_days = 0, res_start = None, res_end = None\<rparr>)
   \<and> best_of (merge_streak tz db sids st en a)
       = (if res_days (fst (computeLongestStreak tz db sids st en)) > longestStreakDays a
          then (res_sessionId (fst (computeLongestStreak tz db sids st en)),
                res_days (fst (computeLongestStreak tz db sids st en)),
                res_start (fst (computeLongestStreak tz db sids st en)),
                res_end (fst (computeLongestStreak tz db sids st en)))
          else best_of a)
   \<and> (openMessageCursorLite db sessionId 1000 st en = Some cur \<and> sessionId \<noteq> [] \<and>
       timed (delivered cur) = [r1, r2, r3, r4] \<and>
       localDay tz (create_time r1) = 19358 \<and> localDay tz (create_time r2) = 19359 \<and>
       localDay tz (create_time r3) = 19360 \<and> localDay tz (create_time r4) = 19367 \<longrightarrow>
        longestStreak tz (full_scan rt tz db pk tot st en [sessionId] initial_accum)
          = Some \<lparr>ls_session = sessionId, ls_days = 3, ls_startDate = Some (2023, 1, 1),
                  ls_endDate = Some (2023, 1, 3)\<rparr>)
   \<and> (openMessageCursorLite db sessionId 2000 st en = Some cur \<and> sessionId \<noteq> [] \<and>
       timed (delivered cur) = [r1, r2, r3, r4] \<and>
       localDay tz (create_time r1) = 19358 \<and> localDay tz (create_time r2) = 19359 \<and>
       localDay tz (create_time r3) = 19360 \<and> localDay tz (create_time r4) = 19367 \<longrightarrow>
        fst (computeLongestStreak tz db [sessionId] st en)
          = \<lparr>res_sessionId = sessionId, res_days = 3,
             res_start = Some (Date (localMidnight tz (create_time r1))),
             res_end = Some (Date (localMidnight tz (create_time r3)))\<rparr>
        \<and> longestStreak tz (merge_streak tz db [sessionId] st en initial_accum)
          = Some \<lparr>ls_session = sessionId, ls_days = 3, ls_startDate = Some (2023, 1, 1),
                  ls_endDate = Some (2023, 1, 3)\<rparr>)"
proof -
  let ?r = "fst (computeLongestStreak tz db sids st en)"
  have best: "longestStreakDays (full_scan rt tz db pk tot st en sids initial_accum) > 0 \<longrightarrow>
        (\<exists>sid cur. sid \<in> set sids \<and> openMessageCursorLite db sid 1000 st en = Some cur \<and>
           best_of (full_scan rt tz db pk tot st en sids initial_accum)
             = (sid, maxStreak (session_streak tz cur), maxStart (session_streak tz cur),
                maxEnd (session_streak tz cur)))"
    using best_full_scan [of rt tz db pk tot st en sids initial_accum]
    by (auto simp: best_of_def initial_accum_def)
  have days: "longestStreakDays (full_scan rt tz db pk tot st en sids initial_accum)
       = Max (insert 0 (session_max tz db st en ` set sids))"
    using days_full_scan [of rt tz db pk tot st en sids initial_accum]
    by (simp add: initial_accum_def)
  have best2: "res_days ?r > 0 \<longrightarrow>
        (\<exists>sid cur. sid \<in> set sids \<and> openMessageCursorLite db sid 2000 st en = Some cur \<and>
           ?r = \<lparr>res_sessionId = sid, res_days = maxStreak (session_streak tz cur),
                res_start = maxStart (session_streak tz cur),
                res_end = maxEnd (session_streak tz cur)\<rparr>)"
    using best_computeLongestStreak [of tz db sids st en]
    by (auto simp: no_result_def result_of_def)
  have none2: "res_days ?r = 0 \<longrightarrow>
        ?r = \<lparr>res_sessionId = [], res_days = 0, res_start = None, res_end = None\<rparr>"
    using best_computeLongestStreak [of tz db sids st en]
    by (auto simp: no_result_def result_of_def)
  have merge: "best_of (merge_streak tz db sids st en a)
       = (if res_days ?r > longestStreakDays a
          then (res_sessionId ?r, res_days ?r, res_start ?r, res_end ?r)
          else best_of a)"
    by (simp add: best_of_merge_streak Let_def)
  show ?thesis
    using step_same_day [of s tz t] step_next_day [of s tz t] step_other_day [of s tz t]
      observe_streak_eq_step [of tz t s] prefix_run_le_max [of tz n rows]
      max_run_attained [of tz rows] days best
      scenario_report [of db sessionId st en cur r1 r2 r3 r4 tz rt pk tot]
      days_computeLongestStreak [of tz db sids st en] best2 none2 merge
      scenario_streak_only [of db sessionId st en cur r1 r2 r3 r4 tz]
      scenario_streak_only_report [of db sessionId st en cur r1 r2 r3 r4 tz]
      scan_batches_streak [of rt tz pk tot sid0 c a]
    by (intro conjI impI)
      (simp_all add: streak_batches_delivered session_streak_def streak_after_def)
qed


lemma sample_cursor_opens:
  "openMessageCursorLite sample_store sample_session 1000 0 0 = Some sample_cursor"
  by code_simp

lemma sample_streak_cursor_opens:
  "openMessageCursorLite sample_store sample_session 2000 0 0 = Some sample_cursor"
  by code_simp

lemma sample_session_named: "sample_session \<noteq> []"
  by code_simp

lemma sample_cursor_timed:
  "timed (delivered sample_cursor) =
     [text_row 1672545600 True (str ''hello world''), text_row 1672632000 True (str ''a>b''),
      text_row 1672718400 True (str ''hello world''), text_row 1673323200 True (str ''a>b'')]"
  by code_simp

lemma sample_days:
  "localDay sample_tz (create_time (text_row 1672545600 True (str ''hello world''))) = 19358"
  "localDay sample_tz (create_time (text_row 1672632000 True (str ''a>b''))) = 19359"
  "localDay sample_tz (create_time (text_row 1672718400 True (str ''hello world''))) = 19360"
  "localDay sample_tz (create_time (text_row 1673323200 True (str ''a>b''))) = 19367"
  by code_simp+

lemma sample_first_day:
  "lastDayIndex (streak_after sample_tz [text_row 1672545600 True (str ''hello world'')])
     = Some (dayIndexOf sample_tz 1672632000 - 1)"
  by code_simp

lemma sample_midnights:
  "localMidnight sample_tz (create_time (text_row 1672545600 True (str ''hello world''))) = 1672502400"
  "localMidnight sample_tz (create_time (text_row 1672718400 True (str ''hello world''))) = 1672675200"
  by code_simp+

theorem longest_streak_of_both_scans_witness:
  "openMessageCursorLite sample_store sample_session 1000 0 0 = Some sample_cursor
   \<and> openMessageCursorLite sample_store sample_session 2000 0 0 = Some sample_cursor
   \<and> longestStreak sample_tz
        (full_scan sample_runtime sample_tz sample_store None 5 0 0 [sample_session] initial_accum)
       = Some \<lparr>ls_session = sample_session, ls_days = 3, ls_startDate = Some (2023, 1, 1),
               ls_endDate = Some (2023, 1, 3)\<rparr>
   \<and> fst (computeLongestStreak sample_tz sample_store [sample_session] 0 0)
       = \<lparr>res_sessionId = sample_session, res_days = 3,
          res_start = Some (Date 1672502400), res_end = Some (Date 1672675200)\<rparr>
   \<and> longestStreak sample_tz (merge_streak sample_tz sample_store [sample_session] 0 0 initial_accum)
       = Some \<lparr>ls_session = sample_session, ls_days = 3, ls_startDate = Some (2023, 1, 1),
               ls_endDate = Some (2023, 1, 3)\<rparr>
   \<and> currentStreak (observe_streak sample_tz 1672632000
        (streak_after sample_tz [text_row 1672545600 True (str ''hello world'')]))
       = currentStreak (streak_after sample_tz [text_row 1672545600 True (str ''hello world'')]) + 1"
proof -
  note th = longest_streak_of_both_scans [where
      s = "streak_after sample_tz [text_row 1672545600 True (str ''hello world'')]"
      and tz = sample_tz and t = 1672632000 and rt = sample_runtime and db = sample_store
      and pk = None and tot = 5 and st = 0 and en = 0 and sessionId = sample_session
      and cur = sample_cursor
      and ?r1.0 = "text_row 1672545600 True (str ''hello world'')"
      and ?r2.0 = "text_row 1672632000 True (str ''a>b'')"
      and ?r3.0 = "text_row 1672718400 True (str ''hello world'')"
      and ?r4.0 = "text_row 1673323200 True (str ''a>b'')"]
  from th sample_cursor_opens sample_session_named sample_cursor_timed sample_days
  have 1: "longestStreak sample_tz
        (full_scan sample_runtime sample_tz sample_store None 5 0 0 [sample_session] initial_accum)
       = Some \<lparr>ls_session = sample_session, ls_days = 3, ls_startDate = Some (2023, 1, 1),
               ls_endDate = Some (2023, 1, 3)\<rparr>"
    by blast
  from th sample_streak_cursor_opens sample_session_named sample_cursor_timed sample_days
  have 2: "fst (computeLongestStreak sample_tz sample_store [sample_session] 0 0)
          = \<lparr>res_sessionId = sample_session, res_days = 3,
             res_start = Some (Date (localMidnight sample_tz
               (create_time (text_row 1672545600 True (str ''hello world''))))),
             res_end = Some (Date (localMidnight sample_tz
               (create_time (text_row 1672718400 True (str ''hello world'')))))\<rparr>
        \<and> longestStreak sample_tz (merge_streak sample_tz sample_store [sample_session] 0 0 initial_accum)
          = Some \<lparr>ls_session = sample_session, ls_days = 3, ls_startDate = Some (2023, 1, 1),
                  ls_endDate = Some (2023, 1, 3)\<rparr>"
    by blast
  from th sample_first_day
  have 3: "currentStreak (observe_streak sample_tz 1672632000
        (streak_after sample_tz [text_row 1672545600 True (str ''hello world'')]))
       = currentStreak (streak_after sample_tz [text_row 1672545600 True (str ''hello world'')]) + 1"
    by blast
  show ?thesis
    using 1 2 3 sample_cursor_opens sample_streak_cursor_opens
    by (simp only: sample_midnights)
qed

section \<open>The phrase accumulator\<close>

lemma startsWith_iff: "startsWith p s \<longleftrightarrow> (\<exists>ys. s = p @ ys)"
proof
  assume "startsWith p s"
  then have "s = p @ drop (length p) s"
    by (metis append_take_drop_id startsWith_def)
  then show "\<exists>ys. s = p @ ys" ..
next
  assume "\<exists>ys. s = p @ ys"
  then show "startsWith p s" by (auto simp: startsWith_def)
qed

lemma str_includes_iff: "str_includes p s \<longleftrightarrow> (\<exists>xs ys. s = xs @ p @ ys)"
proof (induction s)
  case Nil
  then show ?case by auto
next
  case (Cons c cs)
  show ?case
  proof
    assume "str_includes p (c # cs)"
    then consider "startsWith p (c # cs)" | "str_includes p cs" by auto
    then show "\<exists>xs ys. c # cs = xs @ p @ ys"
    proof cases
      case 1
      then obtain ys where "c # cs = p @ ys" using startsWith_iff by blast
      then have "c # cs = [] @ p @ ys" by simp
      then show ?thesis by blast
    next
      case 2
      then obtain xs ys where "cs = xs @ p @ ys" using Cons.IH by blast
      then have "c # cs = (c # xs) @ p @ ys" by simp
      then show ?thesis by blast
    qed
  next
    assume "\<exists>xs ys. c # cs = xs @ p @ ys"
    then obtain xs ys where e: "c # cs = xs @ p @ ys" by blast
    show "str_includes p (c # cs)"
    proof (cases xs)
      case Nil
      then have "startsWith p (c # cs)" using e startsWith_iff by auto
      then show ?thesis by simp
    next
      case (Cons x xs')
      then have "cs = xs' @ p @ ys" using e by simp
      then have "str_includes p cs" using Cons.IH by blast
      then show ?thesis by simp
    qed
  qed
qed

lemma phrase_ok_iff:
  "phrase_ok n t \<longleftrightarrow>
     (2 \<le> length t \<and> length t \<le> n \<and>
      \<not> (\<exists>xs ys. t = xs @ str ''http'' @ ys) \<and> \<not> (\<exists>xs ys. t = xs @ str ''<'' @ ys) \<and>
      \<not> (\<exists>ys. t = str ''['' @ ys) \<and> \<not> (\<exists>ys. t = str ''<?xml'' @ ys))"
  by (simp only: phrase_ok_def str_includes_iff startsWith_iff)

lemma get_or0_count_phrase:
  "get_or0 (count_phrase t m) p = get_or0 m p + (if p = t then 1 else 0)"
  by (simp add: get_or0_def count_phrase_def update_conv')

lemma observe_phrase_counts:
  assumes "decodeMessageContent rt (message_content r) (compress_content r) = Inr content"
  shows "get_or0 (phraseCount (observe_phrase rt r a)) p =
     get_or0 (phraseCount a) p +
       (if (local_type r = 1 \<or> local_type r = 244813135921) \<and> is_send r \<and>
           phrase_ok 20 (trim content) \<and> p = trim content then 1 else 0)"
  using assms by (simp add: observe_phrase_def Let_def get_or0_count_phrase)

lemma dual_observe_phrase_counts:
  assumes "decodeMessageContent rt (message_content r) (compress_content r) = Inr content"
  shows "get_or0 (dual_observe_phrase rt r m) p =
     get_or0 m p +
       (if (local_type r = 1 \<or> local_type r = 244813135921) \<and> trim content \<noteq> [] \<and>
           phrase_ok 50 (trim (collapse_ws (trim content))) \<and>
           p = trim (collapse_ws (trim content)) then 1 else 0)"
  using assms by (simp add: dual_observe_phrase_def Let_def get_or0_count_phrase)


lemma rank_take: "rank_phrases n m = take n (ranked (m :: (jsstring \<times> nat) list))"
  by (simp add: rank_phrases_def ranked_def)

lemma sorted_ranked: "sorted_wrt (\<lambda>x y. snd y \<le> snd x) (ranked (m :: (jsstring \<times> nat) list))"
proof -
  have "sorted (map (\<lambda>pc. - int (snd pc)) (ranked m))"
    unfolding ranked_def by (rule sorted_sort_key)
  then show ?thesis by (simp add: sorted_map)
qed

lemma set_ranked: "set (ranked m) = {pc \<in> set m. 2 \<le> snd pc}"
  by (auto simp: ranked_def)

lemma rank_sorted: "sorted_wrt (\<lambda>x y. snd y \<le> snd x) (rank_phrases n m)"
  unfolding rank_take using sorted_ranked [of m] by (rule sorted_wrt_take)

lemma rank_length: "length (rank_phrases n m) = min n (length (filter (\<lambda>pc. 2 \<le> snd pc) m))"
  by (simp add: rank_phrases_def min.commute)

lemma rank_rest:
  "set (rank_phrases n m) \<union> set (drop n (ranked m)) = {pc \<in> set m. 2 \<le> snd pc} \<and>
   (\<forall>x\<in>set (drop n (ranked m)). \<forall>y\<in>set (rank_phrases n m). snd x \<le> snd y)"
proof -
  have "set (take n (ranked m)) \<union> set (drop n (ranked m)) = set (ranked m)"
    by (metis append_take_drop_id set_append)
  moreover have "\<forall>x\<in>set (drop n (ranked m)). \<forall>y\<in>set (take n (ranked m)). snd x \<le> snd y"
    using sorted_ranked [of m]
    by (metis append_take_drop_id sorted_wrt_append)
  ultimately show ?thesis by (simp add: rank_take set_ranked)
qed

lemma rank_all:
  "length (filter (\<lambda>pc. 2 \<le> snd pc) m) \<le> n \<Longrightarrow> set (rank_phrases n m) = {pc \<in> set m. 2 \<le> snd pc}"
  by (auto simp: rank_phrases_def)

text \<open>
  Claim C9, as the code has it. The annual report counts a row when it is a text
  message sent by the user whose decoded, trimmed text is eligible with the bound 20; the
  dual report counts a text message of either side whose trimmed text is not empty and
  whose normalised text (runs of white space collapsed, trimmed) is eligible with the
  bound 50. A counted text gets exactly one more on its own count. A text is eligible
  when its length is between 2 and the bound and it contains neither \<open>http\<close> nor the
  left angle bracket, and starts with neither \<open>[\<close> nor \<open><?xml\<close>; a right angle
  bracket does not exclude it. The ranking is the first 32 (annual, when the fast path
  gave no phrases) or 50 (dual) of the phrases with a count of at least 2 in descending
  order of count: every phrase it leaves out has a count no larger than any it keeps,
  and when no more than the bound qualify it holds exactly the phrases with a count of
  at least 2.
\<close>

theorem phrase_accumulator_and_ranking:
  "(decodeMessageContent rt (message_content r) (compress_content r) = Inr content \<longrightarrow>
      get_or0 (phraseCount (observe_phrase rt r a)) p =
        get_or0 (phraseCount a) p +
          (if (local_type r = 1 \<or> local_type r = 244813135921) \<and> is_send r \<and>
              phrase_ok 20 (trim content) \<and> p = trim content then 1 else 0) \<and>
      get_or0 (dual_observe_phrase rt r m) p =
        get_or0 m p +
          (if (local_type r = 1 \<or> local_type r = 244813135921) \<and> trim content \<noteq> [] \<and>
              phrase_ok 50 (trim (collapse_ws (trim content))) \<and>
              p = trim (collapse_ws (trim content)) then 1 else 0))
   \<and> phrase_ok n t =
       (2 \<le> length t \<and> length t \<le> n \<and>
        \<not> (\<exists>xs ys. t = xs @ str ''http'' @ ys) \<and> \<not> (\<exists>xs ys. t = xs @ str ''<'' @ ys) \<and>
        \<not> (\<exists>ys. t = str ''['' @ ys) \<and> \<not> (\<exists>ys. t = str ''<?xml'' @ ys))
   \<and> (topPhrasesFromSql a = None \<longrightarrow> topPhrases a = rank_phrases 32 (phraseCount a))
   \<and> dual_topPhrases m = rank_phrases 50 m
   \<and> rank_phrases n m = take n (ranked m)
   \<and> set (ranked m) = {pc \<in> set m. 2 \<le> snd pc}
   \<and> sorted_wrt (\<lambda>x y. snd y \<le> snd x) (ranked m)
   \<and> sorted_wrt (\<lambda>x y. snd y \<le> snd x) (rank_phrases n m)
   \<and> length (rank_phrases n m) = min n (length (filter (\<lambda>pc. 2 \<le> snd pc) m))
   \<and> (\<forall>x\<in>set (drop n (ranked m)). \<forall>y\<in>set (rank_phrases n m). snd x \<le> snd y)
   \<and> (length (filter (\<lambda>pc. 2 \<le> snd pc) m) \<le> n \<longrightarrow>
        set (rank_phrases n m) = {pc \<in> set m. 2 \<le> snd pc})"
  using observe_phrase_counts [of rt r content a p] dual_observe_phrase_counts [of rt r content m p]
    phrase_ok_iff [of n t] rank_take [of n m] set_ranked [of m] sorted_ranked [of m]
    rank_sorted [of n m] rank_length [of n m] rank_rest [of n m] rank_all [of m n]
  by (intro conjI impI) (simp_all add: topPhrases_def dual_topPhrases_def)

lemma hello_decoded:
  "decodeMessageContent sample_runtime
     (message_content (text_row 1672545600 True (str ''hello world'')))
     (compress_content (text_row 1672545600 True (str ''hello world'')))
   = Inr (str ''hello world'')"
  by code_simp

lemma hello_eligible:
  "(local_type (text_row 1672545600 True (str ''hello world'')) = 1 \<or>
    local_type (text_row 1672545600 True (str ''hello world'')) = 244813135921) \<and>
   is_send (text_row 1672545600 True (str ''hello world'')) \<and>
   phrase_ok 20 (trim (str ''hello world'')) \<and> str ''hello world'' = trim (str ''hello world'')"
  by code_simp

lemma sample_two_qualify:
  "length (filter (\<lambda>pc. 2 \<le> snd pc)
     [(str ''hello world'', 2 :: nat), (str ''a>b'', 2), (str ''ok'', 1)]) \<le> 32"
  by code_simp

theorem phrase_accumulator_and_ranking_witness:
  "get_or0 (phraseCount (observe_phrase sample_runtime
       (text_row 1672545600 True (str ''hello world'')) initial_accum)) (str ''hello world'')
     = get_or0 (phraseCount initial_accum) (str ''hello world'') + 1
   \<and> set (rank_phrases 32 [(str ''hello world'', 2), (str ''a>b'', 2), (str ''ok'', 1)])
       = {pc \<in> set [(str ''hello world'', 2), (str ''a>b'', 2), (str ''ok'', 1)]. 2 \<le> snd pc}"
proof -
  note th = phrase_accumulator_and_ranking [of sample_runtime
      "text_row 1672545600 True (str ''hello world'')" "str ''hello world''" initial_accum
      "str ''hello world''" "[(str ''hello world'', 2), (str ''a>b'', 2), (str ''ok'', 1)]" 32]
  from th hello_decoded
  have "get_or0 (phraseCount (observe_phrase sample_runtime
       (text_row 1672545600 True (str ''hello world'')) initial_accum)) (str ''hello world'')
     = get_or0 (phraseCount initial_accum) (str ''hello world'') +
         (if (local_type (text_row 1672545600 True (str ''hello world'')) = 1 \<or>
              local_type (text_row 1672545600 True (str ''hello world'')) = 244813135921) \<and>
             is_send (text_row 1672545600 True (str ''hello world'')) \<and>
             phrase_ok 20 (trim (str ''hello world'')) \<and>
             str ''hello world'' = trim (str ''hello world'') then 1 else 0)"
    by blast
  then have a: "get_or0 (phraseCount (observe_phrase sample_runtime
       (text_row 1672545600 True (str ''hello world'')) initial_accum)) (str ''hello world'')
     = get_or0 (phraseCount initial_accum) (str ''hello world'') + 1"
    by (simp only: if_P [OF hello_eligible])
  from th sample_two_qualify
  have b: "set (rank_phrases 32 [(str ''hello world'', 2), (str ''a>b'', 2), (str ''ok'', 1)])
       = {pc \<in> set [(str ''hello world'', 2), (str ''a>b'', 2), (str ''ok'', 1)]. 2 \<le> snd pc}"
    by blast
  from a b show ?thesis by (rule conjI)
qed

text \<open>
  The claim as stated fails for a text with a right angle bracket: the user's two
  messages \<open>a>b\<close> of the sample session are counted and ranked.
\<close>

theorem right_angle_bracket_counterexample:
  "str_includes (str ''>'') (str ''a>b'')
   \<and> phrase_ok 20 (trim (str ''a>b''))
   \<and> topPhrases (full_scan sample_runtime sample_tz sample_store None 5 0 0
        [sample_session] initial_accum)
       = [(str ''hello world'', 2), (str ''a>b'', 2)]"
  by code_simp

section \<open>The report, the fast path and the fallback\<close>

lemma update_fresh: "k \<notin> fst ` set m \<Longrightarrow> AList.update k v m = m @ [(k, v)]"
  by (induction m) auto

lemma set_all_distinct: "distinct (map fst (m @ xs)) \<Longrightarrow> set_all xs m = m @ xs"
proof (induction xs arbitrary: m)
  case Nil
  then show ?case by (simp add: set_all_def)
next
  case (Cons x xs)
  have f: "fst x \<notin> fst ` set m" using Cons.prems by auto
  have "set_all (x # xs) m = set_all xs (AList.update (fst x) (snd x) m)"
    by (simp add: set_all_def)
  also have "\<dots> = set_all xs (m @ [x])" using update_fresh [OF f, of "snd x"] by simp
  also have "\<dots> = (m @ [x]) @ xs" using Cons.prems by (intro Cons.IH) simp
  finally show ?case by simp
qed

lemma set_all_fresh: "distinct (map fst xs) \<Longrightarrow> set_all xs [] = xs"
  using set_all_distinct [of "[]" xs] by simp

lemma row_rebuild: "length row = 24 \<Longrightarrow> map (\<lambda>h. cell_or0 row h) [0..<24] = row"
  by (rule nth_equalityI) (simp_all add: cell_or0_def)

lemma grid_rebuild:
  assumes "is_grid hm"
  shows "map (\<lambda>w. map (\<lambda>h. cell_or0 (hm ! w) h) [0..<24]) [0..<7] = hm"
proof (rule nth_equalityI)
  show "length (map (\<lambda>w. map (\<lambda>h. cell_or0 (hm ! w) h) [0..<24]) [0..<7]) = length hm"
    using assms by (simp add: is_grid_def)
next
  fix i assume "i < length (map (\<lambda>w. map (\<lambda>h. cell_or0 (hm ! w) h) [0..<24]) [0..<7])"
  then have i: "i < 7" by simp
  then have "length (hm ! i) = 24" using assms by (simp add: is_grid_def list_all_length)
  then show "map (\<lambda>w. map (\<lambda>h. cell_or0 (hm ! w) h) [0..<24]) [0..<7] ! i = hm ! i"
    using i row_rebuild by simp
qed

lemma grid_built: "is_grid (map (\<lambda>w. map (\<lambda>h. cell_or0 (hm ! w) h) [0..<24]) [0..<7])"
  by (simp add: is_grid_def list_all_iff)

lemma heatmapData_extras [simp]:
  "heatmapData (extras_heatmap p a) = (case x_heatmap p of
        Some hm \<Rightarrow> if length hm = 7
                   then map (\<lambda>w. map (\<lambda>h. cell_or0 (hm ! w) h) [0..<24]) [0..<7]
                   else heatmapData a
      | None \<Rightarrow> heatmapData a)"
  "heatmapData (extras_midnight p a) = heatmapData a"
  "heatmapData (extras_conversation p a) = heatmapData a"
  "heatmapData (extras_response p a) = heatmapData a"
  "heatmapData (extras_peakDay pk p a) = heatmapData a"
  "heatmapData (extras_topPhrases p a) = heatmapData a"
  "heatmapData (extras_streak p a) = heatmapData a"
  by (simp_all add: extras_heatmap_def extras_midnight_def extras_conversation_def
      extras_response_def extras_peakDay_def extras_topPhrases_def extras_streak_def Let_def
      split: option.splits)

lemma midnightStats_extras [simp]:
  "midnightStats (extras_heatmap p a) = midnightStats a"
  "midnightStats (extras_midnight p a) = (case x_midnight p of Some mm \<Rightarrow> set_all mm (midnightStats a) | None \<Rightarrow> midnightStats a)"
  "midnightStats (extras_conversation p a) = midnightStats a"
  "midnightStats (extras_response p a) = midnightStats a"
  "midnightStats (extras_peakDay pk p a) = midnightStats a"
  "midnightStats (extras_topPhrases p a) = midnightStats a"
  "midnightStats (extras_streak p a) = midnightStats a"
  by (simp_all add: extras_heatmap_def extras_midnight_def extras_conversation_def
      extras_response_def extras_peakDay_def extras_topPhrases_def extras_streak_def Let_def
      split: option.splits)

lemma conversationStarts_extras [simp]:
  "conversationStarts (extras_heatmap p a) = conversationStarts a"
  "conversationStarts (extras_midnight p a) = conversationStarts a"
  "conversationStarts (extras_conversation p a) = (case x_conversation p of Some cm \<Rightarrow> set_all cm (conversationStarts a)
      | None \<Rightarrow> conversationStarts a)"
  "conversationStarts (extras_response p a) = conversationStarts a"
  "conversationStarts (extras_peakDay pk p a) = conversationStarts a"
  "conversationStarts (extras_topPhrases p a) = conversationStarts a"
  "conversationStarts (extras_streak p a) = conversationStarts a"
  by (simp_all add: extras_heatmap_def extras_midnight_def extras_conversation_def
      extras_response_def extras_peakDay_def extras_topPhrases_def extras_streak_def Let_def
      split: option.splits)

lemma responseStatsFromSql_extras [simp]:
  "responseStatsFromSql (extras_heatmap p a) = responseStatsFromSql a"
  "responseStatsFromSql (extras_midnight p a) = responseStatsFromSql a"
  "responseStatsFromSql (extras_conversation p a) = responseStatsFromSql a"
  "responseStatsFromSql (extras_response p a) = x_response p"
  "responseStatsFromSql (extras_peakDay pk p a) = responseStatsFromSql a"
  "responseStatsFromSql (extras_topPhrases p a) = responseStatsFromSql a"
  "responseStatsFromSql (extras_streak p a) = responseStatsFromSql a"
  by (simp_all add: extras_heatmap_def extras_midnight_def extras_conversation_def
      extras_response_def extras_peakDay_def extras_topPhrases_def extras_streak_def Let_def
      split: option.splits)

lemma dailyContactStats_extras [simp]:
  "dailyContactStats (extras_heatmap p a) = dailyContactStats a"
  "dailyContactStats (extras_midnight p a) = dailyContactStats a"
  "dailyContactStats (extras_conversation p a) = dailyContactStats a"
  "dailyContactStats (extras_response p a) = dailyContactStats a"
  "dailyContactStats (extras_peakDay pk p a) = (case (pk, x_peakDay p) of
        (Some k, Some pd) \<Rightarrow>
          if length (set_all pd []) > 0
          then AList.update k (set_all pd []) (dailyContactStats a)
          else dailyContactStats a
      | _ \<Rightarrow> dailyContactStats a)"
  "dailyContactStats (extras_topPhrases p a) = dailyContactStats a"
  "dailyContactStats (extras_streak p a) = dailyContactStats a"
  by (simp_all add: extras_heatmap_def extras_midnight_def extras_conversation_def
      extras_response_def extras_peakDay_def extras_topPhrases_def extras_streak_def Let_def
      split: option.splits)

lemma topPhrasesFromSql_extras [simp]:
  "topPhrasesFromSql (extras_heatmap p a) = topPhrasesFromSql a"
  "topPhrasesFromSql (extras_midnight p a) = topPhrasesFromSql a"
  "topPhrasesFromSql (extras_conversation p a) = topPhrasesFromSql a"
  "topPhrasesFromSql (extras_response p a) = topPhrasesFromSql a"
  "topPhrasesFromSql (extras_peakDay pk p a) = topPhrasesFromSql a"
  "topPhrasesFromSql (extras_topPhrases p a) = (case x_topPhrases p of
        Some ps \<Rightarrow> if length ps > 0 then Some ps else topPhrasesFromSql a
      | None \<Rightarrow> topPhrasesFromSql a)"
  "topPhrasesFromSql (extras_streak p a) = topPhrasesFromSql a"
  by (simp_all add: extras_heatmap_def extras_midnight_def extras_conversation_def
      extras_response_def extras_peakDay_def extras_topPhrases_def extras_streak_def Let_def
      split: option.splits)

lemma phraseCount_extras [simp]:
  "phraseCount (extras_heatmap p a) = phraseCount a"
  "phraseCount (extras_midnight p a) = phraseCount a"
  "phraseCount (extras_conversation p a) = phraseCount a"
  "phraseCount (extras_response p a) = phraseCount a"
  "phraseCount (extras_peakDay pk p a) = phraseCount a"
  "phraseCount (extras_topPhrases p a) = phraseCount a"
  "phraseCount (extras_streak p a) = phraseCount a"
  by (simp_all add: extras_heatmap_def extras_midnight_def extras_conversation_def
      extras_response_def extras_peakDay_def extras_topPhrases_def extras_streak_def Let_def
      split: option.splits)

lemma lastMessageTime_extras [simp]:
  "lastMessageTime (extras_heatmap p a) = lastMessageTime a"
  "lastMessageTime (extras_midnight p a) = lastMessageTime a"
  "lastMessageTime (extras_conversation p a) = lastMessageTime a"
  "lastMessageTime (extras_response p a) = lastMessageTime a"
  "lastMessageTime (extras_peakDay pk p a) = lastMessageTime a"
  "lastMessageTime (extras_topPhrases p a) = lastMessageTime a"
  "lastMessageTime (extras_streak p a) = lastMessageTime a"
  by (simp_all add: extras_heatmap_def extras_midnight_def extras_conversation_def
      extras_response_def extras_peakDay_def extras_topPhrases_def extras_streak_def Let_def
      split: option.splits)

lemma processedMessages_extras [simp]:
  "processedMessages (extras_heatmap p a) = processedMessages a"
  "processedMessages (extras_midnight p a) = processedMessages a"
  "processedMessages (extras_conversation p a) = processedMessages a"
  "processedMessages (extras_response p a) = processedMessages a"
  "processedMessages (extras_peakDay pk p a) = processedMessages a"
  "processedMessages (extras_topPhrases p a) = processedMessages a"
  "processedMessages (extras_streak p a) = processedMessages a"
  by (simp_all add: extras_heatmap_def extras_midnight_def extras_conversation_def
      extras_response_def extras_peakDay_def extras_topPhrases_def extras_streak_def Let_def
      split: option.splits)

lemma cursorsOpened_extras [simp]:
  "cursorsOpened (extras_heatmap p a) = cursorsOpened a"
  "cursorsOpened (extras_midnight p a) = cursorsOpened a"
  "cursorsOpened (extras_conversation p a) = cursorsOpened a"
  "cursorsOpened (extras_response p a) = cursorsOpened a"
  "cursorsOpened (extras_peakDay pk p a) = cursorsOpened a"
  "cursorsOpened (extras_topPhrases p a) = cursorsOpened a"
  "cursorsOpened (extras_streak p a) = cursorsOpened a"
  by (simp_all add: extras_heatmap_def extras_midnight_def extras_conversation_def
      extras_response_def extras_peakDay_def extras_topPhrases_def extras_streak_def Let_def
      split: option.splits)

lemma useSqlExtras_extras [simp]:
  "useSqlExtras (extras_heatmap p a) = useSqlExtras a"
  "useSqlExtras (extras_midnight p a) = useSqlExtras a"
  "useSqlExtras (extras_conversation p a) = useSqlExtras a"
  "useSqlExtras (extras_response p a) = useSqlExtras a"
  "useSqlExtras (extras_peakDay pk p a) = useSqlExtras a"
  "useSqlExtras (extras_topPhrases p a) = useSqlExtras a"
  "useSqlExtras (extras_streak p a) = useSqlExtras a"
  by (simp_all add: extras_heatmap_def extras_midnight_def extras_conversation_def
      extras_response_def extras_peakDay_def extras_topPhrases_def extras_streak_def Let_def
      split: option.splits)

lemma streakComputedInLoop_extras [simp]:
  "streakComputedInLoop (extras_heatmap p a) = streakComputedInLoop a"
  "streakComputedInLoop (extras_midnight p a) = streakComputedInLoop a"
  "streakComputedInLoop (extras_conversation p a) = streakComputedInLoop a"
  "streakComputedInLoop (extras_response p a) = streakComputedInLoop a"
  "streakComputedInLoop (extras_peakDay pk p a) = streakComputedInLoop a"
  "streakComputedInLoop (extras_topPhrases p a) = streakComputedInLoop a"
  "streakComputedInLoop (extras_streak p a) = (streakComputedInLoop a \<or> complete_streak p)"
  by (auto simp: extras_heatmap_def extras_midnight_def extras_conversation_def
      extras_response_def extras_peakDay_def extras_topPhrases_def extras_streak_def Let_def complete_streak_def
      split: option.splits)

lemma best_of_extras [simp]:
  "best_of (extras_heatmap p a) = best_of a"
  "best_of (extras_midnight p a) = best_of a"
  "best_of (extras_conversation p a) = best_of a"
  "best_of (extras_response p a) = best_of a"
  "best_of (extras_peakDay pk p a) = best_of a"
  "best_of (extras_topPhrases p a) = best_of a"
  "best_of (extras_streak p a) = (case x_streak p of
        Some sp \<Rightarrow> if sp_sessionId sp \<noteq> [] \<and> sp_days sp > 0
                   then (sp_sessionId sp, sp_days sp, sp_startDate sp, sp_endDate sp)
                   else best_of a
      | None \<Rightarrow> best_of a)"
  by (simp_all add: extras_heatmap_def extras_midnight_def extras_conversation_def
      extras_response_def extras_peakDay_def extras_topPhrases_def extras_streak_def Let_def best_of_def
      split: option.splits)

lemma best_of_useSqlExtras [simp]: "best_of (a\<lparr>useSqlExtras := b\<rparr>) = best_of a"
  by (simp add: best_of_def)

lemma apply_extras_fields:
  "useSqlExtras (apply_extras pk p a)"
  "heatmapData (apply_extras pk p a) = heatmapData (extras_heatmap p a)"
  "midnightStats (apply_extras pk p a) = midnightStats (extras_midnight p a)"
  "conversationStarts (apply_extras pk p a) = conversationStarts (extras_conversation p a)"
  "responseStatsFromSql (apply_extras pk p a) = x_response p"
  "dailyContactStats (apply_extras pk p a) = dailyContactStats (extras_peakDay pk p a)"
  "topPhrasesFromSql (apply_extras pk p a) = topPhrasesFromSql (extras_topPhrases p a)"
  "phraseCount (apply_extras pk p a) = phraseCount a"
  "lastMessageTime (apply_extras pk p a) = lastMessageTime a"
  "processedMessages (apply_extras pk p a) = processedMessages a"
  "cursorsOpened (apply_extras pk p a) = cursorsOpened a"
  "streakComputedInLoop (apply_extras pk p a) = (streakComputedInLoop a \<or> complete_streak p)"
  "best_of (apply_extras pk p a) = best_of (extras_streak p a)"
  by (simp_all add: apply_extras_def Let_def split: option.splits)

lemma cursorsOpened_observers [simp]:
  "cursorsOpened (observe_conversation sid t b a) = cursorsOpened a"
  "cursorsOpened (observe_phrase rt r a) = cursorsOpened a"
  "cursorsOpened (observe_heatmap tz t a) = cursorsOpened a"
  "cursorsOpened (observe_midnight tz sid t a) = cursorsOpened a"
  "cursorsOpened (observe_peakDay tz pk sid t a) = cursorsOpened a"
  by (simp_all add: observe_conversation_def conversation_start_def push_response_def
      observe_phrase_def observe_heatmap_def observe_midnight_def observe_peakDay_def Let_def
      split: option.splits sum.splits)

lemma cursorsOpened_scan_row:
  "cursorsOpened (fst (scan_row rt tz pk tot sid st r)) = cursorsOpened (fst st)"
  by (cases st) (simp add: scan_row_def Let_def)

lemma cursorsOpened_rows:
  "cursorsOpened (fst (foldl (scan_row rt tz pk tot sid) st rows)) = cursorsOpened (fst st)"
  by (induction rows arbitrary: st) (simp_all add: cursorsOpened_scan_row)

lemma cursorsOpened_scan_session:
  "cursorsOpened (scan_session rt tz db pk tot st en a sid) = cursorsOpened a @ [sid]"
proof (cases "openMessageCursorLite db sid 1000 st en")
  case None
  then show ?thesis by (simp add: scan_session_def)
next
  case (Some cur)
  let ?a0 = "a\<lparr>cursorsOpened := cursorsOpened a @ [sid]\<rparr>"
  obtain a1 s where r: "scan_batches rt tz pk tot sid cur (?a0, streak0) = (a1, s)"
    by (cases "scan_batches rt tz pk tot sid cur (?a0, streak0)")
  have "cursorsOpened a1 = cursorsOpened a @ [sid]"
    using cursorsOpened_rows [of rt tz pk tot sid "(?a0, streak0)" "delivered cur"] r
    by (simp add: scan_batches_delivered)
  then show ?thesis using Some r by (simp add: scan_session_def)
qed

lemma cursorsOpened_full_scan:
  "cursorsOpened (full_scan rt tz db pk tot st en sids a) = cursorsOpened a @ sids"
  unfolding full_scan_def
  by (induction sids arbitrary: a) (simp_all add: cursorsOpened_scan_session)

lemma opened_streak_sessions:
  "snd (foldl (streak_session tz db b e) acc sids) = snd acc @ sids"
proof (induction sids arbitrary: acc)
  case Nil
  then show ?case by simp
next
  case (Cons sid sids)
  have "snd (streak_session tz db b e acc sid) = snd acc @ [sid]"
    by (cases acc) (simp add: streak_session_def Let_def split: option.splits)
  then show ?case using Cons.IH [of "streak_session tz db b e acc sid"] by simp
qed

lemma opened_computeLongestStreak: "snd (computeLongestStreak tz db sids b e) = sids"
  by (simp add: computeLongestStreak_def opened_streak_sessions)

lemma merge_streak_fields:
  "heatmapData (merge_streak tz db sids st en a) = heatmapData a"
  "midnightStats (merge_streak tz db sids st en a) = midnightStats a"
  "conversationStarts (merge_streak tz db sids st en a) = conversationStarts a"
  "responseStatsFromSql (merge_streak tz db sids st en a) = responseStatsFromSql a"
  "dailyContactStats (merge_streak tz db sids st en a) = dailyContactStats a"
  "topPhrasesFromSql (merge_streak tz db sids st en a) = topPhrasesFromSql a"
  "phraseCount (merge_streak tz db sids st en a) = phraseCount a"
  "responseTimeStats (merge_streak tz db sids st en a) = responseTimeStats a"
  "lastMessageTime (merge_streak tz db sids st en a) = lastMessageTime a"
  "processedMessages (merge_streak tz db sids st en a) = processedMessages a"
  "useSqlExtras (merge_streak tz db sids st en a) = useSqlExtras a"
  by (simp_all add: merge_streak_def Let_def split: prod.splits)

lemma merge_streak_opened:
  "cursorsOpened (merge_streak tz db sids st en a) = cursorsOpened a @ sids"
  using opened_computeLongestStreak [of tz db sids st en]
  by (auto simp: merge_streak_def Let_def split: prod.splits)

lemma analyse_fast:
  assumes "er_success (extras_of tz db sids st en pk)"
    and "er_data (extras_of tz db sids st en pk) = Some p"
  shows "analyse rt tz db sids st en pk tot a =
     (if streakComputedInLoop (apply_extras pk p a) then apply_extras pk p a
      else merge_streak tz db sids st en (apply_extras pk p a))"
  using assms
  by (simp add: analyse_def extras_of_def Let_def apply_extras_fields(1))

lemma analyse_slow:
  assumes "\<not> (er_success (extras_of tz db sids st en pk) \<and> er_data (extras_of tz db sids st en pk) \<noteq> None)"
    and "\<not> useSqlExtras a"
  shows "analyse rt tz db sids st en pk tot a =
     (full_scan rt tz db pk tot st en sids a)\<lparr>streakComputedInLoop := True\<rparr>"
  using assms
  by (auto simp: analyse_def extras_of_def Let_def split: option.splits)

lemma is_grid_extras_heatmap: "is_grid (heatmapData a) \<Longrightarrow> is_grid (heatmapData (extras_heatmap p a))"
  by (simp add: grid_built split: option.splits)

lemma is_grid_analyse:
  "is_grid (heatmapData (analyse rt tz db sids st en pk tot initial_accum))"
proof (cases "er_success (extras_of tz db sids st en pk) \<and> er_data (extras_of tz db sids st en pk) \<noteq> None")
  case True
  then obtain p where p: "er_success (extras_of tz db sids st en pk)"
    "er_data (extras_of tz db sids st en pk) = Some p" by auto
  have "is_grid (heatmapData (apply_extras pk p initial_accum))"
    using is_grid_extras_heatmap [OF initial_grid(1), of p] by (simp add: apply_extras_fields(2))
  then show ?thesis using analyse_fast [OF p, of rt tot initial_accum]
    by (simp add: merge_streak_fields)
next
  case False
  have "\<not> useSqlExtras initial_accum" by (simp add: initial_accum_def)
  from analyse_slow [OF False this, of rt tot]
  show ?thesis using heatmap_full_scan [OF initial_grid(1), of rt tz db pk tot st en sids] by simp
qed

lemma initial_fields:
  "heatmapData initial_accum = initial_heatmap" "midnightStats initial_accum = []"
  "conversationStarts initial_accum = []" "dailyContactStats initial_accum = []"
  "phraseCount initial_accum = []" "responseTimeStats initial_accum = []"
  "lastMessageTime initial_accum = []" "processedMessages initial_accum = 0"
  "cursorsOpened initial_accum = []" "\<not> streakComputedInLoop initial_accum"
  "\<not> useSqlExtras initial_accum" "topPhrasesFromSql initial_accum = None"
  by (simp_all add: initial_accum_def)

lemma fast_fields:
  assumes e: "er_success (extras_of tz db sids st en pk)"
    "er_data (extras_of tz db sids st en pk) = Some p"
  shows "heatmapData (analyse rt tz db sids st en pk tot a) = heatmapData (extras_heatmap p a)"
    and "midnightStats (analyse rt tz db sids st en pk tot a) = midnightStats (extras_midnight p a)"
    and "conversationStarts (analyse rt tz db sids st en pk tot a) = conversationStarts (extras_conversation p a)"
    and "responseStatsFromSql (analyse rt tz db sids st en pk tot a) = x_response p"
    and "dailyContactStats (analyse rt tz db sids st en pk tot a) = dailyContactStats (extras_peakDay pk p a)"
    and "topPhrasesFromSql (analyse rt tz db sids st en pk tot a) = topPhrasesFromSql (extras_topPhrases p a)"
    and "phraseCount (analyse rt tz db sids st en pk tot a) = phraseCount a"
    and "responseTimeStats (analyse rt tz db sids st en pk tot a) = responseTimeStats a"
    and "lastMessageTime (analyse rt tz db sids st en pk tot a) = lastMessageTime a"
    and "processedMessages (analyse rt tz db sids st en pk tot a) = processedMessages a"
    and "useSqlExtras (analyse rt tz db sids st en pk tot a)"
  by (simp_all add: analyse_fast [OF e] merge_streak_fields apply_extras_fields)

lemma fast_complete:
  assumes e: "er_success (extras_of tz db sids st en pk)"
    "er_data (extras_of tz db sids st en pk) = Some p"
    and sp: "x_streak p = Some sp" and c: "complete_streak p"
  shows "best_of (analyse rt tz db sids st en pk tot a)
           = (sp_sessionId sp, sp_days sp, sp_startDate sp, sp_endDate sp)"
    and "cursorsOpened (analyse rt tz db sids st en pk tot a) = cursorsOpened a"
proof -
  have a: "analyse rt tz db sids st en pk tot a = apply_extras pk p a"
    using c by (simp add: analyse_fast [OF e] apply_extras_fields)
  show "best_of (analyse rt tz db sids st en pk tot a)
           = (sp_sessionId sp, sp_days sp, sp_startDate sp, sp_endDate sp)"
    using sp c by (simp add: a apply_extras_fields complete_streak_def)
  show "cursorsOpened (analyse rt tz db sids st en pk tot a) = cursorsOpened a"
    by (simp add: a apply_extras_fields)
qed

lemma fast_incomplete:
  assumes e: "er_success (extras_of tz db sids st en pk)"
    "er_data (extras_of tz db sids st en pk) = Some p"
    and c: "\<not> complete_streak p" and a: "\<not> streakComputedInLoop a"
  shows "cursorsOpened (analyse rt tz db sids st en pk tot a) = cursorsOpened a @ sids"
  using c a by (simp add: analyse_fast [OF e] apply_extras_fields merge_streak_opened)

lemma slow_opened:
  assumes "\<not> (er_success (extras_of tz db sids st en pk) \<and> er_data (extras_of tz db sids st en pk) \<noteq> None)"
    and "\<not> useSqlExtras a"
  shows "cursorsOpened (analyse rt tz db sids st en pk tot a) = cursorsOpened a @ sids"
  by (simp add: analyse_slow [OF assms] cursorsOpened_full_scan)

text \<open>The connection, the failures of the report and the exceptions of its body.\<close>

lemma connected_raw:
  "ensureConnectedWithConfig rt db dbPath key wxid = Inr (Inr conn) \<Longrightarrow> rawWxid conn \<noteq> []"
  by (auto simp: ensureConnectedWithConfig_def Let_def split: if_splits)

lemma connection_errors:
  "ensureConnectedWithConfig rt db dbPath key wxid = Inr (Inl e) \<Longrightarrow>
     e = NoWxid \<or> e = NoDbPath \<or> e = NoDecryptKey \<or> e = OpenFailed"
  by (auto simp: ensureConnectedWithConfig_def Let_def split: if_splits)

lemma connection_cases:
  "ensureConnectedWithConfig rt db dbPath key wxid =
     (if wxid = [] then Inr (Inl NoWxid)
      else if dbPath = [] then Inr (Inl NoDbPath)
      else if key = [] then Inr (Inl NoDecryptKey)
      else if rejects db (CallOpen dbPath key (cleanAccountDirName rt wxid)) then Inl Thrown
      else if \<not> wcdb_open db dbPath key (cleanAccountDirName rt wxid) then Inr (Inl OpenFailed)
      else Inr (Inr \<lparr>cleanedWxid = cleanAccountDirName rt wxid, rawWxid = wxid\<rparr>))"
  by (simp add: ensureConnectedWithConfig_def Let_def)

lemma generate_connection_thrown:
  "ensureConnectedWithConfig rt db (p_dbPath p) (p_decryptKey p) (p_wxid p) = Inl x \<Longrightarrow>
   generateReportWithConfig rt tz db p = Inl (Caught x)"
  by (simp add: generateReportWithConfig_def generateReport_try_def)

lemma generate_connection_failed:
  "ensureConnectedWithConfig rt db (p_dbPath p) (p_decryptKey p) (p_wxid p) = Inr (Inl e) \<Longrightarrow>
   generateReportWithConfig rt tz db p = Inl e"
  by (simp add: generateReportWithConfig_def generateReport_try_def)

lemma generate_sessions_thrown:
  assumes "ensureConnectedWithConfig rt db (p_dbPath p) (p_decryptKey p) (p_wxid p) = Inr (Inr conn)"
    and "cleanedWxid conn \<noteq> []" and "getPrivateSessions rt db (cleanedWxid conn) = Inl x"
  shows "generateReportWithConfig rt tz db p = Inl (Caught x)"
  using assms connected_raw [OF assms(1)]
  by (simp add: generateReportWithConfig_def generateReport_try_def)

lemma generate_no_sessions:
  assumes "ensureConnectedWithConfig rt db (p_dbPath p) (p_decryptKey p) (p_wxid p) = Inr (Inr conn)"
    and "cleanedWxid conn \<noteq> []" and "getPrivateSessions rt db (cleanedWxid conn) = Inr []"
  shows "generateReportWithConfig rt tz db p = Inl NoSessionsFound"
  using assms connected_raw [OF assms(1)]
  by (simp add: generateReportWithConfig_def generateReport_try_def)

lemma generate_stats_thrown:
  assumes "ensureConnectedWithConfig rt db (p_dbPath p) (p_decryptKey p) (p_wxid p) = Inr (Inr conn)"
    and "cleanedWxid conn \<noteq> []" and "getPrivateSessions rt db (cleanedWxid conn) = Inr sids"
    and "sids \<noteq> []"
    and "rejects db (CallStats sids (startTime_of tz (p_year p)) (endTime_of tz (p_year p)))"
  shows "generateReportWithConfig rt tz db p = Inl (Caught Thrown)"
  using assms connected_raw [OF assms(1)]
  by (simp add: generateReportWithConfig_def generateReport_try_def Let_def)

lemma generate_stats_failed:
  assumes "ensureConnectedWithConfig rt db (p_dbPath p) (p_decryptKey p) (p_wxid p) = Inr (Inr conn)"
    and "cleanedWxid conn \<noteq> []" and "getPrivateSessions rt db (cleanedWxid conn) = Inr sids"
    and "sids \<noteq> []"
    and "\<not> rejects db (CallStats sids (startTime_of tz (p_year p)) (endTime_of tz (p_year p)))"
    and "\<not> sr_success (getAnnualReportStats db sids (startTime_of tz (p_year p)) (endTime_of tz (p_year p)))
         \<or> sr_data (getAnnualReportStats db sids (startTime_of tz (p_year p)) (endTime_of tz (p_year p))) = None"
  shows "generateReportWithConfig rt tz db p
     = Inl (BaseStatsFailed (sr_error (getAnnualReportStats db sids
         (startTime_of tz (p_year p)) (endTime_of tz (p_year p)))))"
  using assms connected_raw [OF assms(1)]
  by (auto simp: generateReportWithConfig_def generateReport_try_def Let_def)

lemma generate_analysed:
  assumes "ensureConnectedWithConfig rt db (p_dbPath p) (p_decryptKey p) (p_wxid p) = Inr (Inr conn)"
    and "cleanedWxid conn \<noteq> []" and "getPrivateSessions rt db (cleanedWxid conn) = Inr sids"
    and "sids \<noteq> []"
    and "\<not> rejects db (CallStats sids (startTime_of tz (p_year p)) (endTime_of tz (p_year p)))"
    and "sr_success (getAnnualReportStats db sids (startTime_of tz (p_year p)) (endTime_of tz (p_year p)))"
    and "sr_data (getAnnualReportStats db sids (startTime_of tz (p_year p)) (endTime_of tz (p_year p))) = Some d"
  shows "generateReportWithConfig rt tz db p =
     (case analyse_try rt tz db sids (startTime_of tz (p_year p)) (endTime_of tz (p_year p))
             (fst (find_peakDay (st_daily d)))
             (if st_total d > 0 then st_total d else length sids) of
        Inl x \<Rightarrow> Inl (Caught x)
      | Inr a \<Rightarrow>
          if raised db [CallDisplayNames (st_sessions d), CallAvatarUrls (st_sessions d),
                        CallAvatarUrls [rawWxid conn, cleanedWxid conn]]
          then Inl (Caught Thrown)
          else Inr \<lparr>r_year = (if p_year p \<le> 0 then 0 else p_year p),
                    r_totalMessages = st_total d,
                    r_longestStreak = longestStreak tz a,
                    r_activityHeatmap = heatmapData a,
                    r_topPhrases = topPhrases a,
                    r_accum = a\<rparr>)"
  using assms connected_raw [OF assms(1)]
  by (simp add: generateReportWithConfig_def generateReport_try_def Let_def split: sum.splits)

lemma generate_errors:
  assumes "generateReportWithConfig rt tz db p = Inl e"
  shows "e = NoWxid \<or> e = NoDbPath \<or> e = NoDecryptKey \<or> e = OpenFailed \<or> e = NoMessage \<or>
         e = NoSessionsFound \<or> (\<exists>m. e = BaseStatsFailed m) \<or> e = Caught Thrown"
proof (cases "generateReport_try rt tz db p")
  case (Inl x)
  then have "e = Caught x" using assms by (simp add: generateReportWithConfig_def)
  then show ?thesis by (cases x) simp
next
  case (Inr res)
  then have res: "res = Inl e" using assms by (simp add: generateReportWithConfig_def)
  show ?thesis
  proof (cases "ensureConnectedWithConfig rt db (p_dbPath p) (p_decryptKey p) (p_wxid p)")
    case (Inl x)
    then show ?thesis using Inr by (simp add: generateReport_try_def)
  next
    case c: (Inr cr)
    show ?thesis
    proof (cases cr)
      case (Inl e')
      then have "e = e'" using Inr res c by (simp add: generateReport_try_def)
      then show ?thesis using connection_errors [of rt db "p_dbPath p" "p_decryptKey p" "p_wxid p" e'] c Inl
        by blast
    next
      case (Inr conn)
      then show ?thesis using \<open>generateReport_try rt tz db p = Inr res\<close> res c
        by (auto simp: generateReport_try_def Let_def split: if_splits option.splits sum.splits)
    qed
  qed
qed

lemma analyse_try_cases:
  "analyse_try rt tz db sids st en pk tot = Inl Thrown \<or>
   analyse_try rt tz db sids st en pk tot = Inr (analyse rt tz db sids st en pk tot initial_accum)"
  by (simp add: analyse_try_def Let_def)

lemma analyse_try_quiet:
  assumes "\<forall>call. \<not> rejects db call"
    and "useSqlExtras (analyse rt tz db sids st en pk tot initial_accum) \<or>
         list_all (\<lambda>r. date_in_range (create_time r)) (timed (scanned_rows db st en sids))"
  shows "analyse_try rt tz db sids st en pk tot = Inr (analyse rt tz db sids st en pk tot initial_accum)"
  using assms
  by (auto simp: analyse_try_def Let_def raised_def list_ex_iff list_all_iff)

lemma analyse_try_rejected:
  assumes "rejects db call"
    and "call \<in> set (analysis_calls rt tz db sids st en pk tot)"
  shows "analyse_try rt tz db sids st en pk tot = Inl Thrown"
  using assms by (auto simp: analyse_try_def Let_def raised_def list_ex_iff)

lemma analyse_try_date:
  assumes "\<not> useSqlExtras (analyse rt tz db sids st en pk tot initial_accum)"
    and "r \<in> set (timed (scanned_rows db st en sids))" and "\<not> date_in_range (create_time r)"
  shows "analyse_try rt tz db sids st en pk tot = Inl Thrown"
  using assms by (auto simp: analyse_try_def Let_def list_ex_iff)


text \<open>The streak of the fast path with an incomplete payload, and the shape of the
  report.\<close>

lemma best_of_initial: "best_of initial_accum = ([], 0, None, None)"
  by (simp add: best_of_def initial_accum_def)

lemma best_of_apply_extras_initial: "best_of (apply_extras pk p initial_accum) = payload_best p"
  by (simp add: apply_extras_fields best_of_initial payload_best_def split: option.splits)

lemma days_of_best: "longestStreakDays a = fst (snd (best_of a))"
  by (simp add: best_of_def)

lemma fast_incomplete_streak:
  assumes e: "er_success (extras_of tz db sids st en pk)"
    "er_data (extras_of tz db sids st en pk) = Some p"
    and c: "\<not> complete_streak p"
  shows "analyse rt tz db sids st en pk tot initial_accum
           = merge_streak tz db sids st en (apply_extras pk p initial_accum)"
    and "best_of (analyse rt tz db sids st en pk tot initial_accum) =
          (if res_days (fst (computeLongestStreak tz db sids st en)) > fst (snd (payload_best p))
           then (res_sessionId (fst (computeLongestStreak tz db sids st en)),
                 res_days (fst (computeLongestStreak tz db sids st en)),
                 res_start (fst (computeLongestStreak tz db sids st en)),
                 res_end (fst (computeLongestStreak tz db sids st en)))
           else payload_best p)"
proof -
  show a: "analyse rt tz db sids st en pk tot initial_accum
           = merge_streak tz db sids st en (apply_extras pk p initial_accum)"
    using c by (simp add: analyse_fast [OF e] apply_extras_fields initial_fields)
  show "best_of (analyse rt tz db sids st en pk tot initial_accum) =
          (if res_days (fst (computeLongestStreak tz db sids st en)) > fst (snd (payload_best p))
           then (res_sessionId (fst (computeLongestStreak tz db sids st en)),
                 res_days (fst (computeLongestStreak tz db sids st en)),
                 res_start (fst (computeLongestStreak tz db sids st en)),
                 res_end (fst (computeLongestStreak tz db sids st en)))
           else payload_best p)"
    by (simp only: a best_of_merge_streak Let_def days_of_best best_of_apply_extras_initial)
qed

lemma result_tuple_none:
  "res_days (fst (computeLongestStreak tz db sids st en)) = 0 \<Longrightarrow>
   (res_sessionId (fst (computeLongestStreak tz db sids st en)),
    res_days (fst (computeLongestStreak tz db sids st en)),
    res_start (fst (computeLongestStreak tz db sids st en)),
    res_end (fst (computeLongestStreak tz db sids st en))) = ([], 0, None, None)"
  using best_computeLongestStreak [of tz db sids st en]
  by (auto simp: no_result_def result_of_def)

lemma longestStreak_no_date:
  "best_of a = (sid, n, s, e) \<Longrightarrow> s = None \<or> e = None \<Longrightarrow> longestStreak tz a = None"
  by (auto simp: best_of_def longestStreak_def split: option.splits)

lemma generate_shape:
  assumes "ensureConnectedWithConfig rt db (p_dbPath p) (p_decryptKey p) (p_wxid p) = Inr (Inr conn)"
    and "cleanedWxid conn \<noteq> []" and "getPrivateSessions rt db (cleanedWxid conn) = Inr sids"
    and "sids \<noteq> []"
    and "\<not> rejects db (CallStats sids (startTime_of tz (p_year p)) (endTime_of tz (p_year p)))"
    and "sr_success (getAnnualReportStats db sids (startTime_of tz (p_year p)) (endTime_of tz (p_year p)))"
    and "sr_data (getAnnualReportStats db sids (startTime_of tz (p_year p)) (endTime_of tz (p_year p))) = Some d"
  shows "generateReportWithConfig rt tz db p = Inl (Caught Thrown) \<or>
     (\<exists>r. generateReportWithConfig rt tz db p = Inr r \<and> is_grid (r_activityHeatmap r) \<and>
          r_accum r = analyse rt tz db sids (startTime_of tz (p_year p)) (endTime_of tz (p_year p))
             (fst (find_peakDay (st_daily d)))
             (if st_total d > 0 then st_total d else length sids) initial_accum)"
proof -
  let ?pk = "fst (find_peakDay (st_daily d))"
  let ?tot = "if st_total d > 0 then st_total d else length sids"
  let ?st = "startTime_of tz (p_year p)"
  let ?en = "endTime_of tz (p_year p)"
  let ?a = "analyse rt tz db sids ?st ?en ?pk ?tot initial_accum"
  note g = generate_analysed [OF assms]
  have grid: "is_grid (heatmapData ?a)" by (rule is_grid_analyse)
  consider "analyse_try rt tz db sids ?st ?en ?pk ?tot = Inl Thrown"
    | "analyse_try rt tz db sids ?st ?en ?pk ?tot = Inr ?a"
    using analyse_try_cases by blast
  then show ?thesis
  proof cases
    case 1
    then show ?thesis by (simp only: g sum.case) simp
  next
    case 2
    show ?thesis
    proof (cases "raised db [CallDisplayNames (st_sessions d), CallAvatarUrls (st_sessions d),
                        CallAvatarUrls [rawWxid conn, cleanedWxid conn]]")
      case True
      then show ?thesis using 2 by (simp only: g sum.case if_True) simp
    next
      case False
      then show ?thesis using 2 grid by (simp only: g sum.case if_False) simp
    qed
  qed
qed

lemma generate_quiet:
  assumes "ensureConnectedWithConfig rt db (p_dbPath p) (p_decryptKey p) (p_wxid p) = Inr (Inr conn)"
    and "cleanedWxid conn \<noteq> []" and "getPrivateSessions rt db (cleanedWxid conn) = Inr sids"
    and "sids \<noteq> []"
    and "\<not> rejects db (CallStats sids (startTime_of tz (p_year p)) (endTime_of tz (p_year p)))"
    and "sr_success (getAnnualReportStats db sids (startTime_of tz (p_year p)) (endTime_of tz (p_year p)))"
    and "sr_data (getAnnualReportStats db sids (startTime_of tz (p_year p)) (endTime_of tz (p_year p))) = Some d"
    and q: "\<forall>call. \<not> rejects db call"
    and r: "useSqlExtras (analyse rt tz db sids (startTime_of tz (p_year p)) (endTime_of tz (p_year p))
             (fst (find_peakDay (st_daily d)))
             (if st_total d > 0 then st_total d else length sids) initial_accum) \<or>
         list_all (\<lambda>r. date_in_range (create_time r))
           (timed (scanned_rows db (startTime_of tz (p_year p)) (endTime_of tz (p_year p)) sids))"
  shows "\<exists>r. generateReportWithConfig rt tz db p = Inr r \<and> is_grid (r_activityHeatmap r) \<and>
          r_accum r = analyse rt tz db sids (startTime_of tz (p_year p)) (endTime_of tz (p_year p))
             (fst (find_peakDay (st_daily d)))
             (if st_total d > 0 then st_total d else length sids) initial_accum"
  using q is_grid_analyse [of rt tz db sids "startTime_of tz (p_year p)" "endTime_of tz (p_year p)"
      "fst (find_peakDay (st_daily d))" "if st_total d > 0 then st_total d else length sids"]
  by (simp add: generate_analysed [OF assms(1-7)] analyse_try_quiet [OF q r] raised_def)


text \<open>
  Claim C2, as the code has it. When the extras call reports success and returns a
  payload, the full-scan loop is not run and its accumulators stay empty; the heatmap
  is rebuilt cell by cell from a payload heatmap of seven rows (a missing cell is 0), so
  it is the payload's own when that is a 7 by 24 grid, and stays zero when the payload
  has no heatmap of seven rows; the midnight map, the conversation map, the response
  statistics, the peak-day breakdown and the phrases, where the payload has them, are
  taken from it as they are. The best streak is taken from the payload, and no cursor
  is opened at all, when the payload's streak is complete (session id, positive days,
  valid start and end dates). When it is not, the streak-only scan opens a cursor for
  every session, and its result replaces the streak of the payload (or none) only when
  it has more days: otherwise the payload's streak stays, and a report whose streak has
  no start or end date shows no streak. When the call fails or returns no payload, the
  result is that of the full scan, which opens a cursor for every session. On either
  path the heatmap is a 7 by 24 grid. Once the base statistics are there, the report is
  the caught exception or a success with that grid; it is a success when no call of the
  store rejects and the fast path was taken or every scanned timestamp is one a date
  can hold.
\<close>

theorem fast_path_streak_and_fallback:
  "(er_success (extras_of tz db sids st en pk) \<and> er_data (extras_of tz db sids st en pk) = Some p \<longrightarrow>
       useSqlExtras (analyse rt tz db sids st en pk tot initial_accum)
     \<and> (\<forall>hm. x_heatmap p = Some hm \<and> length hm = 7 \<longrightarrow>
           heatmapData (analyse rt tz db sids st en pk tot initial_accum)
             = map (\<lambda>w. map (\<lambda>h. cell_or0 (hm ! w) h) [0..<24]) [0..<7])
     \<and> (\<forall>hm. x_heatmap p = Some hm \<and> is_grid hm \<longrightarrow>
           heatmapData (analyse rt tz db sids st en pk tot initial_accum) = hm)
     \<and> (\<forall>hm. x_heatmap p = Some hm \<and> length hm \<noteq> 7 \<longrightarrow>
           heatmapData (analyse rt tz db sids st en pk tot initial_accum) = initial_heatmap)
     \<and> (x_heatmap p = None \<longrightarrow>
           heatmapData (analyse rt tz db sids st en pk tot initial_accum) = initial_heatmap)
     \<and> (\<forall>mm. x_midnight p = Some mm \<and> distinct (map fst mm) \<longrightarrow>
           midnightStats (analyse rt tz db sids st en pk tot initial_accum) = mm)
     \<and> (\<forall>cm. x_conversation p = Some cm \<and> distinct (map fst cm) \<longrightarrow>
           conversationStarts (analyse rt tz db sids st en pk tot initial_accum) = cm)
     \<and> responseStatsFromSql (analyse rt tz db sids st en pk tot initial_accum) = x_response p
     \<and> (\<forall>k pd. pk = Some k \<and> x_peakDay p = Some pd \<and> pd \<noteq> [] \<and> distinct (map fst pd) \<longrightarrow>
           dailyContactStats (analyse rt tz db sids st en pk tot initial_accum) = [(k, pd)])
     \<and> (\<forall>ps. x_topPhrases p = Some ps \<and> ps \<noteq> [] \<longrightarrow>
           topPhrases (analyse rt tz db sids st en pk tot initial_accum) = ps)
     \<and> phraseCount (analyse rt tz db sids st en pk tot initial_accum) = []
     \<and> responseTimeStats (analyse rt tz db sids st en pk tot initial_accum) = []
     \<and> lastMessageTime (analyse rt tz db sids st en pk tot initial_accum) = []
     \<and> processedMessages (analyse rt tz db sids st en pk tot initial_accum) = 0
     \<and> (\<forall>sp. x_streak p = Some sp \<and> complete_streak p \<longrightarrow>
           best_of (analyse rt tz db sids st en pk tot initial_accum)
             = (sp_sessionId sp, sp_days sp, sp_startDate sp, sp_endDate sp) \<and>
           cursorsOpened (analyse rt tz db sids st en pk tot initial_accum) = [])
     \<and> (\<not> complete_streak p \<longrightarrow>
           cursorsOpened (analyse rt tz db sids st en pk tot initial_accum) = sids
         \<and> analyse rt tz db sids st en pk tot initial_accum
             = merge_streak tz db sids st en (apply_extras pk p initial_accum)
         \<and> best_of (analyse rt tz db sids st en pk tot initial_accum) =
             (if res_days (fst (computeLongestStreak tz db sids st en)) > fst (snd (payload_best p))
              then (res_sessionId (fst (computeLongestStreak tz db sids st en)),
                    res_days (fst (computeLongestStreak tz db sids st en)),
                    res_start (fst (computeLongestStreak tz db sids st en)),
                    res_end (fst (computeLongestStreak tz db sids st en)))
              else payload_best p)
         \<and> longestStreakDays (analyse rt tz db sids st en pk tot initial_accum)
             = max (fst (snd (payload_best p)))
                 (Max (insert 0 (streak_scan_max tz db st en ` set sids)))
         \<and> (payload_best p = ([], 0, None, None) \<longrightarrow>
               best_of (analyse rt tz db sids st en pk tot initial_accum)
                 = (res_sessionId (fst (computeLongestStreak tz db sids st en)),
                    res_days (fst (computeLongestStreak tz db sids st en)),
                    res_start (fst (computeLongestStreak tz db sids st en)),
                    res_end (fst (computeLongestStreak tz db sids st en))))
         \<and> (\<forall>sp. x_streak p = Some sp \<and> sp_sessionId sp \<noteq> [] \<and> sp_days sp > 0 \<and>
                 res_days (fst (computeLongestStreak tz db sids st en)) \<le> sp_days sp \<longrightarrow>
               best_of (analyse rt tz db sids st en pk tot initial_accum)
                 = (sp_sessionId sp, sp_days sp, sp_startDate sp, sp_endDate sp) \<and>
               (sp_startDate sp = None \<or> sp_endDate sp = None \<longrightarrow>
                  longestStreak tz (analyse rt tz db sids st en pk tot initial_accum) = None))))
   \<and> (\<not> (er_success (extras_of tz db sids st en pk) \<and> er_data (extras_of tz db sids st en pk) \<noteq> None) \<longrightarrow>
         analyse rt tz db sids st en pk tot initial_accum
           = (full_scan rt tz db pk tot st en sids initial_accum)\<lparr>streakComputedInLoop := True\<rparr> \<and>
         cursorsOpened (analyse rt tz db sids st en pk tot initial_accum) = sids)
   \<and> is_grid (heatmapData (analyse rt tz db sids st en pk tot initial_accum))
   \<and> (ensureConnectedWithConfig rt db (p_dbPath prm) (p_decryptKey prm) (p_wxid prm) = Inr (Inr conn) \<and>
       cleanedWxid conn \<noteq> [] \<and> getPrivateSessions rt db (cleanedWxid conn) = Inr ss \<and> ss \<noteq> [] \<and>
       \<not> rejects db (CallStats ss (startTime_of tz (p_year prm)) (endTime_of tz (p_year prm))) \<and>
       sr_success (getAnnualReportStats db ss
           (startTime_of tz (p_year prm)) (endTime_of tz (p_year prm))) \<and>
       sr_data (getAnnualReportStats db ss
           (startTime_of tz (p_year prm)) (endTime_of tz (p_year prm))) = Some d \<longrightarrow>
         (generateReportWithConfig rt tz db prm = Inl (Caught Thrown) \<or>
          (\<exists>r. generateReportWithConfig rt tz db prm = Inr r \<and> is_grid (r_activityHeatmap r) \<and>
               r_accum r = analyse rt tz db ss (startTime_of tz (p_year prm))
                 (endTime_of tz (p_year prm)) (fst (find_peakDay (st_daily d)))
                 (if st_total d > 0 then st_total d else length ss) initial_accum))
       \<and> ((\<forall>call. \<not> rejects db call) \<and>
          (useSqlExtras (analyse rt tz db ss (startTime_of tz (p_year prm))
                 (endTime_of tz (p_year prm)) (fst (find_peakDay (st_daily d)))
                 (if st_total d > 0 then st_total d else length ss) initial_accum) \<or>
           list_all (\<lambda>r. date_in_range (create_time r))
             (timed (scanned_rows db (startTime_of tz (p_year prm))
                (endTime_of tz (p_year prm)) ss))) \<longrightarrow>
          (\<exists>r. generateReportWithConfig rt tz db prm = Inr r \<and> is_grid (r_activityHeatmap r) \<and>
               r_accum r = analyse rt tz db ss (startTime_of tz (p_year prm))
                 (endTime_of tz (p_year prm)) (fst (find_peakDay (st_daily d)))
                 (if st_total d > 0 then st_total d else length ss) initial_accum)))"
proof (intro conjI impI allI)
  assume "er_success (extras_of tz db sids st en pk) \<and> er_data (extras_of tz db sids st en pk) = Some p"
  then have e: "er_success (extras_of tz db sids st en pk)"
    "er_data (extras_of tz db sids st en pk) = Some p" by simp_all
  note f = fast_fields [OF e, of rt tot initial_accum]
  show "useSqlExtras (analyse rt tz db sids st en pk tot initial_accum)" by (rule f)
  show "responseStatsFromSql (analyse rt tz db sids st en pk tot initial_accum) = x_response p"
    by (rule f)
  show "phraseCount (analyse rt tz db sids st en pk tot initial_accum) = []"
    by (simp add: f initial_fields)
  show "responseTimeStats (analyse rt tz db sids st en pk tot initial_accum) = []"
    by (simp add: f initial_fields)
  show "lastMessageTime (analyse rt tz db sids st en pk tot initial_accum) = []"
    by (simp add: f initial_fields)
  show "processedMessages (analyse rt tz db sids st en pk tot initial_accum) = 0"
    by (simp add: f initial_fields)
  show "heatmapData (analyse rt tz db sids st en pk tot initial_accum)
          = map (\<lambda>w. map (\<lambda>h. cell_or0 (hm ! w) h) [0..<24]) [0..<7]"
    if "x_heatmap p = Some hm \<and> length hm = 7" for hm
    using that by (simp add: f)
  show "heatmapData (analyse rt tz db sids st en pk tot initial_accum) = hm"
    if "x_heatmap p = Some hm \<and> is_grid hm" for hm
    using that grid_rebuild [of hm] by (simp add: f is_grid_def)
  show "heatmapData (analyse rt tz db sids st en pk tot initial_accum) = initial_heatmap"
    if "x_heatmap p = Some hm \<and> length hm \<noteq> 7" for hm
    using that by (simp add: f initial_fields)
  show "heatmapData (analyse rt tz db sids st en pk tot initial_accum) = initial_heatmap"
    if "x_heatmap p = None"
    using that by (simp add: f initial_fields)
  show "midnightStats (analyse rt tz db sids st en pk tot initial_accum) = mm"
    if "x_midnight p = Some mm \<and> distinct (map fst mm)" for mm
    using that by (simp add: f initial_fields set_all_fresh)
  show "conversationStarts (analyse rt tz db sids st en pk tot initial_accum) = cm"
    if "x_conversation p = Some cm \<and> distinct (map fst cm)" for cm
    using that by (simp add: f initial_fields set_all_fresh)
  show "dailyContactStats (analyse rt tz db sids st en pk tot initial_accum) = [(k, pd)]"
    if "pk = Some k \<and> x_peakDay p = Some pd \<and> pd \<noteq> [] \<and> distinct (map fst pd)" for k pd
  proof -
    from that have "dailyContactStats (extras_peakDay pk p initial_accum) = [(k, pd)]"
      by (simp add: initial_fields set_all_fresh)
    then show ?thesis by (simp only: f(5))
  qed
  show "topPhrases (analyse rt tz db sids st en pk tot initial_accum) = ps"
    if "x_topPhrases p = Some ps \<and> ps \<noteq> []" for ps
    using that by (simp add: f topPhrases_def)
  show "best_of (analyse rt tz db sids st en pk tot initial_accum)
             = (sp_sessionId sp, sp_days sp, sp_startDate sp, sp_endDate sp)"
    if "x_streak p = Some sp \<and> complete_streak p" for sp
    using that fast_complete(1) [OF e, of sp rt tot initial_accum] by simp
  show "cursorsOpened (analyse rt tz db sids st en pk tot initial_accum) = []"
    if "x_streak p = Some sp \<and> complete_streak p" for sp
    using that fast_complete(2) [OF e, of sp rt tot initial_accum] by (simp add: initial_fields)
  show "cursorsOpened (analyse rt tz db sids st en pk tot initial_accum) = sids"
    if "\<not> complete_streak p"
    using that fast_incomplete [OF e, of initial_accum rt tot] by (simp add: initial_fields)
  show "analyse rt tz db sids st en pk tot initial_accum
             = merge_streak tz db sids st en (apply_extras pk p initial_accum)"
    if "\<not> complete_streak p"
    using that by (rule fast_incomplete_streak(1) [OF e])
  show b: "best_of (analyse rt tz db sids st en pk tot initial_accum) =
             (if res_days (fst (computeLongestStreak tz db sids st en)) > fst (snd (payload_best p))
              then (res_sessionId (fst (computeLongestStreak tz db sids st en)),
                    res_days (fst (computeLongestStreak tz db sids st en)),
                    res_start (fst (computeLongestStreak tz db sids st en)),
                    res_end (fst (computeLongestStreak tz db sids st en)))
              else payload_best p)"
    if "\<not> complete_streak p"
    using that by (rule fast_incomplete_streak(2) [OF e])
  show "longestStreakDays (analyse rt tz db sids st en pk tot initial_accum)
             = max (fst (snd (payload_best p)))
                 (Max (insert 0 (streak_scan_max tz db st en ` set sids)))"
    if c: "\<not> complete_streak p"
  proof -
    have "longestStreakDays (analyse rt tz db sids st en pk tot initial_accum)
        = max (fst (snd (payload_best p))) (res_days (fst (computeLongestStreak tz db sids st en)))"
      by (simp add: days_of_best b [OF c])
    then show ?thesis by (simp only: days_computeLongestStreak)
  qed
  show "best_of (analyse rt tz db sids st en pk tot initial_accum)
                 = (res_sessionId (fst (computeLongestStreak tz db sids st en)),
                    res_days (fst (computeLongestStreak tz db sids st en)),
                    res_start (fst (computeLongestStreak tz db sids st en)),
                    res_end (fst (computeLongestStreak tz db sids st en)))"
    if c: "\<not> complete_streak p" and n: "payload_best p = ([], 0, None, None)"
    using result_tuple_none [of tz db sids st en] by (simp add: b [OF c] n)
  show s: "best_of (analyse rt tz db sids st en pk tot initial_accum)
                 = (sp_sessionId sp, sp_days sp, sp_startDate sp, sp_endDate sp)"
    if c: "\<not> complete_streak p" and sp: "x_streak p = Some sp \<and> sp_sessionId sp \<noteq> [] \<and> sp_days sp > 0 \<and>
                 res_days (fst (computeLongestStreak tz db sids st en)) \<le> sp_days sp" for sp
    using sp by (simp add: b [OF c] payload_best_def)
  show "longestStreak tz (analyse rt tz db sids st en pk tot initial_accum) = None"
    if c: "\<not> complete_streak p" and sp: "x_streak p = Some sp \<and> sp_sessionId sp \<noteq> [] \<and> sp_days sp > 0 \<and>
                 res_days (fst (computeLongestStreak tz db sids st en)) \<le> sp_days sp"
      and n: "sp_startDate sp = None \<or> sp_endDate sp = None" for sp
    using longestStreak_no_date [OF s [OF c sp] n] .
next
  assume n: "\<not> (er_success (extras_of tz db sids st en pk) \<and> er_data (extras_of tz db sids st en pk) \<noteq> None)"
  show "analyse rt tz db sids st en pk tot initial_accum
           = (full_scan rt tz db pk tot st en sids initial_accum)\<lparr>streakComputedInLoop := True\<rparr>"
    using analyse_slow [OF n, of initial_accum rt tot] by (simp add: initial_fields)
  show "cursorsOpened (analyse rt tz db sids st en pk tot initial_accum) = sids"
    using slow_opened [OF n, of initial_accum rt tot] by (simp add: initial_fields)
next
  show "is_grid (heatmapData (analyse rt tz db sids st en pk tot initial_accum))"
    by (rule is_grid_analyse)
next
  assume a: "ensureConnectedWithConfig rt db (p_dbPath prm) (p_decryptKey prm) (p_wxid prm) = Inr (Inr conn) \<and>
       cleanedWxid conn \<noteq> [] \<and> getPrivateSessions rt db (cleanedWxid conn) = Inr ss \<and> ss \<noteq> [] \<and>
       \<not> rejects db (CallStats ss (startTime_of tz (p_year prm)) (endTime_of tz (p_year prm))) \<and>
       sr_success (getAnnualReportStats db ss
           (startTime_of tz (p_year prm)) (endTime_of tz (p_year prm))) \<and>
       sr_data (getAnnualReportStats db ss
           (startTime_of tz (p_year prm)) (endTime_of tz (p_year prm))) = Some d"
  show "generateReportWithConfig rt tz db prm = Inl (Caught Thrown) \<or>
          (\<exists>r. generateReportWithConfig rt tz db prm = Inr r \<and> is_grid (r_activityHeatmap r) \<and>
               r_accum r = analyse rt tz db ss (startTime_of tz (p_year prm))
                 (endTime_of tz (p_year prm)) (fst (find_peakDay (st_daily d)))
                 (if st_total d > 0 then st_total d else length ss) initial_accum)"
    using a generate_shape [of rt db prm conn ss tz d] by blast
  assume "(\<forall>call. \<not> rejects db call) \<and>
          (useSqlExtras (analyse rt tz db ss (startTime_of tz (p_year prm))
                 (endTime_of tz (p_year prm)) (fst (find_peakDay (st_daily d)))
                 (if st_total d > 0 then st_total d else length ss) initial_accum) \<or>
           list_all (\<lambda>r. date_in_range (create_time r))
             (timed (scanned_rows db (startTime_of tz (p_year prm))
                (endTime_of tz (p_year prm)) ss)))"
  then show "\<exists>r. generateReportWithConfig rt tz db prm = Inr r \<and> is_grid (r_activityHeatmap r) \<and>
               r_accum r = analyse rt tz db ss (startTime_of tz (p_year prm))
                 (endTime_of tz (p_year prm)) (fst (find_peakDay (st_daily d)))
                 (if st_total d > 0 then st_total d else length ss) initial_accum"
    using a generate_quiet [of rt db prm conn ss tz d] by blast
qed

lemma complete_store_extras:
  "er_success (extras_of sample_tz complete_store [sample_session] 0 0 None) \<and>
   er_data (extras_of sample_tz complete_store [sample_session] 0 0 None) = Some complete_payload"
  by code_simp

lemma complete_payload_streak:
  "x_streak complete_payload =
     Some \<lparr>sp_sessionId = sample_session, sp_days = 3,
            sp_startDate = Some (Date 1672502400), sp_endDate = Some (Date 1672675200)\<rparr> \<and>
   complete_streak complete_payload"
  by code_simp

lemma sample_store_extras:
  "\<not> (er_success (extras_of sample_tz sample_store [sample_session] 0 0 None) \<and>
      er_data (extras_of sample_tz sample_store [sample_session] 0 0 None) \<noteq> None)"
  by code_simp

lemma partial_store_extras:
  "er_success (extras_of sample_tz partial_store [sample_session] 0 0 None) \<and>
   er_data (extras_of sample_tz partial_store [sample_session] 0 0 None) = Some partial_payload"
  by code_simp

lemma partial_payload_streak:
  "\<not> complete_streak partial_payload \<and>
   x_streak partial_payload =
     Some \<lparr>sp_sessionId = sample_session, sp_days = 5,
            sp_startDate = None, sp_endDate = Some (Date 1672675200)\<rparr> \<and>
   sp_sessionId \<lparr>sp_sessionId = sample_session, sp_days = 5,
            sp_startDate = None, sp_endDate = Some (Date 1672675200)\<rparr> \<noteq> [] \<and>
   sp_days \<lparr>sp_sessionId = sample_session, sp_days = 5,
            sp_startDate = None, sp_endDate = Some (Date 1672675200)\<rparr> > 0 \<and>
   sp_startDate \<lparr>sp_sessionId = sample_session, sp_days = 5,
            sp_startDate = None, sp_endDate = Some (Date 1672675200)\<rparr> = None"
  by code_simp

lemma partial_store_scan:
  "res_days (fst (computeLongestStreak sample_tz partial_store [sample_session] 0 0)) = 3"
  by code_simp

lemma partial_store_days:
  "res_days (fst (computeLongestStreak sample_tz partial_store [sample_session] 0 0))
     \<le> sp_days \<lparr>sp_sessionId = sample_session, sp_days = 5,
            sp_startDate = None, sp_endDate = Some (Date 1672675200)\<rparr>"
  by (simp add: partial_store_scan)

lemma sample_store_report:
  "ensureConnectedWithConfig sample_runtime sample_store (p_dbPath sample_params)
     (p_decryptKey sample_params) (p_wxid sample_params)
     = Inr (Inr \<lparr>cleanedWxid = str ''wxid_me'', rawWxid = str ''wxid_me''\<rparr>)"
  "cleanedWxid \<lparr>cleanedWxid = str ''wxid_me'', rawWxid = str ''wxid_me''\<rparr> \<noteq> []"
  "getPrivateSessions sample_runtime sample_store
     (cleanedWxid \<lparr>cleanedWxid = str ''wxid_me'', rawWxid = str ''wxid_me''\<rparr>)
     = Inr [sample_session]"
  "[sample_session] \<noteq> []"
  "sr_success (getAnnualReportStats sample_store [sample_session]
     (startTime_of sample_tz (p_year sample_params)) (endTime_of sample_tz (p_year sample_params)))"
  "sr_data (getAnnualReportStats sample_store [sample_session]
     (startTime_of sample_tz (p_year sample_params)) (endTime_of sample_tz (p_year sample_params)))
     = Some \<lparr>st_total = 5, st_sessions = [sample_session],
              st_daily = [((2023, 1, 1), 1), ((2023, 1, 2), 2), ((2023, 1, 3), 1),
                          ((2023, 1, 10), 1)]\<rparr>"
  "list_all (\<lambda>r. date_in_range (create_time r))
     (timed (scanned_rows sample_store (startTime_of sample_tz (p_year sample_params))
        (endTime_of sample_tz (p_year sample_params)) [sample_session]))"
  by code_simp+

lemma sample_store_quiet: "\<forall>call. \<not> rejects sample_store call"
  by (simp add: sample_store_def)

theorem fast_path_streak_and_fallback_witness:
  "er_success (extras_of sample_tz complete_store [sample_session] 0 0 None)
   \<and> er_data (extras_of sample_tz complete_store [sample_session] 0 0 None) = Some complete_payload
   \<and> complete_streak complete_payload
   \<and> cursorsOpened (analyse sample_runtime sample_tz complete_store [sample_session] 0 0 None 5
        initial_accum) = []
   \<and> best_of (analyse sample_runtime sample_tz complete_store [sample_session] 0 0 None 5
        initial_accum)
       = (sample_session, 3, Some (Date 1672502400), Some (Date 1672675200))
   \<and> cursorsOpened (analyse sample_runtime sample_tz sample_store [sample_session] 0 0 None 5
        initial_accum) = [sample_session]
   \<and> er_data (extras_of sample_tz partial_store [sample_session] 0 0 None) = Some partial_payload
   \<and> \<not> complete_streak partial_payload
   \<and> res_days (fst (computeLongestStreak sample_tz partial_store [sample_session] 0 0)) = 3
   \<and> best_of (analyse sample_runtime sample_tz partial_store [sample_session] 0 0 None 5
        initial_accum)
       = (sample_session, 5, None, Some (Date 1672675200))
   \<and> longestStreak sample_tz (analyse sample_runtime sample_tz partial_store [sample_session] 0 0
        None 5 initial_accum) = None
   \<and> (\<exists>r. generateReportWithConfig sample_runtime sample_tz sample_store sample_params = Inr r
          \<and> is_grid (r_activityHeatmap r))"
proof -
  note fast = fast_path_streak_and_fallback [where tz = sample_tz and db = complete_store
      and sids = "[sample_session]" and st = 0 and en = 0 and pk = None
      and p = complete_payload and rt = sample_runtime and tot = 5]
  note slow = fast_path_streak_and_fallback [where tz = sample_tz and db = sample_store
      and sids = "[sample_session]" and st = 0 and en = 0 and pk = None
      and rt = sample_runtime and tot = 5 and prm = sample_params
      and conn = "\<lparr>cleanedWxid = str ''wxid_me'', rawWxid = str ''wxid_me''\<rparr>"
      and ss = "[sample_session]"
      and d = "\<lparr>st_total = 5, st_sessions = [sample_session],
              st_daily = [((2023, 1, 1), 1), ((2023, 1, 2), 2), ((2023, 1, 3), 1),
                          ((2023, 1, 10), 1)]\<rparr>"]
  note partial = fast_path_streak_and_fallback [where tz = sample_tz and db = partial_store
      and sids = "[sample_session]" and st = 0 and en = 0 and pk = None
      and p = partial_payload and rt = sample_runtime and tot = 5]
  from fast complete_store_extras complete_payload_streak
  have "best_of (analyse sample_runtime sample_tz complete_store [sample_session] 0 0 None 5
        initial_accum)
       = (sp_sessionId \<lparr>sp_sessionId = sample_session, sp_days = 3,
            sp_startDate = Some (Date 1672502400), sp_endDate = Some (Date 1672675200)\<rparr>,
          sp_days \<lparr>sp_sessionId = sample_session, sp_days = 3,
            sp_startDate = Some (Date 1672502400), sp_endDate = Some (Date 1672675200)\<rparr>,
          sp_startDate \<lparr>sp_sessionId = sample_session, sp_days = 3,
            sp_startDate = Some (Date 1672502400), sp_endDate = Some (Date 1672675200)\<rparr>,
          sp_endDate \<lparr>sp_sessionId = sample_session, sp_days = 3,
            sp_startDate = Some (Date 1672502400), sp_endDate = Some (Date 1672675200)\<rparr>)"
    and c: "cursorsOpened (analyse sample_runtime sample_tz complete_store [sample_session] 0 0 None 5
        initial_accum) = []"
    by blast+
  then have b: "best_of (analyse sample_runtime sample_tz complete_store [sample_session] 0 0 None 5
        initial_accum)
       = (sample_session, 3, Some (Date 1672502400), Some (Date 1672675200))"
    by simp
  from slow sample_store_extras
  have s: "cursorsOpened (analyse sample_runtime sample_tz sample_store [sample_session] 0 0 None 5
        initial_accum) = [sample_session]"
    by blast
  from partial partial_store_extras partial_payload_streak partial_store_days
  have "best_of (analyse sample_runtime sample_tz partial_store [sample_session] 0 0 None 5
        initial_accum)
       = (sp_sessionId \<lparr>sp_sessionId = sample_session, sp_days = 5,
            sp_startDate = None, sp_endDate = Some (Date 1672675200)\<rparr>,
          sp_days \<lparr>sp_sessionId = sample_session, sp_days = 5,
            sp_startDate = None, sp_endDate = Some (Date 1672675200)\<rparr>,
          sp_startDate \<lparr>sp_sessionId = sample_session, sp_days = 5,
            sp_startDate = None, sp_endDate = Some (Date 1672675200)\<rparr>,
          sp_endDate \<lparr>sp_sessionId = sample_session, sp_days = 5,
            sp_startDate = None, sp_endDate = Some (Date 1672675200)\<rparr>)"
    and l: "longestStreak sample_tz (analyse sample_runtime sample_tz partial_store [sample_session] 0 0
        None 5 initial_accum) = None"
    by blast+
  then have pb: "best_of (analyse sample_runtime sample_tz partial_store [sample_session] 0 0 None 5
        initial_accum)
       = (sample_session, 5, None, Some (Date 1672675200))"
    by simp
  have g: "\<exists>r. generateReportWithConfig sample_runtime sample_tz sample_store sample_params = Inr r
          \<and> is_grid (r_activityHeatmap r)"
    using slow [THEN conjunct2, THEN conjunct2, THEN conjunct2]
    by (simp only: sample_store_report sample_store_quiet simp_thms) blast
  from complete_store_extras complete_payload_streak b c s partial_store_extras
    partial_payload_streak partial_store_scan pb l g
  show ?thesis by blast
qed

text \<open>
  The claim as stated fails for a payload without a streak: the fast path succeeds with
  a payload that has a heatmap and no streak, and the orchestrator opens a cursor on the
  session and computes the best streak from its messages.
\<close>

theorem fast_path_without_streak_counterexample:
  "er_success (extras_of sample_tz fast_store [sample_session] 0 0 None)
   \<and> er_data (extras_of sample_tz fast_store [sample_session] 0 0 None) = Some sample_payload
   \<and> x_streak sample_payload = None
   \<and> cursorsOpened (analyse sample_runtime sample_tz fast_store [sample_session] 0 0 None 5
        initial_accum) = [sample_session]
   \<and> longestStreak sample_tz (analyse sample_runtime sample_tz fast_store [sample_session] 0 0
        None 5 initial_accum)
       = Some \<lparr>ls_session = sample_session, ls_days = 3, ls_startDate = Some (2023, 1, 1),
               ls_endDate = Some (2023, 1, 3)\<rparr>"
  by code_simp

text \<open>
  Claim C7, as the code has it. When the connection succeeds and the session
  enumeration yields no session, the annual report is the failure "no message sessions
  found", a result of its own among the failures and not a success. The failures of a
  report are the four of the connection (no account id, no path, no key, store not
  opened), the one of an empty cleaned account id, the one of no sessions, the one of
  the base statistics, and the exception that the body throws and the \<open>catch\<close>
  returns. Each of them happens: a missing account id, path or key and a store that does
  not open fail as such; a failed or empty answer of the base statistics fails with its
  error; a rejected call (open, session enumeration, base statistics, any call of the
  analysis) and a scanned timestamp that a date cannot hold end in the caught exception.
  With base statistics the report is decided by the analysis and the contact lookups.
\<close>

theorem failures_of_the_report:
  "(ensureConnectedWithConfig rt db (p_dbPath p) (p_decryptKey p) (p_wxid p) = Inr (Inr conn) \<and>
    cleanedWxid conn \<noteq> [] \<and> getPrivateSessions rt db (cleanedWxid conn) = Inr [] \<longrightarrow>
      generateReportWithConfig rt tz db p = Inl NoSessionsFound)
   \<and> (generateReportWithConfig rt tz db p = Inl e \<longrightarrow>
        e = NoWxid \<or> e = NoDbPath \<or> e = NoDecryptKey \<or> e = OpenFailed \<or> e = NoMessage \<or>
        e = NoSessionsFound \<or> (\<exists>m. e = BaseStatsFailed m) \<or> e = Caught Thrown)
   \<and> (p_wxid p = [] \<longrightarrow> generateReportWithConfig rt tz db p = Inl NoWxid)
   \<and> (p_wxid p \<noteq> [] \<and> p_dbPath p = [] \<longrightarrow> generateReportWithConfig rt tz db p = Inl NoDbPath)
   \<and> (p_wxid p \<noteq> [] \<and> p_dbPath p \<noteq> [] \<and> p_decryptKey p = [] \<longrightarrow>
        generateReportWithConfig rt tz db p = Inl NoDecryptKey)
   \<and> (p_wxid p \<noteq> [] \<and> p_dbPath p \<noteq> [] \<and> p_decryptKey p \<noteq> [] \<and>
       \<not> rejects db (CallOpen (p_dbPath p) (p_decryptKey p) (cleanAccountDirName rt (p_wxid p))) \<and>
       \<not> wcdb_open db (p_dbPath p) (p_decryptKey p) (cleanAccountDirName rt (p_wxid p)) \<longrightarrow>
        generateReportWithConfig rt tz db p = Inl OpenFailed)
   \<and> (p_wxid p \<noteq> [] \<and> p_dbPath p \<noteq> [] \<and> p_decryptKey p \<noteq> [] \<and>
       rejects db (CallOpen (p_dbPath p) (p_decryptKey p) (cleanAccountDirName rt (p_wxid p))) \<longrightarrow>
        generateReportWithConfig rt tz db p = Inl (Caught Thrown))
   \<and> (ensureConnectedWithConfig rt db (p_dbPath p) (p_decryptKey p) (p_wxid p) = Inr (Inr conn) \<and>
       cleanedWxid conn = [] \<longrightarrow>
        generateReportWithConfig rt tz db p = Inl NoMessage)
   \<and> (ensureConnectedWithConfig rt db (p_dbPath p) (p_decryptKey p) (p_wxid p) = Inr (Inr conn) \<and>
       cleanedWxid conn \<noteq> [] \<and> rejects db CallGetSessions \<longrightarrow>
        generateReportWithConfig rt tz db p = Inl (Caught Thrown))
   \<and> (ensureConnectedWithConfig rt db (p_dbPath p) (p_decryptKey p) (p_wxid p) = Inr (Inr conn) \<and>
       cleanedWxid conn \<noteq> [] \<and> getPrivateSessions rt db (cleanedWxid conn) = Inr sids \<and>
       sids \<noteq> [] \<longrightarrow>
        (rejects db (CallStats sids (startTime_of tz (p_year p)) (endTime_of tz (p_year p))) \<longrightarrow>
           generateReportWithConfig rt tz db p = Inl (Caught Thrown))
      \<and> (\<not> rejects db (CallStats sids (startTime_of tz (p_year p)) (endTime_of tz (p_year p))) \<and>
         (\<not> sr_success (getAnnualReportStats db sids
               (startTime_of tz (p_year p)) (endTime_of tz (p_year p))) \<or>
          sr_data (getAnnualReportStats db sids
               (startTime_of tz (p_year p)) (endTime_of tz (p_year p))) = None) \<longrightarrow>
           generateReportWithConfig rt tz db p
             = Inl (BaseStatsFailed (sr_error (getAnnualReportStats db sids
                 (startTime_of tz (p_year p)) (endTime_of tz (p_year p))))))
      \<and> (\<not> rejects db (CallStats sids (startTime_of tz (p_year p)) (endTime_of tz (p_year p))) \<and>
         sr_success (getAnnualReportStats db sids
               (startTime_of tz (p_year p)) (endTime_of tz (p_year p))) \<and>
         sr_data (getAnnualReportStats db sids
               (startTime_of tz (p_year p)) (endTime_of tz (p_year p))) = Some d \<longrightarrow>
           generateReportWithConfig rt tz db p =
             (case analyse_try rt tz db sids (startTime_of tz (p_year p)) (endTime_of tz (p_year p))
                     (fst (find_peakDay (st_daily d)))
                     (if st_total d > 0 then st_total d else length sids) of
                Inl x \<Rightarrow> Inl (Caught x)
              | Inr a \<Rightarrow>
                  if raised db [CallDisplayNames (st_sessions d), CallAvatarUrls (st_sessions d),
                                CallAvatarUrls [rawWxid conn, cleanedWxid conn]]
                  then Inl (Caught Thrown)
                  else Inr \<lparr>r_year = (if p_year p \<le> 0 then 0 else p_year p),
                            r_totalMessages = st_total d,
                            r_longestStreak = longestStreak tz a,
                            r_activityHeatmap = heatmapData a,
                            r_topPhrases = topPhrases a,
                            r_accum = a\<rparr>)))
   \<and> (rejects db call \<and> call \<in> set (analysis_calls rt tz db sids st en pk tot) \<longrightarrow>
        analyse_try rt tz db sids st en pk tot = Inl Thrown)
   \<and> (\<not> useSqlExtras (analyse rt tz db sids st en pk tot initial_accum) \<and>
       r \<in> set (timed (scanned_rows db st en sids)) \<and> \<not> date_in_range (create_time r) \<longrightarrow>
        analyse_try rt tz db sids st en pk tot = Inl Thrown)"
proof (intro conjI impI)
  note c = connection_cases [of rt db "p_dbPath p" "p_decryptKey p" "p_wxid p"]
  show "generateReportWithConfig rt tz db p = Inl NoWxid" if "p_wxid p = []"
    using that c by (simp add: generate_connection_failed)
  show "generateReportWithConfig rt tz db p = Inl NoDbPath" if "p_wxid p \<noteq> [] \<and> p_dbPath p = []"
    using that c by (simp add: generate_connection_failed)
  show "generateReportWithConfig rt tz db p = Inl NoDecryptKey"
    if "p_wxid p \<noteq> [] \<and> p_dbPath p \<noteq> [] \<and> p_decryptKey p = []"
    using that c by (simp add: generate_connection_failed)
  show "generateReportWithConfig rt tz db p = Inl OpenFailed"
    if "p_wxid p \<noteq> [] \<and> p_dbPath p \<noteq> [] \<and> p_decryptKey p \<noteq> [] \<and>
       \<not> rejects db (CallOpen (p_dbPath p) (p_decryptKey p) (cleanAccountDirName rt (p_wxid p))) \<and>
       \<not> wcdb_open db (p_dbPath p) (p_decryptKey p) (cleanAccountDirName rt (p_wxid p))"
    using that c by (simp add: generate_connection_failed)
  show "generateReportWithConfig rt tz db p = Inl (Caught Thrown)"
    if "p_wxid p \<noteq> [] \<and> p_dbPath p \<noteq> [] \<and> p_decryptKey p \<noteq> [] \<and>
       rejects db (CallOpen (p_dbPath p) (p_decryptKey p) (cleanAccountDirName rt (p_wxid p)))"
    using that c by (simp add: generate_connection_thrown)
next
  assume "ensureConnectedWithConfig rt db (p_dbPath p) (p_decryptKey p) (p_wxid p) = Inr (Inr conn) \<and>
    cleanedWxid conn \<noteq> [] \<and> getPrivateSessions rt db (cleanedWxid conn) = Inr []"
  then show "generateReportWithConfig rt tz db p = Inl NoSessionsFound"
    using generate_no_sessions [of rt db p conn tz] by blast
next
  assume "generateReportWithConfig rt tz db p = Inl e"
  then show "e = NoWxid \<or> e = NoDbPath \<or> e = NoDecryptKey \<or> e = OpenFailed \<or> e = NoMessage \<or>
        e = NoSessionsFound \<or> (\<exists>m. e = BaseStatsFailed m) \<or> e = Caught Thrown"
    by (rule generate_errors)
next
  assume "ensureConnectedWithConfig rt db (p_dbPath p) (p_decryptKey p) (p_wxid p) = Inr (Inr conn) \<and>
       cleanedWxid conn = []"
  then show "generateReportWithConfig rt tz db p = Inl NoMessage"
    by (simp add: generateReportWithConfig_def generateReport_try_def)
next
  assume "ensureConnectedWithConfig rt db (p_dbPath p) (p_decryptKey p) (p_wxid p) = Inr (Inr conn) \<and>
       cleanedWxid conn \<noteq> [] \<and> rejects db CallGetSessions"
  then show "generateReportWithConfig rt tz db p = Inl (Caught Thrown)"
    using generate_sessions_thrown [of rt db p conn Thrown tz]
    by (simp add: getPrivateSessions_def)
next
  assume a: "ensureConnectedWithConfig rt db (p_dbPath p) (p_decryptKey p) (p_wxid p) = Inr (Inr conn) \<and>
       cleanedWxid conn \<noteq> [] \<and> getPrivateSessions rt db (cleanedWxid conn) = Inr sids \<and>
       sids \<noteq> []"
  assume "rejects db (CallStats sids (startTime_of tz (p_year p)) (endTime_of tz (p_year p)))"
  with a show "generateReportWithConfig rt tz db p = Inl (Caught Thrown)"
    using generate_stats_thrown [of rt db p conn sids tz] by blast
next
  assume a: "ensureConnectedWithConfig rt db (p_dbPath p) (p_decryptKey p) (p_wxid p) = Inr (Inr conn) \<and>
       cleanedWxid conn \<noteq> [] \<and> getPrivateSessions rt db (cleanedWxid conn) = Inr sids \<and>
       sids \<noteq> []"
  assume "\<not> rejects db (CallStats sids (startTime_of tz (p_year p)) (endTime_of tz (p_year p))) \<and>
         (\<not> sr_success (getAnnualReportStats db sids
               (startTime_of tz (p_year p)) (endTime_of tz (p_year p))) \<or>
          sr_data (getAnnualReportStats db sids
               (startTime_of tz (p_year p)) (endTime_of tz (p_year p))) = None)"
  with a show "generateReportWithConfig rt tz db p
             = Inl (BaseStatsFailed (sr_error (getAnnualReportStats db sids
                 (startTime_of tz (p_year p)) (endTime_of tz (p_year p)))))"
    using generate_stats_failed [of rt db p conn sids tz] by blast
next
  assume a: "ensureConnectedWithConfig rt db (p_dbPath p) (p_decryptKey p) (p_wxid p) = Inr (Inr conn) \<and>
       cleanedWxid conn \<noteq> [] \<and> getPrivateSessions rt db (cleanedWxid conn) = Inr sids \<and>
       sids \<noteq> []"
  assume "\<not> rejects db (CallStats sids (startTime_of tz (p_year p)) (endTime_of tz (p_year p))) \<and>
         sr_success (getAnnualReportStats db sids
               (startTime_of tz (p_year p)) (endTime_of tz (p_year p))) \<and>
         sr_data (getAnnualReportStats db sids
               (startTime_of tz (p_year p)) (endTime_of tz (p_year p))) = Some d"
  with a show "generateReportWithConfig rt tz db p =
             (case analyse_try rt tz db sids (startTime_of tz (p_year p)) (endTime_of tz (p_year p))
                     (fst (find_peakDay (st_daily d)))
                     (if st_total d > 0 then st_total d else length sids) of
                Inl x \<Rightarrow> Inl (Caught x)
              | Inr a \<Rightarrow>
                  if raised db [CallDisplayNames (st_sessions d), CallAvatarUrls (st_sessions d),
                                CallAvatarUrls [rawWxid conn, cleanedWxid conn]]
                  then Inl (Caught Thrown)
                  else Inr \<lparr>r_year = (if p_year p \<le> 0 then 0 else p_year p),
                            r_totalMessages = st_total d,
                            r_longestStreak = longestStreak tz a,
                            r_activityHeatmap = heatmapData a,
                            r_topPhrases = topPhrases a,
                            r_accum = a\<rparr>)"
    using generate_analysed [of rt db p conn sids tz d] by blast
next
  assume "rejects db call \<and> call \<in> set (analysis_calls rt tz db sids st en pk tot)"
  then show "analyse_try rt tz db sids st en pk tot = Inl Thrown"
    using analyse_try_rejected by blast
next
  assume "\<not> useSqlExtras (analyse rt tz db sids st en pk tot initial_accum) \<and>
       r \<in> set (timed (scanned_rows db st en sids)) \<and> \<not> date_in_range (create_time r)"
  then show "analyse_try rt tz db sids st en pk tot = Inl Thrown"
    using analyse_try_date by blast
qed

lemma empty_store_connects:
  "ensureConnectedWithConfig sample_runtime empty_store (p_dbPath sample_params)
     (p_decryptKey sample_params) (p_wxid sample_params)
   = Inr (Inr \<lparr>cleanedWxid = str ''wxid_me'', rawWxid = str ''wxid_me''\<rparr>)"
  by code_simp

lemma empty_store_sessions:
  "cleanedWxid \<lparr>cleanedWxid = str ''wxid_me'', rawWxid = str ''wxid_me''\<rparr> \<noteq> [] \<and>
   getPrivateSessions sample_runtime empty_store
     (cleanedWxid \<lparr>cleanedWxid = str ''wxid_me'', rawWxid = str ''wxid_me''\<rparr>) = Inr []"
  by code_simp

lemma rejecting_store_connects:
  "ensureConnectedWithConfig sample_runtime rejecting_store (p_dbPath sample_params)
     (p_decryptKey sample_params) (p_wxid sample_params)
   = Inr (Inr \<lparr>cleanedWxid = str ''wxid_me'', rawWxid = str ''wxid_me''\<rparr>)
   \<and> rejects rejecting_store CallGetSessions"
  by code_simp

lemma no_key: "p_wxid (sample_params\<lparr>p_decryptKey := []\<rparr>) \<noteq> [] \<and>
   p_dbPath (sample_params\<lparr>p_decryptKey := []\<rparr>) \<noteq> [] \<and>
   p_decryptKey (sample_params\<lparr>p_decryptKey := []\<rparr>) = []"
  by code_simp

theorem failures_of_the_report_witness:
  "ensureConnectedWithConfig sample_runtime empty_store (p_dbPath sample_params)
     (p_decryptKey sample_params) (p_wxid sample_params)
     = Inr (Inr \<lparr>cleanedWxid = str ''wxid_me'', rawWxid = str ''wxid_me''\<rparr>)
   \<and> generateReportWithConfig sample_runtime sample_tz empty_store sample_params
       = Inl NoSessionsFound
   \<and> rejects rejecting_store CallGetSessions
   \<and> generateReportWithConfig sample_runtime sample_tz rejecting_store sample_params
       = Inl (Caught Thrown)
   \<and> generateReportWithConfig sample_runtime sample_tz sample_store
        (sample_params\<lparr>p_decryptKey := []\<rparr>) = Inl NoDecryptKey"
proof -
  note empty = failures_of_the_report [where rt = sample_runtime and db = empty_store
      and p = sample_params and tz = sample_tz
      and conn = "\<lparr>cleanedWxid = str ''wxid_me'', rawWxid = str ''wxid_me''\<rparr>"]
  note rejecting = failures_of_the_report [where rt = sample_runtime and db = rejecting_store
      and p = sample_params and tz = sample_tz
      and conn = "\<lparr>cleanedWxid = str ''wxid_me'', rawWxid = str ''wxid_me''\<rparr>"]
  note nokey = failures_of_the_report [where rt = sample_runtime and db = sample_store
      and p = "sample_params\<lparr>p_decryptKey := []\<rparr>" and tz = sample_tz]
  from empty empty_store_connects empty_store_sessions
  have 1: "generateReportWithConfig sample_runtime sample_tz empty_store sample_params
       = Inl NoSessionsFound" by blast
  from rejecting rejecting_store_connects empty_store_sessions
  have 2: "generateReportWithConfig sample_runtime sample_tz rejecting_store sample_params
       = Inl (Caught Thrown)" by blast
  from nokey no_key
  have 3: "generateReportWithConfig sample_runtime sample_tz sample_store
        (sample_params\<lparr>p_decryptKey := []\<rparr>) = Inl NoDecryptKey" by blast
  from 1 2 3 empty_store_connects rejecting_store_connects show ?thesis by blast
qed

text \<open>
  The claim as stated fails: with valid credentials and no session the report is a
  failure, and with valid credentials and a session a failed base statistics query is a
  failure too.
\<close>

theorem no_sessions_counterexample:
  "getPrivateSessions sample_runtime empty_store (str ''wxid_me'') = Inr []
   \<and> generateReportWithConfig sample_runtime sample_tz empty_store sample_params
       = Inl NoSessionsFound
   \<and> getPrivateSessions sample_runtime failing_stats_store (str ''wxid_me'') = Inr [sample_session]
   \<and> generateReportWithConfig sample_runtime sample_tz failing_stats_store sample_params
       = Inl (BaseStatsFailed None)"
  by code_simp

end
